theory Spec2Isabelle
  imports Main "HOL-Library.Word" "HOL-Library.AList"
begin

section \<open>Strings\<close>

text \<open>
  Go's \<open>strings\<close> functions as the client and the reconcilers use them. A Go string is a
  byte sequence, a \<open>string\<close> here. Every separator and cutset in the source is a single
  ASCII byte (\<open>"/"\<close> and \<open>":"\<close>), so \<open>Split\<close> takes the separator as one character.
\<close>

definition HasPrefix :: "string \<Rightarrow> string \<Rightarrow> bool" where
  "HasPrefix s p = (take (length p) s = p)"

definition HasSuffix :: "string \<Rightarrow> string \<Rightarrow> bool" where
  "HasSuffix s p = (length p \<le> length s \<and> drop (length s - length p) s = p)"

definition TrimSuffix :: "string \<Rightarrow> string \<Rightarrow> string" where
  "TrimSuffix s p = (if HasSuffix s p then take (length s - length p) s else s)"

definition TrimLeft :: "string \<Rightarrow> string \<Rightarrow> string" where
  "TrimLeft s cutset = dropWhile (\<lambda>x. x \<in> set cutset) s"

definition TrimRight :: "string \<Rightarrow> string \<Rightarrow> string" where
  "TrimRight s cutset = rev (dropWhile (\<lambda>x. x \<in> set cutset) (rev s))"

fun Split :: "string \<Rightarrow> char \<Rightarrow> string list" where
  "Split [] sep = [[]]"
| "Split (x # xs) sep =
     (if x = sep then [] # Split xs sep
      else (case Split xs sep of [] \<Rightarrow> [[x]] | p # ps \<Rightarrow> (x # p) # ps))"

text \<open>\<open>fmt.Sprintf("%d", n)\<close>: the decimal digits of an integer, with a minus sign.\<close>

definition digit_char :: "nat \<Rightarrow> char" where
  "digit_char d = ''0123456789'' ! d"

fun nat_digits :: "nat \<Rightarrow> string" where
  "nat_digits n = (if n < 10 then [digit_char n] else nat_digits (n div 10) @ [digit_char (n mod 10)])"

declare nat_digits.simps [simp del]

definition Sprintf_d :: "int \<Rightarrow> string" where
  "Sprintf_d n = (if n < 0 then CHR ''-'' # nat_digits (nat (- n)) else nat_digits (nat n))"

text \<open>
  \<open>base64.StdEncoding\<close>, which \<open>Request.SetBasicAuth\<close> applies to \<open>username:password\<close>.
\<close>

definition b64_alphabet :: string where
  "b64_alphabet = ''ABCDEFGHIJKLMNOPQRSTUVWXYZabcdefghijklmnopqrstuvwxyz0123456789+/''"

definition b64_char :: "nat \<Rightarrow> char" where
  "b64_char n = b64_alphabet ! (n mod 64)"

fun b64_bytes :: "nat list \<Rightarrow> string" where
  "b64_bytes [] = []"
| "b64_bytes [a] = [b64_char (a div 4), b64_char ((a mod 4) * 16), CHR ''='', CHR ''='']"
| "b64_bytes [a, b] =
     [b64_char (a div 4), b64_char ((a mod 4) * 16 + b div 16), b64_char ((b mod 16) * 4), CHR ''='']"
| "b64_bytes (a # b # c # rest) =
     [b64_char (a div 4), b64_char ((a mod 4) * 16 + b div 16),
      b64_char ((b mod 16) * 4 + c div 64), b64_char (c mod 64)] @ b64_bytes rest"

definition base64_StdEncoding :: "string \<Rightarrow> string" where
  "base64_StdEncoding s = b64_bytes (map of_char s)"

section \<open>Errors\<close>

text \<open>
  A Go \<open>error\<close> of the client is the sentinel \<open>ErrNotFound\<close>, an error made by
  \<open>errors.New\<close> or by \<open>fmt.Errorf\<close> without \<open>%w\<close> (its message), or an error made by
  \<open>fmt.Errorf\<close> with one \<open>%w\<close>: the text before the verb, the wrapped error and the text
  after it. Errors of the standard library (transport, request construction, decoding)
  are opaque messages; none of them is \<open>ErrNotFound\<close>, which only this package returns.
\<close>

datatype error = ErrNotFound | New string | Wrapf string error string

fun Error :: "error \<Rightarrow> string" where
  "Error ErrNotFound = ''not found''"
| "Error (New m) = m"
| "Error (Wrapf p e s) = p @ Error e @ s"

text \<open>\<open>errors.Is\<close>: the error itself or one it wraps, through any number of \<open>%w\<close>.\<close>

fun errors_Is :: "error \<Rightarrow> error \<Rightarrow> bool" where
  "errors_Is (Wrapf p e s) target = (Wrapf p e s = target \<or> errors_Is e target)"
| "errors_Is e target = (e = target)"

section \<open>Data types of the client\<close>

record UserData =
  Username :: string
  Url :: string
  Email :: string
  Groups :: "string list"

record UserCreateData =
  Username :: string
  Password :: string
  Email :: string
  Groups :: "string list"

record DomainUserPermissionCreateData =
  UserID :: string
  Domain :: string
  AccessLevel :: string

record DomainUserPermissionCreatePayloadData =
  UserID :: string
  Domain :: int
  AccessLevel :: string

record DomainUserPermissionData =
  UserID :: int
  Domain :: int
  AccessLevel :: string
  ID :: int

record DomainData =
  Fqdn :: string
  ID :: int

text \<open>
  A request body is the JSON encoding of one of three structs. \<open>json.Marshal\<close> of a
  struct of strings, string slices and integers does not fail and determines the struct,
  so the body is kept as the value that was marshalled.
\<close>

datatype payload =
    UserCreatePayload UserCreateData
  | DomainPayload DomainData
  | PermissionPayload DomainUserPermissionCreatePayloadData

record request =
  Method :: string
  URL :: string
  Header :: "(string \<times> string) list"
  Body :: "payload option"

text \<open>
  A response has a status code and a body; reading the body (\<open>io.ReadAll\<close>) yields its
  bytes or fails with a message.
\<close>

record response =
  StatusCode :: int
  RespBody :: "string + string"

text \<open>
  The remote service and the transport: given the requests dispatched so far (oldest
  first) and a request, a transport failure (its message) or a response.
\<close>

type_synonym server = "request list \<Rightarrow> request \<Rightarrow> string + response"

text \<open>
  What the client takes from the standard library and the process environment:
  \<^item> \<open>url_Parse_IsAbs u\<close>: \<open>url.Parse(u)\<close> succeeds and the result \<open>IsAbs()\<close>;
  \<^item> \<open>os_Getenv\<close>; \<open>time_ParseDuration\<close> and \<open>strconv_Atoi\<close>, \<open>None\<close> on error;
  \<^item> \<open>http_NewRequest_err method url\<close>: the error of \<open>http.NewRequest\<close>, if any;
  \<^item> \<open>url_PathEscape\<close>, \<open>url_QueryEscape\<close>;
  \<^item> \<open>json.Unmarshal\<close> of a body into each target type: the decoding error's message
    or the decoded value.
\<close>

record env =
  url_Parse_IsAbs :: "string \<Rightarrow> bool"
  os_Getenv :: "string \<Rightarrow> string"
  time_ParseDuration :: "string \<Rightarrow> 64 word option"
  strconv_Atoi :: "string \<Rightarrow> 64 word option"
  http_NewRequest_err :: "string \<Rightarrow> string \<Rightarrow> string option"
  url_PathEscape :: "string \<Rightarrow> string"
  url_QueryEscape :: "string \<Rightarrow> string"
  Unmarshal_UserData :: "string \<Rightarrow> string + UserData"
  Unmarshal_UserData_list :: "string \<Rightarrow> string + UserData list"
  Unmarshal_DomainData :: "string \<Rightarrow> string + DomainData"
  Unmarshal_DomainData_list :: "string \<Rightarrow> string + DomainData list"
  Unmarshal_PermissionData :: "string \<Rightarrow> string + DomainUserPermissionData"
  Unmarshal_PermissionData_list :: "string \<Rightarrow> string + DomainUserPermissionData list"

section \<open>The client\<close>

record http_Client =
  Timeout :: "64 word"

record Client =
  BaseURL :: string
  Username :: string
  Password :: string
  HTTPClient :: http_Client

definition time_Second :: "64 word" where
  "time_Second = 1000000000"

text \<open>
  \<open>NewClient\<close>. The pointer arguments are options. The address is parsed once; when that
  fails or gives a relative URL and the address has no scheme prefix, \<open>https://\<close> is put
  in front and it is parsed again. The two messages that quote their argument with \<open>%q\<close>
  are kept without the quoting and without the library error that follows.
\<close>

definition resolve_address :: "env \<Rightarrow> string \<Rightarrow> error + string" where
  "resolve_address env u =
     (if \<not> url_Parse_IsAbs env u then
        (if \<not> HasPrefix u ''http://'' \<and> \<not> HasPrefix u ''https://'' then
           (let u' = ''https://'' @ u in
            if \<not> url_Parse_IsAbs env u' then Inl (New (''invalid address '' @ u)) else Inr u')
         else Inl (New (''invalid address '' @ u)))
      else Inr u)"

definition resolve_timeout :: "env \<Rightarrow> error + 64 word" where
  "resolve_timeout env =
     (let v = os_Getenv env ''LEGOCHARM_API_TIMEOUT'' in
      if v \<noteq> [] then
        (case time_ParseDuration env v of
           Some d \<Rightarrow> Inr d
         | None \<Rightarrow>
             (case strconv_Atoi env v of
                Some s \<Rightarrow> Inr (s * time_Second)
              | None \<Rightarrow> Inl (New (''invalid LEGOCHARM_API_TIMEOUT '' @ v))))
      else Inr (120 * time_Second))"

definition NewClient :: "env \<Rightarrow> string option \<Rightarrow> string option \<Rightarrow> string option \<Rightarrow> error + Client" where
  "NewClient env address username password =
     (if address = None \<or> address = Some [] then Inl (New ''address is required'')
      else if username = None \<or> username = Some [] then Inl (New ''username is required'')
      else if password = None \<or> password = Some [] then Inl (New ''password is required'')
      else
        (case resolve_address env (the address) of
           Inl err \<Rightarrow> Inl err
         | Inr u \<Rightarrow>
             (case resolve_timeout env of
                Inl err \<Rightarrow> Inl err
              | Inr timeout \<Rightarrow>
                  Inr \<lparr>BaseURL = TrimRight u ''/'', Username = the username,
                       Password = the password, HTTPClient = \<lparr>Timeout = timeout\<rparr>\<rparr>)))"

text \<open>
  \<open>http.NewRequest\<close> (an empty method is \<open>GET\<close>; the header starts empty), and the header
  operations, on keys that are already in canonical form.
\<close>

definition http_NewRequest :: "env \<Rightarrow> string \<Rightarrow> string \<Rightarrow> payload option \<Rightarrow> error + request" where
  "http_NewRequest env method url body =
     (case http_NewRequest_err env method url of
        Some m \<Rightarrow> Inl (New m)
      | None \<Rightarrow>
          Inr \<lparr>Method = (if method = [] then ''GET'' else method), URL = url,
               Header = [], Body = body\<rparr>)"

definition Header_Set :: "string \<Rightarrow> string \<Rightarrow> request \<Rightarrow> request" where
  "Header_Set k v req = req\<lparr>Header := AList.update k v (Header req)\<rparr>"

definition Header_Get :: "request \<Rightarrow> string \<Rightarrow> string" where
  "Header_Get req k = (case map_of (Header req) k of None \<Rightarrow> [] | Some v \<Rightarrow> v)"

definition SetBasicAuth :: "string \<Rightarrow> string \<Rightarrow> request \<Rightarrow> request" where
  "SetBasicAuth username password req =
     Header_Set ''Authorization'' (''Basic '' @ base64_StdEncoding (username @ '':'' @ password)) req"

definition NewRequest :: "env \<Rightarrow> Client option \<Rightarrow> string \<Rightarrow> string \<Rightarrow> payload option \<Rightarrow> error + request" where
  "NewRequest env c method path body =
     (case c of
        None \<Rightarrow> Inl (New ''client is nil'')
      | Some c \<Rightarrow>
          (let rel = TrimLeft path ''/'';
               full = BaseURL c @ ''/'' @ rel
           in case http_NewRequest env method full body of
                Inl err \<Rightarrow> Inl err
              | Inr req \<Rightarrow>
                  (let req = SetBasicAuth (Client.Username c) (Client.Password c) req;
                       req = Header_Set ''User-Agent'' ''terraform-provider-legocharm'' req;
                       req = (if body \<noteq> None \<and> Header_Get req ''Content-Type'' = []
                              then Header_Set ''Content-Type'' ''application/json'' req else req)
                   in Inr req)))"

text \<open>\<open>Do\<close> dispatches the request: it is appended to the requests sent so far.\<close>

definition Do :: "server \<Rightarrow> Client option \<Rightarrow> request \<Rightarrow> request list \<Rightarrow> (error + response) \<times> request list" where
  "Do srv c req log =
     (case c of
        None \<Rightarrow> (Inl (New ''client is nil''), log)
      | Some _ \<Rightarrow>
          (case srv log req of
             Inl m \<Rightarrow> (Inl (New m), log @ [req])
           | Inr resp \<Rightarrow> (Inr resp, log @ [req])))"

definition ReadAll :: "response \<Rightarrow> error + string" where
  "ReadAll resp = (case RespBody resp of Inl m \<Rightarrow> Inl (New m) | Inr b \<Rightarrow> Inr b)"

definition LastPathSegment :: "string \<Rightarrow> string" where
  "LastPathSegment u =
     (let u = TrimSuffix u ''/''; parts = Split u CHR ''/''
      in if length parts = 0 then [] else parts ! (length parts - 1))"


section \<open>Lookups\<close>

definition GetUserById :: "env \<Rightarrow> server \<Rightarrow> Client \<Rightarrow> string \<Rightarrow> request list \<Rightarrow> (error + UserData) \<times> request list" where
  "GetUserById env srv c userId log =
     (case NewRequest env (Some c) ''GET'' (''/api/v1/users/'' @ url_PathEscape env userId @ ''/'') None of
        Inl err \<Rightarrow> (Inl (Wrapf ''failed to create request: '' err []), log)
      | Inr req \<Rightarrow>
          (case Do srv (Some c) req log of
             (Inl err, log') \<Rightarrow> (Inl (Wrapf ''failed to execute request: '' err []), log')
           | (Inr resp, log') \<Rightarrow>
               if StatusCode resp = 404 then (Inl ErrNotFound, log')
               else
                 (case ReadAll resp of
                    Inl err \<Rightarrow> (Inl (Wrapf ''failed to read response body: '' err []), log')
                  | Inr body \<Rightarrow>
                      (case Unmarshal_UserData env body of
                         Inl m \<Rightarrow>
                           (Inl (Wrapf ''failed to parse user response: '' (New m)
                                   ('' (body: '' @ body @ '')'')), log')
                       | Inr userData \<Rightarrow> (Inr userData, log')))))"

definition GetUserByUsername :: "env \<Rightarrow> server \<Rightarrow> Client \<Rightarrow> string \<Rightarrow> request list \<Rightarrow> (error + UserData) \<times> request list" where
  "GetUserByUsername env srv c username log =
     (case NewRequest env (Some c) ''GET'' (''/api/v1/users/?username='' @ url_QueryEscape env username) None of
        Inl err \<Rightarrow> (Inl (Wrapf ''failed to create request: '' err []), log)
      | Inr req \<Rightarrow>
          (case Do srv (Some c) req log of
             (Inl err, log') \<Rightarrow> (Inl (Wrapf ''failed to execute request: '' err []), log')
           | (Inr resp, log') \<Rightarrow>
               if StatusCode resp = 404 then (Inl ErrNotFound, log')
               else
                 (case ReadAll resp of
                    Inl err \<Rightarrow> (Inl (Wrapf ''failed to read response body: '' err []), log')
                  | Inr body \<Rightarrow>
                      (case Unmarshal_UserData_list env body of
                         Inr list \<Rightarrow>
                           if length list = 0 then (Inl ErrNotFound, log')
                           else (Inr (list ! 0), log')
                       | Inl _ \<Rightarrow>
                           (case Unmarshal_UserData env body of
                              Inr single \<Rightarrow> (Inr single, log')
                            | Inl _ \<Rightarrow>
                                (Inl (New (''failed to parse user response: '' @ body)), log'))))))"

definition GetDomainAccess :: "env \<Rightarrow> server \<Rightarrow> Client \<Rightarrow> string \<Rightarrow> string \<Rightarrow> request list \<Rightarrow> (error + DomainUserPermissionData) \<times> request list" where
  "GetDomainAccess env srv c userId domain log =
     (case GetUserById env srv c userId log of
        (Inl err, log) \<Rightarrow> (Inl (Wrapf ''failed to get user data: '' err []), log)
      | (Inr user, log) \<Rightarrow>
          (let username = UserData.Username user in
           case NewRequest env (Some c) ''GET''
                  (''/api/v1/domain-user-permissions/?username='' @ url_QueryEscape env username
                     @ ''&fqdn='' @ url_QueryEscape env domain) None of
             Inl err \<Rightarrow> (Inl (Wrapf ''failed to create request: '' err []), log)
           | Inr req \<Rightarrow>
               (case Do srv (Some c) req log of
                  (Inl err, log') \<Rightarrow> (Inl (Wrapf ''failed to execute request: '' err []), log')
                | (Inr resp, log') \<Rightarrow>
                    if StatusCode resp = 404 then (Inl ErrNotFound, log')
                    else
                      (case ReadAll resp of
                         Inl err \<Rightarrow> (Inl (Wrapf ''failed to read response body: '' err []), log')
                       | Inr body \<Rightarrow>
                           (case Unmarshal_PermissionData_list env body of
                              Inr list \<Rightarrow>
                                if length list = 0 then (Inl ErrNotFound, log')
                                else (Inr (list ! 0), log')
                            | Inl _ \<Rightarrow>
                                (case Unmarshal_PermissionData env body of
                                   Inr single \<Rightarrow> (Inr single, log')
                                 | Inl _ \<Rightarrow>
                                     (Inl (New (''failed to parse domain access response: '' @ body)),
                                      log')))))))"

definition GetDomain :: "env \<Rightarrow> server \<Rightarrow> Client \<Rightarrow> string \<Rightarrow> request list \<Rightarrow> (error + DomainData) \<times> request list" where
  "GetDomain env srv c fqdn log =
     (case NewRequest env (Some c) ''GET'' (''/api/v1/domains/?fqdn='' @ url_QueryEscape env fqdn) None of
        Inl err \<Rightarrow> (Inl (Wrapf ''failed to create request: '' err []), log)
      | Inr req \<Rightarrow>
          (case Do srv (Some c) req log of
             (Inl err, log') \<Rightarrow> (Inl (Wrapf ''failed to execute request: '' err []), log')
           | (Inr resp, log') \<Rightarrow>
               if StatusCode resp = 404 then (Inl ErrNotFound, log')
               else
                 (case ReadAll resp of
                    Inl err \<Rightarrow> (Inl (Wrapf ''failed to read response body: '' err []), log')
                  | Inr body \<Rightarrow>
                      (case Unmarshal_DomainData_list env body of
                         Inr list \<Rightarrow>
                           if length list = 0 then (Inl ErrNotFound, log')
                           else (Inr (list ! 0), log')
                       | Inl _ \<Rightarrow>
                           (case Unmarshal_DomainData env body of
                              Inr single \<Rightarrow> (Inr single, log')
                            | Inl _ \<Rightarrow>
                                (Inl (New (''failed to parse domain response: '' @ body)), log'))))))"

section \<open>Creating and deleting\<close>

text \<open>
  \<open>json.Marshal\<close> of the three payload structs; the error branch of the callers is kept
  although marshalling these structs has no error.
\<close>

definition Marshal :: "payload \<Rightarrow> error + payload" where
  "Marshal v = Inr v"

definition CreateUser :: "env \<Rightarrow> server \<Rightarrow> Client \<Rightarrow> UserCreateData \<Rightarrow> request list \<Rightarrow> (error + UserData) \<times> request list" where
  "CreateUser env srv c user log =
     (case Marshal (UserCreatePayload user) of
        Inl err \<Rightarrow> (Inl (Wrapf ''failed to marshal user data: '' err []), log)
      | Inr b \<Rightarrow>
     (case NewRequest env (Some c) ''POST'' ''/api/v1/users/'' (Some b) of
        Inl err \<Rightarrow> (Inl (Wrapf ''failed to create request: '' err []), log)
      | Inr req \<Rightarrow>
          (case Do srv (Some c) req log of
             (Inl err, log') \<Rightarrow> (Inl (Wrapf ''failed to execute request: '' err []), log')
           | (Inr resp, log') \<Rightarrow>
               (case ReadAll resp of
                  Inl err \<Rightarrow> (Inl (Wrapf ''failed to read response body: '' err []), log')
                | Inr body \<Rightarrow>
                    if StatusCode resp < 200 \<or> StatusCode resp \<ge> 400 then
                      (Inl (New (''failed to create user: status '' @ Sprintf_d (StatusCode resp)
                                 @ '', body: '' @ body)), log')
                    else
                      (case Unmarshal_UserData env body of
                         Inl m \<Rightarrow>
                           (Inl (Wrapf ''failed to parse user response: '' (New m)
                                   ('' (body: '' @ body @ '')'')), log')
                       | Inr userData \<Rightarrow> (Inr userData, log'))))))"

definition CreateDomain :: "env \<Rightarrow> server \<Rightarrow> Client \<Rightarrow> DomainData \<Rightarrow> request list \<Rightarrow> (error + DomainData) \<times> request list" where
  "CreateDomain env srv c domain log =
     (case Marshal (DomainPayload domain) of
        Inl err \<Rightarrow> (Inl (Wrapf ''failed to marshal domain data: '' err []), log)
      | Inr b \<Rightarrow>
     (case NewRequest env (Some c) ''POST'' ''/api/v1/domains/'' (Some b) of
        Inl err \<Rightarrow> (Inl (Wrapf ''failed to create request: '' err []), log)
      | Inr req \<Rightarrow>
          (case Do srv (Some c) req log of
             (Inl err, log') \<Rightarrow> (Inl (Wrapf ''failed to execute request: '' err []), log')
           | (Inr resp, log') \<Rightarrow>
               (case ReadAll resp of
                  Inl err \<Rightarrow> (Inl (Wrapf ''failed to read response body: '' err []), log')
                | Inr body \<Rightarrow>
                    if StatusCode resp < 200 \<or> StatusCode resp \<ge> 400 then
                      (Inl (New (''failed to create domain: status '' @ Sprintf_d (StatusCode resp)
                                 @ '', body: '' @ body)), log')
                    else
                      (case Unmarshal_DomainData env body of
                         Inl m \<Rightarrow>
                           (Inl (Wrapf ''failed to parse domain response: '' (New m)
                                   ('' (body: '' @ body @ '')'')), log')
                       | Inr domainData \<Rightarrow> (Inr domainData, log'))))))"

text \<open>
  \<open>CreateDomainAccess\<close>: the domain is looked up by its FQDN and created when the lookup
  says \<open>ErrNotFound\<close>; the permission is then posted with the domain's ID. The zero value
  of \<open>DomainData.ID\<close> in the struct literal is written out.
\<close>

definition CreateDomainAccess :: "env \<Rightarrow> server \<Rightarrow> Client \<Rightarrow> DomainUserPermissionCreateData \<Rightarrow> request list \<Rightarrow> (error + DomainUserPermissionData) \<times> request list" where
  "CreateDomainAccess env srv c access log =
     (case GetDomain env srv c (DomainUserPermissionCreateData.Domain access) log of
        (r, log) \<Rightarrow>
     (case (case r of
              Inl err \<Rightarrow>
                if err \<noteq> ErrNotFound then (Inl (Wrapf ''failed to get domain data: '' err []), log)
                else
                  (case CreateDomain env srv c
                          \<lparr>Fqdn = DomainUserPermissionCreateData.Domain access, ID = 0\<rparr> log of
                     (Inl err, log) \<Rightarrow> (Inl (Wrapf ''failed to create domain: '' err []), log)
                   | (Inr newDomainData, log) \<Rightarrow> (Inr newDomainData, log))
            | Inr domainData \<Rightarrow> (Inr domainData, log)) of
        (Inl err, log) \<Rightarrow> (Inl err, log)
      | (Inr domainData, log) \<Rightarrow>
     (let payloadData =
            \<lparr>DomainUserPermissionCreatePayloadData.UserID = DomainUserPermissionCreateData.UserID access,
             Domain = DomainData.ID domainData,
             AccessLevel = DomainUserPermissionCreateData.AccessLevel access\<rparr>
      in
     (case Marshal (PermissionPayload payloadData) of
        Inl err \<Rightarrow> (Inl (Wrapf ''failed to marshal payload data: '' err []), log)
      | Inr b \<Rightarrow>
     (case NewRequest env (Some c) ''POST'' ''/api/v1/domain-user-permissions/'' (Some b) of
        Inl err \<Rightarrow> (Inl (Wrapf ''failed to create request: '' err []), log)
      | Inr req \<Rightarrow>
          (case Do srv (Some c) req log of
             (Inl err, log') \<Rightarrow> (Inl (Wrapf ''failed to execute request: '' err []), log')
           | (Inr resp, log') \<Rightarrow>
               (case ReadAll resp of
                  Inl err \<Rightarrow> (Inl (Wrapf ''failed to read response body: '' err []), log')
                | Inr body \<Rightarrow>
                    if StatusCode resp < 200 \<or> StatusCode resp \<ge> 400 then
                      (Inl (New (''failed to create domain access: status ''
                                 @ Sprintf_d (StatusCode resp) @ '', body: '' @ body)), log')
                    else
                      (case Unmarshal_PermissionData env body of
                         Inl m \<Rightarrow>
                           (Inl (Wrapf ''failed to parse domain access response: '' (New m)
                                   ('' (body: '' @ body @ '')'')), log')
                       | Inr accessData \<Rightarrow> (Inr accessData, log')))))))))"

definition DeleteDomainAccess :: "env \<Rightarrow> server \<Rightarrow> Client \<Rightarrow> int \<Rightarrow> request list \<Rightarrow> (error + response) \<times> request list" where
  "DeleteDomainAccess env srv c permId log =
     (let path = ''/api/v1/domain-user-permissions/'' @ Sprintf_d permId @ ''/'' in
      case NewRequest env (Some c) ''DELETE'' path None of
        Inl err \<Rightarrow> (Inl (Wrapf ''failed to create request: '' err []), log)
      | Inr req \<Rightarrow>
          (case Do srv (Some c) req log of
             (Inl err, log') \<Rightarrow> (Inl (Wrapf ''failed to execute request: '' err []), log')
           | (Inr resp, log') \<Rightarrow> (Inr resp, log')))"

text \<open>
  \<open>HasValidUserPassword\<close> builds a second client with the user's own credentials on the
  same base URL and probes the users endpoint with it.
\<close>

definition HasValidUserPassword :: "env \<Rightarrow> server \<Rightarrow> Client \<Rightarrow> string \<Rightarrow> string \<Rightarrow> request list \<Rightarrow> (error + bool) \<times> request list" where
  "HasValidUserPassword env srv c username password log =
     (case NewClient env (Some (BaseURL c)) (Some username) (Some password) of
        Inl err \<Rightarrow> (Inl (Wrapf ''failed to create client: '' err []), log)
      | Inr userClient \<Rightarrow>
          (case NewRequest env (Some userClient) ''GET''
                  (''/api/v1/users/?username='' @ url_QueryEscape env username) None of
             Inl err \<Rightarrow> (Inl (Wrapf ''failed to create request: '' err []), log)
           | Inr req \<Rightarrow>
               (case Do srv (Some userClient) req log of
                  (Inl err, log') \<Rightarrow> (Inl (Wrapf ''failed to execute request: '' err []), log')
                | (Inr resp, log') \<Rightarrow>
                    if StatusCode resp = 401 then (Inr False, log')
                    else if StatusCode resp = 403 then (Inr True, log')
                    else
                      (Inl (New (''unexpected status code: '' @ Sprintf_d (StatusCode resp))), log'))))"

section \<open>The plugin framework\<close>

text \<open>
  A \<open>types.String\<close> or \<open>types.Int64\<close> of the framework is null, unknown or a value; the
  zero value of the Go struct is null, and \<open>ValueString\<close> and \<open>ValueInt64\<close> give the zero
  value of the type unless a value is known.
\<close>

datatype 'a tfvalue = Null | Unknown | Value 'a

definition IsNull :: "'a tfvalue \<Rightarrow> bool" where
  "IsNull v = (case v of Null \<Rightarrow> True | _ \<Rightarrow> False)"

definition ValueString :: "string tfvalue \<Rightarrow> string" where
  "ValueString v = (case v of Value s \<Rightarrow> s | _ \<Rightarrow> [])"

definition ValueInt64 :: "int tfvalue \<Rightarrow> int" where
  "ValueInt64 v = (case v of Value n \<Rightarrow> n | _ \<Rightarrow> 0)"

datatype severity = SeverityError | SeverityWarning

datatype diagnostic = Diagnostic severity string string

text \<open>
  \<open>Diagnostics.Append\<close> skips a diagnostic that the list already contains;
  \<open>AddError\<close> and \<open>AddWarning\<close> append one diagnostic of their severity.
\<close>

fun Append :: "diagnostic list \<Rightarrow> diagnostic list \<Rightarrow> diagnostic list" where
  "Append ds [] = ds"
| "Append ds (d # rest) = Append (if d \<in> set ds then ds else ds @ [d]) rest"

definition is_error :: "diagnostic \<Rightarrow> bool" where
  "is_error d = (case d of Diagnostic sev _ _ \<Rightarrow> sev = SeverityError)"

definition HasError :: "diagnostic list \<Rightarrow> bool" where
  "HasError ds = list_ex is_error ds"

text \<open>
  The plan or prior state of a request: \<open>Get\<close> decodes it into the model struct and
  returns the framework's diagnostics. A response carries the diagnostics and the state
  to store, \<open>None\<close> once the resource is removed. \<open>State.Set\<close> encodes a model struct whose
  fields are those of the schema; its diagnostics, on which the source does not branch,
  are taken to be empty.
\<close>

record 'm tfsdk_Data =
  get_diags :: "diagnostic list"
  get_value :: 'm

definition Get :: "'m tfsdk_Data \<Rightarrow> diagnostic list \<times> 'm" where
  "Get d = (get_diags d, get_value d)"

record 'm CreateRequest =
  Plan :: "'m tfsdk_Data"

record 'm ReadRequest =
  State :: "'m tfsdk_Data"

record 'm UpdateRequest =
  Plan :: "'m tfsdk_Data"
  State :: "'m tfsdk_Data"

record ImportStateRequest =
  ID :: string

record 'm Response =
  Diagnostics :: "diagnostic list"
  State :: "'m option"

definition Diagnostics_Append :: "diagnostic list \<Rightarrow> 'm Response \<Rightarrow> 'm Response" where
  "Diagnostics_Append ds resp = resp\<lparr>Diagnostics := Append (Diagnostics resp) ds\<rparr>"

definition AddError :: "string \<Rightarrow> string \<Rightarrow> 'm Response \<Rightarrow> 'm Response" where
  "AddError summary detail resp = Diagnostics_Append [Diagnostic SeverityError summary detail] resp"

definition AddWarning :: "string \<Rightarrow> string \<Rightarrow> 'm Response \<Rightarrow> 'm Response" where
  "AddWarning summary detail resp = Diagnostics_Append [Diagnostic SeverityWarning summary detail] resp"

definition RemoveResource :: "'m Response \<Rightarrow> 'm Response" where
  "RemoveResource resp = resp\<lparr>Response.State := None\<rparr>"

definition State_Set :: "'m \<Rightarrow> 'm Response \<Rightarrow> 'm Response" where
  "State_Set data resp = Diagnostics_Append [] (resp\<lparr>Response.State := Some data\<rparr>)"

section \<open>The user reconciler\<close>

record UserModel =
  Username :: "string tfvalue"
  Password :: "string tfvalue"
  Email :: "string tfvalue"
  Id :: "string tfvalue"

record UserResource =
  client :: "Client option"

text \<open>
  \<open>Create\<close>. The half-second sleep between the create call and the read-back and the
  trace log have no effect on the result.
\<close>

definition UserResource_Create :: "env \<Rightarrow> server \<Rightarrow> UserResource \<Rightarrow> UserModel CreateRequest \<Rightarrow> UserModel Response \<Rightarrow> request list \<Rightarrow> UserModel Response \<times> request list" where
  "UserResource_Create env srv r req resp log =
     (case Get (CreateRequest.Plan req) of (diags, data) \<Rightarrow>
      let resp = Diagnostics_Append diags resp in
      if HasError (Diagnostics resp) then (resp, log)
      else
        (case UserResource.client r of
           None \<Rightarrow>
             (AddError ''Client Not Configured''
                ''The LegoCharm API client is not configured for this resource'' resp, log)
         | Some c \<Rightarrow>
             (case GetUserByUsername env srv c (ValueString (UserModel.Username data)) log of
                (Inr existingUser, log) \<Rightarrow>
                  (let existingUserId = LastPathSegment (Url existingUser) in
                   (AddError ''User Exists''
                      (''A user with username '' @ [CHR 0x27] @ ValueString (UserModel.Username data)
                         @ [CHR 0x27] @ '' already exists (id='' @ existingUserId @ '').'') resp, log))
              | (Inl err, log) \<Rightarrow>
                  if err \<noteq> ErrNotFound then
                    (AddError ''Client Error''
                       (''Unable to check for existing user: '' @ Error err) resp, log)
                  else
                    (let create =
                           \<lparr>UserCreateData.Username = ValueString (UserModel.Username data),
                            Password = ValueString (UserModel.Password data),
                            Email = ValueString (UserModel.Email data),
                            Groups = []\<rparr>
                     in case CreateUser env srv c create log of
                          (Inl err, log) \<Rightarrow>
                            (AddError ''Client Error''
                               (''Unable to create user, got error: '' @ Error err) resp, log)
                        | (Inr _, log) \<Rightarrow>
                            (case GetUserByUsername env srv c (ValueString (UserModel.Username data)) log of
                               (Inl err, log) \<Rightarrow>
                                 (AddError ''Client Error''
                                    (''User created but failed to read back: '' @ Error err) resp, log)
                             | (Inr user, log) \<Rightarrow>
                                 (let data = data\<lparr>UserModel.Id := Value (LastPathSegment (Url user))\<rparr>;
                                      data = data\<lparr>UserModel.Email := Value (UserData.Email user)\<rparr>;
                                      data = data\<lparr>UserModel.Password :=
                                                     Value (ValueString (UserModel.Password data))\<rparr>
                                  in (State_Set data resp, log)))))))"

text \<open>\<open>Read\<close>. Both branches on the stored id look the user up by username.\<close>

definition UserResource_Read :: "env \<Rightarrow> server \<Rightarrow> UserResource \<Rightarrow> UserModel ReadRequest \<Rightarrow> UserModel Response \<Rightarrow> request list \<Rightarrow> UserModel Response \<times> request list" where
  "UserResource_Read env srv r req resp log =
     (case Get (ReadRequest.State req) of (diags, data) \<Rightarrow>
      let resp = Diagnostics_Append diags resp in
      if HasError (Diagnostics resp) then (resp, log)
      else
        (case UserResource.client r of
           None \<Rightarrow>
             (AddError ''Client Not Configured''
                ''The LegoCharm API client is not configured for this resource'' resp, log)
         | Some c \<Rightarrow>
             (case (if \<not> IsNull (UserModel.Id data) \<and> ValueString (UserModel.Id data) \<noteq> []
                    then GetUserByUsername env srv c (ValueString (UserModel.Username data)) log
                    else GetUserByUsername env srv c (ValueString (UserModel.Username data)) log) of
                (Inl err, log) \<Rightarrow>
                  if err = ErrNotFound then (RemoveResource resp, log)
                  else (AddError ''Client Error'' (''Unable to read user: '' @ Error err) resp, log)
              | (Inr user, log) \<Rightarrow>
                  (let data = data\<lparr>UserModel.Email := Value (UserData.Email user)\<rparr>;
                       data = data\<lparr>UserModel.Id := Value (LastPathSegment (Url user))\<rparr>
                   in case HasValidUserPassword env srv c (ValueString (UserModel.Username data))
                             (ValueString (UserModel.Password data)) log of
                        (Inl err, log) \<Rightarrow>
                          (AddError ''Client Error''
                             (''Unable to validate user password: '' @ Error err) resp, log)
                      | (Inr valid, log) \<Rightarrow>
                          (case (if \<not> valid then
                                   (AddWarning ''Invalid Password''
                                      ''The stored password is no longer valid'' resp,
                                    data\<lparr>UserModel.Password := Null\<rparr>)
                                 else (resp, data)) of
                             (resp, data) \<Rightarrow> (State_Set data resp, log))))))"

definition UserResource_ImportState :: "ImportStateRequest \<Rightarrow> UserModel Response \<Rightarrow> UserModel Response" where
  "UserResource_ImportState req resp =
     (let parts = Split (ImportStateRequest.ID req) CHR '':'' in
      if length parts \<noteq> 2 then
        AddError ''Invalid Import ID''
          (''Import ID must be in the format '' @ [CHR 0x27] @ ''username:password'' @ [CHR 0x27]) resp
      else
        (let username = parts ! 0;
             password = parts ! 1;
             data = \<lparr>UserModel.Username = Null, Password = Null, Email = Null, Id = Null\<rparr>;
             data = data\<lparr>UserModel.Username := Value username\<rparr>;
             data = data\<lparr>UserModel.Password := Value password\<rparr>
         in State_Set data resp))"

section \<open>The domain-access reconciler\<close>

record UserDomainAccessModel =
  UserId :: "string tfvalue"
  Domain :: "string tfvalue"
  AccessLevel :: "string tfvalue"
  Id :: "string tfvalue"
  DatabaseID :: "int tfvalue"

record UserDomainAccessResource =
  client :: "Client option"

definition composite_id :: "UserDomainAccessModel \<Rightarrow> string" where
  "composite_id data =
     ValueString (UserDomainAccessModel.UserId data) @ '':''
       @ ValueString (UserDomainAccessModel.Domain data) @ '':''
       @ ValueString (UserDomainAccessModel.AccessLevel data)"

definition createData_of :: "UserDomainAccessModel \<Rightarrow> DomainUserPermissionCreateData" where
  "createData_of data =
     \<lparr>DomainUserPermissionCreateData.UserID = ValueString (UserDomainAccessModel.UserId data),
      Domain = ValueString (UserDomainAccessModel.Domain data),
      AccessLevel = ValueString (UserDomainAccessModel.AccessLevel data)\<rparr>"

definition UserDomainAccessResource_Create :: "env \<Rightarrow> server \<Rightarrow> UserDomainAccessResource \<Rightarrow> UserDomainAccessModel CreateRequest \<Rightarrow> UserDomainAccessModel Response \<Rightarrow> request list \<Rightarrow> UserDomainAccessModel Response \<times> request list" where
  "UserDomainAccessResource_Create env srv r req resp log =
     (case Get (CreateRequest.Plan req) of (diags, data) \<Rightarrow>
      let resp = Diagnostics_Append diags resp in
      if HasError (Diagnostics resp) then (resp, log)
      else
        (case UserDomainAccessResource.client r of
           None \<Rightarrow>
             (AddError ''Client Not Configured''
                ''The LegoCharm API client is not configured for this resource'' resp, log)
         | Some c \<Rightarrow>
             (case GetDomainAccess env srv c (ValueString (UserDomainAccessModel.UserId data))
                     (ValueString (UserDomainAccessModel.Domain data)) log of
                (Inr existing, log) \<Rightarrow>
                  (AddError ''Domain Access Already Exists''
                     ''A domain access permission already exists for this user and domain combination.''
                     resp, log)
              | (Inl _, log) \<Rightarrow>
                  (let createData = createData_of data in
                   case CreateDomainAccess env srv c createData log of
                     (Inl err, log) \<Rightarrow>
                       (AddError ''Client Error''
                          (''Unable to create user domain access: '' @ Error err) resp, log)
                   | (Inr domain, log) \<Rightarrow>
                       (let data = data\<lparr>UserDomainAccessModel.Id := Value (composite_id data)\<rparr>;
                            data = data\<lparr>DatabaseID := Value (DomainUserPermissionData.ID domain)\<rparr>
                        in (State_Set data resp, log))))))"

definition UserDomainAccessResource_Read :: "env \<Rightarrow> server \<Rightarrow> UserDomainAccessResource \<Rightarrow> UserDomainAccessModel ReadRequest \<Rightarrow> UserDomainAccessModel Response \<Rightarrow> request list \<Rightarrow> UserDomainAccessModel Response \<times> request list" where
  "UserDomainAccessResource_Read env srv r req resp log =
     (case Get (ReadRequest.State req) of (diags, data) \<Rightarrow>
      let resp = Diagnostics_Append diags resp in
      if HasError (Diagnostics resp) then (resp, log)
      else
        (case UserDomainAccessResource.client r of
           None \<Rightarrow>
             (AddError ''Client Not Configured''
                ''The LegoCharm API client is not configured for this resource'' resp, log)
         | Some c \<Rightarrow>
             if IsNull (UserDomainAccessModel.UserId data) \<or> IsNull (UserDomainAccessModel.Domain data)
             then (AddError ''Invalid State'' ''User ID or Domain is null in state'' resp, log)
             else
               (case GetDomainAccess env srv c (ValueString (UserDomainAccessModel.UserId data))
                       (ValueString (UserDomainAccessModel.Domain data)) log of
                  (Inl err, log) \<Rightarrow>
                    if errors_Is err ErrNotFound then (RemoveResource resp, log)
                    else
                      (AddError ''Client Error''
                         (''Unable to read user domain access: '' @ Error err) resp, log)
                | (Inr found, log) \<Rightarrow>
                    (let data = data\<lparr>UserDomainAccessModel.AccessLevel :=
                                        Value (DomainUserPermissionData.AccessLevel found)\<rparr>;
                         data = data\<lparr>DatabaseID := Value (DomainUserPermissionData.ID found)\<rparr>
                     in (State_Set data resp, log)))))"

definition UserDomainAccessResource_Update :: "env \<Rightarrow> server \<Rightarrow> UserDomainAccessResource \<Rightarrow> UserDomainAccessModel UpdateRequest \<Rightarrow> UserDomainAccessModel Response \<Rightarrow> request list \<Rightarrow> UserDomainAccessModel Response \<times> request list" where
  "UserDomainAccessResource_Update env srv r req resp log =
     (case Get (UpdateRequest.Plan req) of (diags, data) \<Rightarrow>
      let resp = Diagnostics_Append diags resp in
      if HasError (Diagnostics resp) then (resp, log)
      else
        (case UserDomainAccessResource.client r of
           None \<Rightarrow>
             (AddError ''Client Not Configured''
                ''The LegoCharm API client is not configured for this resource'' resp, log)
         | Some c \<Rightarrow>
             if IsNull (UserDomainAccessModel.UserId data) \<or> IsNull (UserDomainAccessModel.Domain data)
             then (AddError ''Invalid State'' ''User ID or Domain is null in state'' resp, log)
             else if IsNull (DatabaseID data) \<or> ValueInt64 (DatabaseID data) = 0
             then (AddError ''Invalid State'' ''Database ID is null or zero in state'' resp, log)
             else
               (case DeleteDomainAccess env srv c (ValueInt64 (DatabaseID data)) log of
                  (Inl err, log) \<Rightarrow>
                    (AddError ''Client Error''
                       (''Unable to delete user domain access: '' @ Error err) resp, log)
                | (Inr _, log) \<Rightarrow>
                    (let createData = createData_of data in
                     case CreateDomainAccess env srv c createData log of
                       (Inl err, log) \<Rightarrow>
                         (AddError ''Client Error''
                            (''Unable to update user domain access: '' @ Error err) resp, log)
                     | (Inr domain, log) \<Rightarrow>
                         (let data = data\<lparr>DatabaseID := Value (DomainUserPermissionData.ID domain)\<rparr>;
                              data = data\<lparr>UserDomainAccessModel.Id := Value (composite_id data)\<rparr>
                          in (State_Set data resp, log))))))"

definition UserDomainAccessResource_ImportState :: "ImportStateRequest \<Rightarrow> UserDomainAccessModel Response \<Rightarrow> UserDomainAccessModel Response" where
  "UserDomainAccessResource_ImportState req resp =
     (let parts = Split (ImportStateRequest.ID req) CHR '':'' in
      if length parts \<noteq> 3 then
        AddError ''Invalid Import ID''
          (''Import ID must be in the format '' @ [CHR 0x27] @ ''username:domain:access_level''
             @ [CHR 0x27]) resp
      else
        (let data = \<lparr>UserDomainAccessModel.UserId = Null, Domain = Null, AccessLevel = Null,
                     Id = Null, DatabaseID = Null\<rparr>;
             data = data\<lparr>UserDomainAccessModel.UserId := Value (parts ! 0)\<rparr>;
             data = data\<lparr>UserDomainAccessModel.Domain := Value (parts ! 1)\<rparr>;
             data = data\<lparr>UserDomainAccessModel.AccessLevel := Value (parts ! 2)\<rparr>;
             data = data\<lparr>UserDomainAccessModel.Id := Value (ImportStateRequest.ID req)\<rparr>
         in State_Set data resp))"

section \<open>Notions used in the statements\<close>

text \<open>
  The response that the service gives, at a given history of requests, to the request
  that \<open>NewRequest\<close> builds for a client, method, path and body; \<open>None\<close> when the request
  cannot be built or the transport fails.
\<close>

definition response_to :: "env \<Rightarrow> server \<Rightarrow> Client \<Rightarrow> string \<Rightarrow> string \<Rightarrow> payload option \<Rightarrow> request list \<Rightarrow> response option" where
  "response_to env srv c method path body log =
     (case NewRequest env (Some c) method path body of
        Inl _ \<Rightarrow> None
      | Inr req \<Rightarrow> (case srv log req of Inl _ \<Rightarrow> None | Inr resp \<Rightarrow> Some resp))"

text \<open>
  The create data that \<open>Create\<close> of the user reconciler builds from a plan; the payload
  that \<open>CreateDomainAccess\<close> posts for a grant once the domain's ID is known; and the
  last part of \<open>CreateDomainAccess\<close>, from the construction of the permission request on.
\<close>

definition create_of :: "UserModel \<Rightarrow> UserCreateData" where
  "create_of data =
     \<lparr>UserCreateData.Username = ValueString (UserModel.Username data),
      Password = ValueString (UserModel.Password data),
      Email = ValueString (UserModel.Email data),
      Groups = []\<rparr>"

definition permission_payload :: "DomainUserPermissionCreateData \<Rightarrow> int \<Rightarrow> payload" where
  "permission_payload access domainId =
     PermissionPayload
       \<lparr>DomainUserPermissionCreatePayloadData.UserID = DomainUserPermissionCreateData.UserID access,
        Domain = domainId,
        AccessLevel = DomainUserPermissionCreateData.AccessLevel access\<rparr>"

definition post_permission :: "env \<Rightarrow> server \<Rightarrow> Client \<Rightarrow> payload \<Rightarrow> request list \<Rightarrow> (error + DomainUserPermissionData) \<times> request list" where
  "post_permission env srv c b log =
     (case NewRequest env (Some c) ''POST'' ''/api/v1/domain-user-permissions/'' (Some b) of
        Inl err \<Rightarrow> (Inl (Wrapf ''failed to create request: '' err []), log)
      | Inr req \<Rightarrow>
          (case Do srv (Some c) req log of
             (Inl err, log') \<Rightarrow> (Inl (Wrapf ''failed to execute request: '' err []), log')
           | (Inr resp, log') \<Rightarrow>
               (case ReadAll resp of
                  Inl err \<Rightarrow> (Inl (Wrapf ''failed to read response body: '' err []), log')
                | Inr body \<Rightarrow>
                    if StatusCode resp < 200 \<or> StatusCode resp \<ge> 400 then
                      (Inl (New (''failed to create domain access: status ''
                                 @ Sprintf_d (StatusCode resp) @ '', body: '' @ body)), log')
                    else
                      (case Unmarshal_PermissionData env body of
                         Inl m \<Rightarrow>
                           (Inl (Wrapf ''failed to parse domain access response: '' (New m)
                                   ('' (body: '' @ body @ '')'')), log')
                       | Inr accessData \<Rightarrow> (Inr accessData, log')))))"

section \<open>An example deployment\<close>

text \<open>
  A concrete environment, client and service on which the theorems below are
  instantiated. The decoders of the example environment know the handful of bodies that
  the example services send.
\<close>

definition alice :: UserData where
  "alice = \<lparr>UserData.Username = ''alice'', Url = ''https://lego.example.com/api/v1/users/7/'',
      Email = ''alice@example.com'', Groups = []\<rparr>"

definition bob :: UserData where
  "bob = \<lparr>UserData.Username = ''bob'', Url = ''https://lego.example.com/api/v1/users/8/'',
      Email = ''bob@example.com'', Groups = []\<rparr>"

definition alice_body :: string where
  \<open>alice_body = ''{"username":"alice","url":"https://lego.example.com/api/v1/users/7/","email":"alice@example.com"}''\<close>

definition bob_body :: string where
  \<open>bob_body = ''{"username":"bob","url":"https://lego.example.com/api/v1/users/8/","email":"bob@example.com"}''\<close>

definition domain5_body :: string where
  \<open>domain5_body = ''{"fqdn":"example.com","id":5}''\<close>

definition domain6_body :: string where
  \<open>domain6_body = ''{"fqdn":"new.example.com","id":6}''\<close>

definition permission42_body :: string where
  \<open>permission42_body = ''{"id":42}''\<close>

definition permission42 :: DomainUserPermissionData where
  "permission42 = \<lparr>DomainUserPermissionData.UserID = 0, Domain = 0, AccessLevel = [], ID = 42\<rparr>"

definition example_env :: env where
  "example_env =
     \<lparr>url_Parse_IsAbs = (\<lambda>u. HasPrefix u ''http://'' \<or> HasPrefix u ''https://''),
      os_Getenv = (\<lambda>_. []),
      time_ParseDuration = (\<lambda>_. None),
      strconv_Atoi = (\<lambda>_. None),
      http_NewRequest_err = (\<lambda>_ _. None),
      url_PathEscape = (\<lambda>s. s),
      url_QueryEscape = (\<lambda>s. s),
      Unmarshal_UserData =
        (\<lambda>b. if b = alice_body then Inr alice else if b = bob_body then Inr bob
             else Inl ''cannot unmarshal''),
      Unmarshal_UserData_list =
        (\<lambda>b. if b = ''[]'' then Inr [] else if b = ''['' @ alice_body @ '']'' then Inr [alice]
             else if b = ''['' @ bob_body @ '']'' then Inr [bob] else Inl ''cannot unmarshal''),
      Unmarshal_DomainData =
        (\<lambda>b. if b = domain5_body then Inr \<lparr>Fqdn = ''example.com'', ID = 5\<rparr>
             else if b = domain6_body then Inr \<lparr>Fqdn = ''new.example.com'', ID = 6\<rparr>
             else Inl ''cannot unmarshal''),
      Unmarshal_DomainData_list =
        (\<lambda>b. if b = ''[]'' then Inr []
             else if b = ''['' @ domain5_body @ '']'' then Inr [\<lparr>Fqdn = ''example.com'', ID = 5\<rparr>]
             else Inl ''cannot unmarshal''),
      Unmarshal_PermissionData =
        (\<lambda>b. if b = permission42_body then Inr permission42 else Inl ''cannot unmarshal''),
      Unmarshal_PermissionData_list =
        (\<lambda>b. if b = ''[]'' then Inr [] else if b = ''['' @ permission42_body @ '']'' then Inr [permission42]
             else Inl ''cannot unmarshal'')\<rparr>"

definition example_client :: Client where
  "example_client =
     \<lparr>BaseURL = ''https://lego.example.com'', Username = ''admin'', Password = ''secret'',
      HTTPClient = \<lparr>Timeout = 120 * time_Second\<rparr>\<rparr>"

definition status_server :: "int \<Rightarrow> server" where
  "status_server n = (\<lambda>log req. Inr \<lparr>StatusCode = n, RespBody = Inr []\<rparr>)"

definition reply :: "int \<Rightarrow> string \<Rightarrow> string + response" where
  "reply n body = Inr \<lparr>StatusCode = n, RespBody = Inr body\<rparr>"

text \<open>
  The example service knows the administrator \<open>admin:secret\<close> and the user
  \<open>alice:wonderland\<close>. To the administrator it serves the user alice, the domain
  \<open>example.com\<close>, and whatever is posted; to alice's own credentials it answers 403, to
  any other credentials 401.
\<close>

definition example_server :: server where
  "example_server log req =
     (let auth = Header_Get req ''Authorization'';
          url = URL req;
          posted = (\<lambda>u. list_ex (\<lambda>q. Method q = ''POST'' \<and> URL q = u) log)
      in
      if auth = ''Basic YWxpY2U6d29uZGVybGFuZA=='' then reply 403 []
      else if auth \<noteq> ''Basic YWRtaW46c2VjcmV0'' then reply 401 []
      else if Method req = ''GET'' then
        (if url = ''https://lego.example.com/api/v1/users/7/'' then reply 200 alice_body
         else if url = ''https://lego.example.com/api/v1/users/?username=alice''
           then reply 200 (''['' @ alice_body @ '']'')
         else if url = ''https://lego.example.com/api/v1/users/?username=bob''
           then reply 200 (if posted ''https://lego.example.com/api/v1/users/''
                           then ''['' @ bob_body @ '']'' else ''[]'')
         else if url = ''https://lego.example.com/api/v1/users/?username=carol''
           then reply 200 ''<html>''
         else if url = ''https://lego.example.com/api/v1/domains/?fqdn=example.com''
           then reply 200 (''['' @ domain5_body @ '']'')
         else if url = ''https://lego.example.com/api/v1/domains/?fqdn=new.example.com''
           then reply 200 ''[]''
         else if url = ''https://lego.example.com/api/v1/domain-user-permissions/?username=alice&fqdn=example.com''
           then reply 200 ''[]''
         else reply 404 [])
      else if Method req = ''POST'' then
        (if url = ''https://lego.example.com/api/v1/users/'' then reply 201 bob_body
         else if url = ''https://lego.example.com/api/v1/domains/'' then reply 201 domain6_body
         else if url = ''https://lego.example.com/api/v1/domain-user-permissions/''
           then reply 201 permission42_body
         else reply 404 [])
      else if Method req = ''DELETE'' then reply 204 []
      else reply 405 [])"

definition failing_server :: server where
  "failing_server = (\<lambda>log req. Inl ''connection refused'')"

definition empty_response :: "'m Response" where
  "empty_response = \<lparr>Diagnostics = [], State = None\<rparr>"

definition decoded :: "'m \<Rightarrow> 'm tfsdk_Data" where
  "decoded m = \<lparr>get_diags = [], get_value = m\<rparr>"

definition prior_response :: "'m \<Rightarrow> 'm Response" where
  "prior_response m = \<lparr>Diagnostics = [], State = Some m\<rparr>"

definition user_resource :: UserResource where
  "user_resource = \<lparr>UserResource.client = Some example_client\<rparr>"

definition access_resource :: UserDomainAccessResource where
  "access_resource = \<lparr>UserDomainAccessResource.client = Some example_client\<rparr>"

definition read_request :: "'m \<Rightarrow> 'm ReadRequest" where
  "read_request m = \<lparr>ReadRequest.State = decoded m\<rparr>"

definition bob_state :: UserModel where
  "bob_state = \<lparr>UserModel.Username = Value ''bob'', Password = Value ''builder'',
                Email = Value ''bob@example.com'', Id = Value ''8''\<rparr>"

definition alice_state :: UserModel where
  "alice_state = \<lparr>UserModel.Username = Value ''alice'', Password = Value ''wonderland'',
                  Email = Value ''old@example.com'', Id = Value ''7''\<rparr>"

definition access_state :: UserDomainAccessModel where
  "access_state = \<lparr>UserDomainAccessModel.UserId = Value ''7'', Domain = Value ''example.com'',
                   AccessLevel = Value ''domain'', Id = Value ''7:example.com:domain'',
                   DatabaseID = Value 42\<rparr>"

definition stale_state :: UserModel where
  "stale_state = \<lparr>UserModel.Username = Value ''alice'', Password = Value ''stale'',
                  Email = Value ''old@example.com'', Id = Value ''7''\<rparr>"

definition no_password_state :: UserModel where
  "no_password_state = \<lparr>UserModel.Username = Value ''alice'', Password = Null,
                        Email = Value ''old@example.com'', Id = Value ''7''\<rparr>"

definition create_request :: "'m \<Rightarrow> 'm CreateRequest" where
  "create_request m = \<lparr>CreateRequest.Plan = decoded m\<rparr>"

definition alice_plan :: UserModel where
  "alice_plan = \<lparr>UserModel.Username = Value ''alice'', Password = Value ''wonderland'',
                 Email = Value ''alice@example.com'', Id = Unknown\<rparr>"

definition bob_plan :: UserModel where
  "bob_plan = \<lparr>UserModel.Username = Value ''bob'', Password = Value ''builder'',
               Email = Value ''bob@example.com'', Id = Unknown\<rparr>"

text \<open>The requests that the example client sends, by method, path and body.\<close>

definition sent :: "string \<Rightarrow> string \<Rightarrow> payload option \<Rightarrow> request" where
  "sent method path body =
     \<lparr>Method = method, URL = ''https://lego.example.com'' @ path,
      Header = [(''Authorization'', ''Basic YWRtaW46c2VjcmV0''),
                (''User-Agent'', ''terraform-provider-legocharm'')]
               @ (if body = None then [] else [(''Content-Type'', ''application/json'')]),
      Body = body\<rparr>"


definition update_request :: "'m \<Rightarrow> 'm \<Rightarrow> 'm UpdateRequest" where
  "update_request plan state = \<lparr>UpdateRequest.Plan = decoded plan, State = decoded state\<rparr>"

definition access_plan :: "string \<Rightarrow> UserDomainAccessModel" where
  "access_plan level = \<lparr>UserDomainAccessModel.UserId = Value ''7'', Domain = Value ''example.com'',
                         AccessLevel = Value level, Id = Value ''7:example.com:domain'',
                         DatabaseID = Value 42\<rparr>"

definition admin_plan :: UserDomainAccessModel where
  "admin_plan = \<lparr>UserDomainAccessModel.UserId = Value ''7'', Domain = Value ''example.com'',
                 AccessLevel = Value ''admin'', Id = Unknown, DatabaseID = Unknown\<rparr>"

definition ghost_state :: UserDomainAccessModel where
  "ghost_state = \<lparr>UserDomainAccessModel.UserId = Value ''99'', Domain = Value ''example.com'',
                  AccessLevel = Value ''domain'', Id = Value ''99:example.com:domain'',
                  DatabaseID = Value 43\<rparr>"

definition refusing_delete_server :: server where
  "refusing_delete_server log req =
     (if Method req = ''DELETE'' then reply 500 ''server error'' else example_server log req)"

section \<open>Auxiliary facts\<close>

lemma Header_Get_Set:
  "Header_Get (Header_Set k v req) k' = (if k' = k then v else Header_Get req k')"
  by (simp add: Header_Get_def Header_Set_def update_conv')

lemma Header_Set_fields:
  "URL (Header_Set k v req) = URL req" "Method (Header_Set k v req) = Method req"
  "Body (Header_Set k v req) = Body req"
  by (simp_all add: Header_Set_def)

lemma map_of_Header_Set:
  "map_of (Header (Header_Set k v req)) = (map_of (Header req))(k \<mapsto> v)"
  by (simp add: Header_Set_def update_conv')

lemma dropWhile_slash_hd:
  "dropWhile (\<lambda>x. x \<in> set ''/'') s = a # as \<Longrightarrow> a \<noteq> CHR ''/''"
proof -
  assume h: "dropWhile (\<lambda>x. x \<in> set ''/'') s = a # as"
  then have "dropWhile (\<lambda>x. x \<in> set ''/'') s \<noteq> []" by simp
  from hd_dropWhile [OF this] h show ?thesis by simp
qed

lemma TrimRight_no_suffix: "\<not> HasSuffix (TrimRight s ''/'') ''/''"
proof (cases "dropWhile (\<lambda>x. x \<in> set ''/'') (rev s)")
  case Nil
  show ?thesis unfolding TrimRight_def HasSuffix_def Nil by simp
next
  case (Cons a as)
  then have "a \<noteq> CHR ''/''" by (rule dropWhile_slash_hd)
  then show ?thesis unfolding TrimRight_def HasSuffix_def Cons by simp
qed

lemma TrimLeft_no_prefix: "\<not> HasPrefix (TrimLeft s ''/'') ''/''"
proof (cases "dropWhile (\<lambda>x. x \<in> set ''/'') s")
  case Nil
  show ?thesis unfolding TrimLeft_def HasPrefix_def Nil by simp
next
  case (Cons a as)
  then have "a \<noteq> CHR ''/''" by (rule dropWhile_slash_hd)
  then show ?thesis unfolding TrimLeft_def HasPrefix_def Cons by simp
qed

lemma Header_Get_Nil: "Header_Get \<lparr>Method = m, URL = u, Header = [], Body = b\<rparr> k = []"
  by (simp add: Header_Get_def)

lemma NewRequest_Some:
  "NewRequest env (Some c) method path body =
     (case http_NewRequest_err env method (BaseURL c @ ''/'' @ TrimLeft path ''/'') of
        Some m \<Rightarrow> Inl (New m)
      | None \<Rightarrow> Inr
          ((if body \<noteq> None then Header_Set ''Content-Type'' ''application/json'' else (\<lambda>r. r))
            (Header_Set ''User-Agent'' ''terraform-provider-legocharm''
              (SetBasicAuth (Client.Username c) (Client.Password c)
                \<lparr>Method = (if method = [] then ''GET'' else method),
                 URL = BaseURL c @ ''/'' @ TrimLeft path ''/'', Header = [], Body = body\<rparr>))))"
  by (simp add: NewRequest_def http_NewRequest_def Let_def Header_Get_Set SetBasicAuth_def
      Header_Get_Nil split: option.splits)

lemma NewClient_Inr:
  assumes "NewClient env address username password = Inr c"
  shows "\<exists>a u p. address = Some a \<and> a \<noteq> [] \<and> username = Some u \<and> u \<noteq> [] \<and> password = Some p \<and> p \<noteq> []
          \<and> Client.Username c = u \<and> Client.Password c = p
          \<and> (BaseURL c = TrimRight a ''/'' \<or> BaseURL c = TrimRight (''https://'' @ a) ''/'')"
  using assms
  by (cases address; cases username; cases password)
     (auto simp: NewClient_def resolve_address_def Let_def split: if_splits sum.splits)

lemma example_NewClient:
  "NewClient example_env (Some ''https://lego.example.com/'') (Some ''admin'') (Some ''secret'') = Inr example_client"
  by (simp add: NewClient_def example_env_def resolve_address_def resolve_timeout_def HasPrefix_def
      TrimRight_def example_client_def)

lemma response_to_Some:
  "response_to env srv c method path body log = Some resp \<longleftrightarrow>
     (\<exists>req. NewRequest env (Some c) method path body = Inr req \<and> srv log req = Inr resp)"
  by (auto simp: response_to_def split: sum.splits)

lemma Do_Some:
  "Do srv (Some c) req log =
     (case srv log req of Inl m \<Rightarrow> Inl (New m) | Inr resp \<Rightarrow> Inr resp, log @ [req])"
  by (simp add: Do_def split: sum.splits)

lemma example_probe_client:
  "NewClient example_env (Some (BaseURL example_client)) (Some ''alice'') (Some ''pw'') =
     Inr \<lparr>BaseURL = ''https://lego.example.com'', Username = ''alice'', Password = ''pw'',
          HTTPClient = \<lparr>Timeout = 120 * time_Second\<rparr>\<rparr>"
  by (simp add: NewClient_def example_env_def resolve_address_def resolve_timeout_def HasPrefix_def
      TrimRight_def example_client_def)

lemma example_probe_response:
  "response_to example_env (status_server n) uc ''GET''
     (''/api/v1/users/?username='' @ url_QueryEscape example_env ''alice'') None [] =
   Some \<lparr>StatusCode = n, RespBody = Inr []\<rparr>"
  by (simp add: response_to_def NewRequest_Some example_env_def status_server_def)

lemma set_Append: "set (Append ds new) = set ds \<union> set new"
  by (induction new arbitrary: ds) auto

lemma HasError_iff: "HasError ds \<longleftrightarrow> (\<exists>d \<in> set ds. is_error d)"
  by (simp add: HasError_def list_ex_iff)

lemma HasError_Append: "HasError (Append ds new) \<longleftrightarrow> HasError ds \<or> HasError new"
  by (auto simp: HasError_iff set_Append)

lemma is_error_Diagnostic [simp]: "is_error (Diagnostic sev summary detail) = (sev = SeverityError)"
  by (simp add: is_error_def)

lemma Response_AddError [simp]:
  "Response.State (AddError summary detail resp) = Response.State resp"
  "set (Diagnostics (AddError summary detail resp))
     = insert (Diagnostic SeverityError summary detail) (set (Diagnostics resp))"
  "HasError (Diagnostics (AddError summary detail resp))"
  by (force simp: AddError_def Diagnostics_Append_def HasError_iff)+

lemma Response_AddWarning [simp]:
  "Response.State (AddWarning summary detail resp) = Response.State resp"
  "set (Diagnostics (AddWarning summary detail resp))
     = insert (Diagnostic SeverityWarning summary detail) (set (Diagnostics resp))"
  "HasError (Diagnostics (AddWarning summary detail resp)) = HasError (Diagnostics resp)"
  by (force simp: AddWarning_def Diagnostics_Append_def HasError_iff)+

lemma Response_RemoveResource [simp]:
  "Response.State (RemoveResource resp) = None"
  "Diagnostics (RemoveResource resp) = Diagnostics resp"
  by (simp_all add: RemoveResource_def)

lemma Response_State_Set [simp]:
  "Response.State (State_Set data resp) = Some data"
  "Diagnostics (State_Set data resp) = Diagnostics resp"
  by (simp_all add: State_Set_def Diagnostics_Append_def)

lemma Response_Diagnostics_Append [simp]:
  "Response.State (Diagnostics_Append ds resp) = Response.State resp"
  "Diagnostics (Diagnostics_Append ds resp) = Append (Diagnostics resp) ds"
  by (simp_all add: Diagnostics_Append_def)

lemma length_Split: "length (Split s sep) = Suc (length (filter (\<lambda>x. x = sep) s))"
  by (induction s) (auto split: list.splits)

lemma fst_GetUserById:
  assumes "response_to env srv c ''GET'' (''/api/v1/users/'' @ url_PathEscape env userId @ ''/'') None log = Some resp"
  shows "fst (GetUserById env srv c userId log) =
     (if StatusCode resp = 404 then Inl ErrNotFound
      else case RespBody resp of
             Inl m \<Rightarrow> Inl (Wrapf ''failed to read response body: '' (New m) [])
           | Inr body \<Rightarrow>
               (case Unmarshal_UserData env body of
                  Inl m \<Rightarrow> Inl (Wrapf ''failed to parse user response: '' (New m) ('' (body: '' @ body @ '')''))
                | Inr userData \<Rightarrow> Inr userData))"
  using assms
  by (auto simp: response_to_Some GetUserById_def Do_Some ReadAll_def split: sum.splits)

lemma fst_GetUserByUsername:
  assumes "response_to env srv c ''GET'' (''/api/v1/users/?username='' @ url_QueryEscape env username) None log = Some resp"
  shows "fst (GetUserByUsername env srv c username log) =
     (if StatusCode resp = 404 then Inl ErrNotFound
      else case RespBody resp of
             Inl m \<Rightarrow> Inl (Wrapf ''failed to read response body: '' (New m) [])
           | Inr body \<Rightarrow>
               (case Unmarshal_UserData_list env body of
                  Inr list \<Rightarrow> if list = [] then Inl ErrNotFound else Inr (list ! 0)
                | Inl _ \<Rightarrow>
                    (case Unmarshal_UserData env body of
                       Inr single \<Rightarrow> Inr single
                     | Inl _ \<Rightarrow> Inl (New (''failed to parse user response: '' @ body)))))"
  using assms
  by (auto simp: response_to_Some GetUserByUsername_def Do_Some ReadAll_def split: sum.splits)

lemma fst_GetDomain:
  assumes "response_to env srv c ''GET'' (''/api/v1/domains/?fqdn='' @ url_QueryEscape env fqdn) None log = Some resp"
  shows "fst (GetDomain env srv c fqdn log) =
     (if StatusCode resp = 404 then Inl ErrNotFound
      else case RespBody resp of
             Inl m \<Rightarrow> Inl (Wrapf ''failed to read response body: '' (New m) [])
           | Inr body \<Rightarrow>
               (case Unmarshal_DomainData_list env body of
                  Inr list \<Rightarrow> if list = [] then Inl ErrNotFound else Inr (list ! 0)
                | Inl _ \<Rightarrow>
                    (case Unmarshal_DomainData env body of
                       Inr single \<Rightarrow> Inr single
                     | Inl _ \<Rightarrow> Inl (New (''failed to parse domain response: '' @ body)))))"
  using assms
  by (auto simp: response_to_Some GetDomain_def Do_Some ReadAll_def split: sum.splits)

lemma GetDomainAccess_user_error:
  assumes "GetUserById env srv c userId log = (Inl err, log1)"
  shows "GetDomainAccess env srv c userId domain log = (Inl (Wrapf ''failed to get user data: '' err []), log1)"
  using assms by (simp add: GetDomainAccess_def)

lemma fst_GetDomainAccess:
  assumes "GetUserById env srv c userId log = (Inr user, log1)"
      and "response_to env srv c ''GET''
             (''/api/v1/domain-user-permissions/?username='' @ url_QueryEscape env (UserData.Username user)
                @ ''&fqdn='' @ url_QueryEscape env domain) None log1 = Some resp"
  shows "fst (GetDomainAccess env srv c userId domain log) =
     (if StatusCode resp = 404 then Inl ErrNotFound
      else case RespBody resp of
             Inl m \<Rightarrow> Inl (Wrapf ''failed to read response body: '' (New m) [])
           | Inr body \<Rightarrow>
               (case Unmarshal_PermissionData_list env body of
                  Inr list \<Rightarrow> if list = [] then Inl ErrNotFound else Inr (list ! 0)
                | Inl _ \<Rightarrow>
                    (case Unmarshal_PermissionData env body of
                       Inr single \<Rightarrow> Inr single
                     | Inl _ \<Rightarrow> Inl (New (''failed to parse domain access response: '' @ body)))))"
  using assms
  by (auto simp: response_to_Some GetDomainAccess_def Do_Some ReadAll_def Let_def split: sum.splits)


lemma b64_admin: "base64_StdEncoding ''admin:secret'' = ''YWRtaW46c2VjcmV0''"
  by code_simp

lemma b64_alice: "base64_StdEncoding ''alice:wonderland'' = ''YWxpY2U6d29uZGVybGFuZA==''"
  by code_simp

lemma example_env_simps:
  "url_PathEscape example_env s = s"
  "url_QueryEscape example_env s = s"
  "http_NewRequest_err example_env method u = None"
  "Unmarshal_UserData example_env b =
     (if b = alice_body then Inr alice else if b = bob_body then Inr bob else Inl ''cannot unmarshal'')"
  "Unmarshal_UserData_list example_env b =
     (if b = ''[]'' then Inr [] else if b = ''['' @ alice_body @ '']'' then Inr [alice]
      else if b = ''['' @ bob_body @ '']'' then Inr [bob] else Inl ''cannot unmarshal'')"
  "Unmarshal_DomainData example_env b =
     (if b = domain5_body then Inr \<lparr>Fqdn = ''example.com'', ID = 5\<rparr>
      else if b = domain6_body then Inr \<lparr>Fqdn = ''new.example.com'', ID = 6\<rparr>
      else Inl ''cannot unmarshal'')"
  "Unmarshal_DomainData_list example_env b =
     (if b = ''[]'' then Inr []
      else if b = ''['' @ domain5_body @ '']'' then Inr [\<lparr>Fqdn = ''example.com'', ID = 5\<rparr>]
      else Inl ''cannot unmarshal'')"
  "Unmarshal_PermissionData example_env b =
     (if b = permission42_body then Inr permission42 else Inl ''cannot unmarshal'')"
  "Unmarshal_PermissionData_list example_env b =
     (if b = ''[]'' then Inr [] else if b = ''['' @ permission42_body @ '']'' then Inr [permission42]
      else Inl ''cannot unmarshal'')"
  by (simp_all add: example_env_def)

lemma example_request:
  "NewRequest example_env (Some example_client) method path body =
     Inr \<lparr>Method = (if method = [] then ''GET'' else method),
          URL = ''https://lego.example.com/'' @ TrimLeft path ''/'',
          Header = [(''Authorization'', ''Basic YWRtaW46c2VjcmV0''),
                    (''User-Agent'', ''terraform-provider-legocharm'')]
                   @ (if body = None then [] else [(''Content-Type'', ''application/json'')]),
          Body = body\<rparr>"
  by (simp add: NewRequest_Some example_env_simps example_client_def SetBasicAuth_def Header_Set_def
      b64_admin)

lemmas example_eval =
  example_request example_env_simps response_to_def Do_Some example_server_def reply_def
  Header_Get_def TrimLeft_def ReadAll_def
  alice_body_def bob_body_def domain5_body_def domain6_body_def permission42_body_def

lemma example_GetUserById_alice:
  "GetUserById example_env example_server example_client ''7'' [] =
     (Inr alice, [\<lparr>Method = ''GET'', URL = ''https://lego.example.com/api/v1/users/7/'',
          Header = [(''Authorization'', ''Basic YWRtaW46c2VjcmV0''),
                    (''User-Agent'', ''terraform-provider-legocharm'')], Body = None\<rparr>])"
  by (simp add: GetUserById_def example_eval)

lemma example_GetUserById_99:
  "\<exists>log1. GetUserById example_env example_server example_client ''99'' [] = (Inl ErrNotFound, log1)"
  by (simp add: GetUserById_def example_eval)

lemma NewRequest_error:
  "NewRequest env (Some c) method path body = Inl err \<Longrightarrow> \<exists>m. err = New m"
  by (auto simp: NewRequest_Some split: option.splits)

lemma GetUserByUsername_error:
  assumes "GetUserByUsername env srv c username log = (Inl err, log1)"
  shows "errors_Is err ErrNotFound \<longleftrightarrow> err = ErrNotFound"
  using assms
  by (auto simp: GetUserByUsername_def Do_Some ReadAll_def
      split: sum.splits if_splits dest!: NewRequest_error)

lemma example_lookup_bob:
  "\<exists>log1. GetUserByUsername example_env example_server example_client ''bob'' [] = (Inl ErrNotFound, log1)"
  by (simp add: GetUserByUsername_def example_eval)

lemma failing_lookup_bob:
  "\<exists>log1. GetUserByUsername example_env failing_server example_client ''bob'' []
     = (Inl (Wrapf ''failed to execute request: '' (New ''connection refused'') []), log1)"
  by (simp add: GetUserByUsername_def example_request Do_Some failing_server_def example_env_simps)

lemma example_access_lookup:
  "\<exists>log2. GetDomainAccess example_env example_server example_client ''7'' ''example.com'' []
     = (Inl ErrNotFound, log2)"
  by (simp add: GetDomainAccess_def example_GetUserById_alice) (simp add: example_eval alice_def)

lemma failing_access_lookup:
  "\<exists>log2. GetDomainAccess example_env failing_server example_client ''7'' ''example.com'' []
     = (Inl (Wrapf ''failed to get user data: ''
               (Wrapf ''failed to execute request: '' (New ''connection refused'') []) []), log2)"
  by (simp add: GetDomainAccess_def GetUserById_def example_request Do_Some failing_server_def
      example_env_simps)

lemma b64_stale: "base64_StdEncoding ''alice:stale'' = ''YWxpY2U6c3RhbGU=''"
  by code_simp

lemma LastPathSegment_alice: "LastPathSegment (Url alice) = ''7''"
  unfolding alice_def by code_simp

lemma example_lookup_alice:
  "\<exists>log1. GetUserByUsername example_env example_server example_client ''alice'' [] = (Inr alice, log1)"
  by (simp add: GetUserByUsername_def example_eval)

lemma example_user_client:
  "p \<noteq> [] \<Longrightarrow> NewClient example_env (Some (BaseURL example_client)) (Some ''alice'') (Some p) =
     Inr \<lparr>BaseURL = ''https://lego.example.com'', Username = ''alice'', Password = p,
          HTTPClient = \<lparr>Timeout = 120 * time_Second\<rparr>\<rparr>"
  by (simp add: NewClient_def example_env_def resolve_address_def resolve_timeout_def HasPrefix_def
      TrimRight_def example_client_def)

lemma example_probe_stale:
  "\<exists>log2. HasValidUserPassword example_env example_server example_client ''alice'' ''stale'' log1
     = (Inr False, log2)"
  by (simp add: HasValidUserPassword_def example_user_client NewRequest_Some example_env_simps
      SetBasicAuth_def Header_Set_def b64_stale Do_Some example_server_def reply_def Header_Get_def)

lemma example_probe_valid:
  "\<exists>log2. HasValidUserPassword example_env example_server example_client ''alice'' ''wonderland'' log1
     = (Inr True, log2)"
  by (simp add: HasValidUserPassword_def example_user_client NewRequest_Some example_env_simps
      SetBasicAuth_def Header_Set_def b64_alice Do_Some example_server_def reply_def Header_Get_def)

lemma example_probe_no_password:
  "HasValidUserPassword example_env example_server example_client ''alice'' [] log1
     = (Inl (Wrapf ''failed to create client: '' (New ''password is required'') []), log1)"
  by (simp add: HasValidUserPassword_def NewClient_def example_client_def)

lemma NewRequest_fields:
  assumes "NewRequest env (Some c) method path body = Inr req"
  shows "Method req = (if method = [] then ''GET'' else method)"
    and "Body req = body"
    and "URL req = BaseURL c @ ''/'' @ TrimLeft path ''/''"
  using assms
  by (auto simp: NewRequest_Some Header_Set_fields SetBasicAuth_def split: option.splits if_splits)

lemma GetUserByUsername_log:
  "snd (GetUserByUsername env srv c username log) =
     log @ (case NewRequest env (Some c) ''GET''
                   (''/api/v1/users/?username='' @ url_QueryEscape env username) None of
              Inl _ \<Rightarrow> [] | Inr req \<Rightarrow> [req])"
  by (simp add: GetUserByUsername_def Do_Some ReadAll_def split: sum.splits)

lemma GetUserByUsername_sends_GET:
  assumes "GetUserByUsername env srv c username log = (r, log1)"
  shows "\<exists>new. log1 = log @ new \<and> (\<forall>q \<in> set new. Method q = ''GET'' \<and> Body q = None)"
proof -
  from assms GetUserByUsername_log [of env srv c username log]
  have "log1 = log @ (case NewRequest env (Some c) ''GET''
                   (''/api/v1/users/?username='' @ url_QueryEscape env username) None of
              Inl _ \<Rightarrow> [] | Inr req \<Rightarrow> [req])" by simp
  then show ?thesis
    by (cases "NewRequest env (Some c) ''GET''
                   (''/api/v1/users/?username='' @ url_QueryEscape env username) None")
       (auto dest: NewRequest_fields)
qed

lemma CreateUser_log:
  "snd (CreateUser env srv c user log) =
     log @ (case NewRequest env (Some c) ''POST'' ''/api/v1/users/'' (Some (UserCreatePayload user)) of
              Inl _ \<Rightarrow> [] | Inr req \<Rightarrow> [req])"
  by (simp add: CreateUser_def Marshal_def Do_Some ReadAll_def split: sum.splits)

lemma UserResource_Create_reached:
  assumes "UserResource.client r = Some c"
      and "\<not> HasError (Append (Diagnostics resp) (get_diags (CreateRequest.Plan req)))"
      and "data = get_value (CreateRequest.Plan req)"
      and "GetUserByUsername env srv c (ValueString (UserModel.Username data)) log = (lookup, log1)"
  shows "UserResource_Create env srv r req resp log =
    (let resp = Diagnostics_Append (get_diags (CreateRequest.Plan req)) resp in
     case lookup of
       Inr existingUser \<Rightarrow>
         (AddError ''User Exists''
            (''A user with username '' @ [CHR 0x27] @ ValueString (UserModel.Username data)
               @ [CHR 0x27] @ '' already exists (id='' @ LastPathSegment (Url existingUser) @ '').'')
            resp, log1)
     | Inl err \<Rightarrow>
         if err \<noteq> ErrNotFound then
           (AddError ''Client Error'' (''Unable to check for existing user: '' @ Error err) resp, log1)
         else
           (case CreateUser env srv c (create_of data) log1 of
              (Inl err, log2) \<Rightarrow>
                (AddError ''Client Error'' (''Unable to create user, got error: '' @ Error err) resp, log2)
            | (Inr _, log2) \<Rightarrow>
                (case GetUserByUsername env srv c (ValueString (UserModel.Username data)) log2 of
                   (Inl err, log3) \<Rightarrow>
                     (AddError ''Client Error''
                        (''User created but failed to read back: '' @ Error err) resp, log3)
                 | (Inr user, log3) \<Rightarrow>
                     (State_Set
                        \<lparr>UserModel.Username = UserModel.Username data,
                         Password = Value (ValueString (UserModel.Password data)),
                         Email = Value (UserData.Email user),
                         Id = Value (LastPathSegment (Url user))\<rparr> resp, log3))))"
  using assms
  by (cases data)
     (simp add: UserResource_Create_def Get_def Let_def create_of_def split: sum.splits prod.splits)

lemma UserResource_Create_log_prefix:
  assumes "UserResource.client r = Some c"
      and "\<not> HasError (Append (Diagnostics resp) (get_diags (CreateRequest.Plan req)))"
      and "data = get_value (CreateRequest.Plan req)"
      and "GetUserByUsername env srv c (ValueString (UserModel.Username data)) log = (Inl ErrNotFound, log1)"
  shows "\<exists>rest. snd (UserResource_Create env srv r req resp log)
           = snd (CreateUser env srv c (create_of data) log1) @ rest"
proof -
  obtain cr log2 where cu: "CreateUser env srv c (create_of data) log1 = (cr, log2)"
    by (cases "CreateUser env srv c (create_of data) log1")
  obtain rr log3 where rb: "GetUserByUsername env srv c (ValueString (UserModel.Username data)) log2 = (rr, log3)"
    by (cases "GetUserByUsername env srv c (ValueString (UserModel.Username data)) log2")
  from GetUserByUsername_sends_GET [OF rb] obtain new where n: "log3 = log2 @ new" by blast
  show ?thesis
    using cu rb n
    by (simp add: UserResource_Create_reached [OF assms] Let_def split: sum.splits)
qed


lemma failing_lookup_alice:
  "\<exists>log1. GetUserByUsername example_env failing_server example_client ''alice'' []
     = (Inl (Wrapf ''failed to execute request: '' (New ''connection refused'') []), log1)"
  by (simp add: GetUserByUsername_def example_request Do_Some failing_server_def example_env_simps)

lemma post_permission_log:
  "snd (post_permission env srv c b log) =
     log @ (case NewRequest env (Some c) ''POST'' ''/api/v1/domain-user-permissions/'' (Some b) of
              Inl _ \<Rightarrow> [] | Inr req \<Rightarrow> [req])"
  by (simp add: post_permission_def Do_Some ReadAll_def split: sum.splits)

lemma GetDomain_log:
  "snd (GetDomain env srv c fqdn log) =
     log @ (case NewRequest env (Some c) ''GET''
                   (''/api/v1/domains/?fqdn='' @ url_QueryEscape env fqdn) None of
              Inl _ \<Rightarrow> [] | Inr req \<Rightarrow> [req])"
  by (simp add: GetDomain_def Do_Some ReadAll_def split: sum.splits)

lemma CreateDomain_log:
  "snd (CreateDomain env srv c domain log) =
     log @ (case NewRequest env (Some c) ''POST'' ''/api/v1/domains/'' (Some (DomainPayload domain)) of
              Inl _ \<Rightarrow> [] | Inr req \<Rightarrow> [req])"
  by (simp add: CreateDomain_def Marshal_def Do_Some ReadAll_def split: sum.splits)

lemma CreateDomainAccess_resolved:
  assumes "GetDomain env srv c (DomainUserPermissionCreateData.Domain access) log = (lookup, log1)"
  shows "CreateDomainAccess env srv c access log =
     (case lookup of
        Inl err \<Rightarrow>
          if err \<noteq> ErrNotFound then (Inl (Wrapf ''failed to get domain data: '' err []), log1)
          else
            (case CreateDomain env srv c
                    \<lparr>Fqdn = DomainUserPermissionCreateData.Domain access, ID = 0\<rparr> log1 of
               (Inl err, log2) \<Rightarrow> (Inl (Wrapf ''failed to create domain: '' err []), log2)
             | (Inr newDomainData, log2) \<Rightarrow>
                 post_permission env srv c
                   (permission_payload access (DomainData.ID newDomainData)) log2)
      | Inr domainData \<Rightarrow>
          post_permission env srv c (permission_payload access (DomainData.ID domainData)) log1)"
  using assms
  by (simp add: CreateDomainAccess_def post_permission_def permission_payload_def Marshal_def Let_def
      split: sum.splits prod.splits)


lemma GetDomain_sends_GET:
  assumes "GetDomain env srv c fqdn log = (r, log1)"
  shows "\<exists>new. log1 = log @ new \<and> (\<forall>q \<in> set new. Method q = ''GET'' \<and> Body q = None)"
proof -
  from assms GetDomain_log [of env srv c fqdn log]
  have "log1 = log @ (case NewRequest env (Some c) ''GET''
                   (''/api/v1/domains/?fqdn='' @ url_QueryEscape env fqdn) None of
              Inl _ \<Rightarrow> [] | Inr req \<Rightarrow> [req])" by simp
  then show ?thesis
    by (cases "NewRequest env (Some c) ''GET''
                   (''/api/v1/domains/?fqdn='' @ url_QueryEscape env fqdn) None")
       (auto dest: NewRequest_fields)
qed

lemma permission_request_body:
  "\<forall>q \<in> set (case NewRequest env (Some c) ''POST'' ''/api/v1/domain-user-permissions/''
                       (Some (permission_payload access n)) of Inl _ \<Rightarrow> [] | Inr req \<Rightarrow> [req]).
     Method q = ''POST'' \<and> Body q = Some (permission_payload access n)"
  by (cases "NewRequest env (Some c) ''POST'' ''/api/v1/domain-user-permissions/''
                       (Some (permission_payload access n))")
     (auto dest: NewRequest_fields)

lemma example_GetDomain_known:
  "GetDomain example_env example_server example_client ''example.com'' log =
     (Inr \<lparr>Fqdn = ''example.com'', ID = 5\<rparr>,
      log @ [sent ''GET'' ''/api/v1/domains/?fqdn=example.com'' None])"
  by (simp add: GetDomain_def example_eval sent_def)




lemma example_permission_request:
  "NewRequest example_env (Some example_client) ''POST'' ''/api/v1/domain-user-permissions/'' (Some b)
     = Inr (sent ''POST'' ''/api/v1/domain-user-permissions/'' (Some b))"
  by (simp add: example_request TrimLeft_def sent_def)

lemma DeleteDomainAccess_log:
  "snd (DeleteDomainAccess env srv c permId log) =
     log @ (case NewRequest env (Some c) ''DELETE''
                   (''/api/v1/domain-user-permissions/'' @ Sprintf_d permId @ ''/'') None of
              Inl _ \<Rightarrow> [] | Inr req \<Rightarrow> [req])"
  by (simp add: DeleteDomainAccess_def Do_Some Let_def split: sum.splits)

lemma UserDomainAccessResource_Update_reached:
  assumes "UserDomainAccessResource.client r = Some c"
      and "\<not> HasError (Append (Diagnostics resp) (get_diags (UpdateRequest.Plan req)))"
      and "data = get_value (UpdateRequest.Plan req)"
      and "\<not> IsNull (UserDomainAccessModel.UserId data)"
      and "\<not> IsNull (UserDomainAccessModel.Domain data)"
      and "\<not> IsNull (DatabaseID data)" and "ValueInt64 (DatabaseID data) \<noteq> 0"
      and "DeleteDomainAccess env srv c (ValueInt64 (DatabaseID data)) log = (deleted, log1)"
      and "CreateDomainAccess env srv c (createData_of data) log1 = (created, log2)"
  shows "UserDomainAccessResource_Update env srv r req resp log =
    (let resp = Diagnostics_Append (get_diags (UpdateRequest.Plan req)) resp in
     case deleted of
       Inl err \<Rightarrow>
         (AddError ''Client Error'' (''Unable to delete user domain access: '' @ Error err) resp, log1)
     | Inr _ \<Rightarrow>
         (case created of
            Inl err \<Rightarrow>
              (AddError ''Client Error'' (''Unable to update user domain access: '' @ Error err) resp,
               log2)
          | Inr domain \<Rightarrow>
              (State_Set
                 \<lparr>UserDomainAccessModel.UserId = UserDomainAccessModel.UserId data,
                  Domain = UserDomainAccessModel.Domain data,
                  AccessLevel = UserDomainAccessModel.AccessLevel data,
                  Id = Value (ValueString (UserDomainAccessModel.UserId data) @ '':''
                              @ ValueString (UserDomainAccessModel.Domain data) @ '':''
                              @ ValueString (UserDomainAccessModel.AccessLevel data)),
                  DatabaseID = Value (DomainUserPermissionData.ID domain)\<rparr> resp, log2)))"
  using assms
  by (cases data)
     (simp add: UserDomainAccessResource_Update_def Get_def Let_def composite_id_def
        split: sum.splits prod.splits)

lemma Sprintf_d_42: "Sprintf_d 42 = ''42''"
  by code_simp

lemma example_DeleteDomainAccess:
  "DeleteDomainAccess example_env example_server example_client 42 log =
     (Inr \<lparr>StatusCode = 204, RespBody = Inr []\<rparr>,
      log @ [sent ''DELETE'' ''/api/v1/domain-user-permissions/42/'' None])"
  by (simp add: DeleteDomainAccess_def Sprintf_d_42 example_eval sent_def)

lemma failing_DeleteDomainAccess:
  "DeleteDomainAccess example_env failing_server example_client 42 log =
     (Inl (Wrapf ''failed to execute request: '' (New ''connection refused'') []),
      log @ [sent ''DELETE'' ''/api/v1/domain-user-permissions/42/'' None])"
  by (simp add: DeleteDomainAccess_def Sprintf_d_42 example_request Do_Some failing_server_def
      sent_def TrimLeft_def)

lemma example_CreateDomainAccess:
  "CreateDomainAccess example_env example_server example_client
     \<lparr>DomainUserPermissionCreateData.UserID = ''7'', Domain = ''example.com'', AccessLevel = level\<rparr> log =
     (Inr permission42,
      log @ [sent ''GET'' ''/api/v1/domains/?fqdn=example.com'' None,
             sent ''POST'' ''/api/v1/domain-user-permissions/''
               (Some (PermissionPayload \<lparr>DomainUserPermissionCreatePayloadData.UserID = ''7'',
                        Domain = 5, AccessLevel = level\<rparr>))])"
  by (simp add: CreateDomainAccess_resolved [where lookup = "Inr \<lparr>Fqdn = ''example.com'', ID = 5\<rparr>"
        and ?log1.0 = "log @ [sent ''GET'' ''/api/v1/domains/?fqdn=example.com'' None]"]
      example_GetDomain_known post_permission_def permission_payload_def example_permission_request
      Do_Some example_server_def reply_def Header_Get_def sent_def ReadAll_def example_env_simps)

lemma CreateDomainAccess_payloads:
  assumes "CreateDomainAccess env srv c access log = (res, log')"
  shows "\<forall>q \<in> set (drop (length log) log'). \<forall>p. Body q = Some (PermissionPayload p) \<longrightarrow>
           DomainUserPermissionCreatePayloadData.AccessLevel p
             = DomainUserPermissionCreateData.AccessLevel access
           \<and> DomainUserPermissionCreatePayloadData.UserID p
             = DomainUserPermissionCreateData.UserID access"
proof -
  obtain lookup log1 where g: "GetDomain env srv c (DomainUserPermissionCreateData.Domain access) log = (lookup, log1)"
    by (cases "GetDomain env srv c (DomainUserPermissionCreateData.Domain access) log")
  obtain created log2 where cd: "CreateDomain env srv c
       \<lparr>Fqdn = DomainUserPermissionCreateData.Domain access, ID = 0\<rparr> log1 = (created, log2)"
    by (cases "CreateDomain env srv c \<lparr>Fqdn = DomainUserPermissionCreateData.Domain access, ID = 0\<rparr> log1")
  from GetDomain_sends_GET [OF g] obtain new where
    new: "log1 = log @ new" "\<forall>q \<in> set new. Method q = ''GET'' \<and> Body q = None" by blast
  define D where "D = (case NewRequest env (Some c) ''POST'' ''/api/v1/domains/''
                           (Some (DomainPayload
                              \<lparr>Fqdn = DomainUserPermissionCreateData.Domain access, ID = 0\<rparr>)) of
                       Inl _ \<Rightarrow> [] | Inr q \<Rightarrow> [q])"
  have Db: "\<forall>q \<in> set D. \<exists>d. Body q = Some (DomainPayload d)"
    unfolding D_def
    by (cases "NewRequest env (Some c) ''POST'' ''/api/v1/domains/''
                           (Some (DomainPayload
                              \<lparr>Fqdn = DomainUserPermissionCreateData.Domain access, ID = 0\<rparr>))")
       (auto dest: NewRequest_fields)
  from cd CreateDomain_log [of env srv c "\<lparr>Fqdn = DomainUserPermissionCreateData.Domain access, ID = 0\<rparr>" log1]
  have l2: "log2 = log1 @ D" by (simp add: D_def)
  define P where "P = (\<lambda>n. case NewRequest env (Some c) ''POST'' ''/api/v1/domain-user-permissions/''
                           (Some (permission_payload access n)) of
                       Inl _ \<Rightarrow> [] | Inr q \<Rightarrow> [q])"
  have Pb: "\<forall>q \<in> set (P n). Body q = Some (permission_payload access n)" for n
    using permission_request_body [of env c access n] unfolding P_def by blast
  have shape: "\<exists>mid n. log' = log @ new @ mid @ P n \<and> (mid = [] \<or> mid = D)
                 \<or> log' = log @ new \<or> log' = log @ new @ D"
  proof (cases lookup)
    case (Inl err)
    show ?thesis
    proof (cases "err = ErrNotFound")
      case True
      show ?thesis
      proof (cases created)
        case (Inl e)
        with True \<open>lookup = Inl err\<close> assms cd l2 new(1) show ?thesis
          by (simp add: CreateDomainAccess_resolved [OF g])
      next
        case (Inr nd)
        with True \<open>lookup = Inl err\<close> assms cd
        have "log' = snd (post_permission env srv c (permission_payload access (DomainData.ID nd)) log2)"
          by (simp add: CreateDomainAccess_resolved [OF g])
        then have "log' = log @ new @ D @ P (DomainData.ID nd)"
          using l2 new(1) by (simp add: post_permission_log P_def)
        then show ?thesis by blast
      qed
    next
      case False
      with Inl assms new(1) show ?thesis by (simp add: CreateDomainAccess_resolved [OF g])
    qed
  next
    case (Inr d)
    with assms have "log' = snd (post_permission env srv c (permission_payload access (DomainData.ID d)) log1)"
      by (simp add: CreateDomainAccess_resolved [OF g])
    then have "log' = log @ new @ [] @ P (DomainData.ID d)"
      using new(1) by (simp add: post_permission_log P_def)
    then show ?thesis by blast
  qed
  have ok: "DomainUserPermissionCreatePayloadData.AccessLevel p
             = DomainUserPermissionCreateData.AccessLevel access
           \<and> DomainUserPermissionCreatePayloadData.UserID p
             = DomainUserPermissionCreateData.UserID access"
    if "q \<in> set new \<union> set D \<union> set (P n)" "Body q = Some (PermissionPayload p)" for q p n
  proof -
    from that(1) consider "q \<in> set new" | "q \<in> set D" | "q \<in> set (P n)" by blast
    then show ?thesis
    proof cases
      case 1 with new(2) that(2) show ?thesis by simp
    next
      case 2 with Db that(2) show ?thesis by force
    next
      case 3
      with Pb [of n] that(2) have "PermissionPayload p = permission_payload access n" by simp
      then show ?thesis by (auto simp: permission_payload_def)
    qed
  qed
  from shape consider mid n where "log' = log @ new @ mid @ P n" "mid = [] \<or> mid = D"
    | "log' = log @ new" | "log' = log @ new @ D" by blast
  then show ?thesis
  proof cases
    case 1
    then have "set (drop (length log) log') \<subseteq> set new \<union> set D \<union> set (P n)" by auto
    with ok [of _ n] show ?thesis by blast
  next
    case 2
    then have "set (drop (length log) log') \<subseteq> set new \<union> set D \<union> set (P 0)" by auto
    with ok [of _ 0] show ?thesis by blast
  next
    case 3
    then have "set (drop (length log) log') \<subseteq> set new \<union> set D \<union> set (P 0)" by auto
    with ok [of _ 0] show ?thesis by blast
  qed
qed


lemma UserDomainAccessResource_Create_reached:
  assumes "UserDomainAccessResource.client r = Some c"
      and "\<not> HasError (Append (Diagnostics resp) (get_diags (CreateRequest.Plan req)))"
      and "data = get_value (CreateRequest.Plan req)"
      and "GetDomainAccess env srv c (ValueString (UserDomainAccessModel.UserId data))
             (ValueString (UserDomainAccessModel.Domain data)) log = (existing, log1)"
      and "CreateDomainAccess env srv c (createData_of data) log1 = (created, log2)"
  shows "UserDomainAccessResource_Create env srv r req resp log =
    (let resp = Diagnostics_Append (get_diags (CreateRequest.Plan req)) resp in
     case existing of
       Inr _ \<Rightarrow>
         (AddError ''Domain Access Already Exists''
            ''A domain access permission already exists for this user and domain combination.''
            resp, log1)
     | Inl _ \<Rightarrow>
         (case created of
            Inl err \<Rightarrow>
              (AddError ''Client Error'' (''Unable to create user domain access: '' @ Error err) resp,
               log2)
          | Inr domain \<Rightarrow>
              (State_Set
                 \<lparr>UserDomainAccessModel.UserId = UserDomainAccessModel.UserId data,
                  Domain = UserDomainAccessModel.Domain data,
                  AccessLevel = UserDomainAccessModel.AccessLevel data,
                  Id = Value (ValueString (UserDomainAccessModel.UserId data) @ '':''
                              @ ValueString (UserDomainAccessModel.Domain data) @ '':''
                              @ ValueString (UserDomainAccessModel.AccessLevel data)),
                  DatabaseID = Value (DomainUserPermissionData.ID domain)\<rparr> resp, log2)))"
  using assms
  by (cases data)
     (simp add: UserDomainAccessResource_Create_def Get_def Let_def composite_id_def
        split: sum.splits prod.splits)

lemma example_GetDomainAccess:
  "GetDomainAccess example_env example_server example_client ''7'' ''example.com'' [] =
     (Inl ErrNotFound,
      [sent ''GET'' ''/api/v1/users/7/'' None,
       sent ''GET'' ''/api/v1/domain-user-permissions/?username=alice&fqdn=example.com'' None])"
  by (simp add: GetDomainAccess_def example_GetUserById_alice) (simp add: example_eval alice_def sent_def)

lemma GetUserById_error:
  assumes "GetUserById env srv c userId log = (Inl err, log1)"
  shows "errors_Is err ErrNotFound \<longleftrightarrow> err = ErrNotFound"
  using assms
  by (auto simp: GetUserById_def Do_Some ReadAll_def
      split: sum.splits if_splits dest!: NewRequest_error)

lemma GetDomainAccess_error:
  assumes "GetDomainAccess env srv c userId domain log = (Inl err, log1)"
  shows "errors_Is err ErrNotFound \<longleftrightarrow>
           err = ErrNotFound \<or> err = Wrapf ''failed to get user data: '' ErrNotFound []"
proof (cases "GetUserById env srv c userId log")
  case (Pair r l)
  show ?thesis
  proof (cases r)
    case (Inl e)
    with Pair assms have "err = Wrapf ''failed to get user data: '' e []"
      by (simp add: GetDomainAccess_user_error)
    moreover from Pair Inl have "errors_Is e ErrNotFound \<longleftrightarrow> e = ErrNotFound"
      using GetUserById_error by blast
    ultimately show ?thesis by auto
  next
    case (Inr user)
    with Pair assms show ?thesis
      by (auto simp: GetDomainAccess_def Let_def Do_Some ReadAll_def
          split: sum.splits if_splits dest!: NewRequest_error)
  qed
qed

lemma example_GetUserById_99_log:
  "GetUserById example_env example_server example_client ''99'' [] =
     (Inl ErrNotFound, [sent ''GET'' ''/api/v1/users/99/'' None])"
  by (simp add: GetUserById_def example_eval sent_def)

lemma example_GetDomainAccess_99:
  "GetDomainAccess example_env example_server example_client ''99'' ''example.com'' [] =
     (Inl (Wrapf ''failed to get user data: '' ErrNotFound []),
      [sent ''GET'' ''/api/v1/users/99/'' None])"
  by (rule GetDomainAccess_user_error [OF example_GetUserById_99_log])

lemma UserDomainAccessResource_Read_error:
  assumes "UserDomainAccessResource.client dr = Some c"
      and "\<not> HasError (Append (Diagnostics dresp) (get_diags (ReadRequest.State dreq)))"
      and "\<not> IsNull (UserDomainAccessModel.UserId (get_value (ReadRequest.State dreq)))"
      and "\<not> IsNull (UserDomainAccessModel.Domain (get_value (ReadRequest.State dreq)))"
      and "GetDomainAccess env srv c
           (ValueString (UserDomainAccessModel.UserId (get_value (ReadRequest.State dreq))))
           (ValueString (UserDomainAccessModel.Domain (get_value (ReadRequest.State dreq)))) log
          = (Inl err', log2)"
  shows "UserDomainAccessResource_Read env srv dr dreq dresp log =
      (if errors_Is err' ErrNotFound
       then RemoveResource (Diagnostics_Append (get_diags (ReadRequest.State dreq)) dresp)
       else AddError ''Client Error'' (''Unable to read user domain access: '' @ Error err')
              (Diagnostics_Append (get_diags (ReadRequest.State dreq)) dresp), log2)"
  using assms by (simp add: UserDomainAccessResource_Read_def Get_def)

lemma DeleteDomainAccess_result:
  "fst (DeleteDomainAccess env srv c permId log) = Inr resp \<longleftrightarrow>
     response_to env srv c ''DELETE''
       (''/api/v1/domain-user-permissions/'' @ Sprintf_d permId @ ''/'') None log = Some resp"
  by (auto simp: DeleteDomainAccess_def Do_Some Let_def response_to_def split: sum.splits)

lemma refusing_DeleteDomainAccess:
  "DeleteDomainAccess example_env refusing_delete_server example_client 42 log =
     (Inr \<lparr>StatusCode = 500, RespBody = Inr ''server error''\<rparr>,
      log @ [sent ''DELETE'' ''/api/v1/domain-user-permissions/42/'' None])"
  by (simp add: DeleteDomainAccess_def Sprintf_d_42 example_request Do_Some
      refusing_delete_server_def reply_def sent_def TrimLeft_def)

lemma refusing_GetDomain_known:
  "GetDomain example_env refusing_delete_server example_client ''example.com'' log =
     (Inr \<lparr>Fqdn = ''example.com'', ID = 5\<rparr>,
      log @ [sent ''GET'' ''/api/v1/domains/?fqdn=example.com'' None])"
  by (simp add: GetDomain_def example_eval sent_def refusing_delete_server_def)

lemma refusing_CreateDomainAccess:
  "CreateDomainAccess example_env refusing_delete_server example_client
     \<lparr>DomainUserPermissionCreateData.UserID = ''7'', Domain = ''example.com'', AccessLevel = level\<rparr> log =
     (Inr permission42,
      log @ [sent ''GET'' ''/api/v1/domains/?fqdn=example.com'' None,
             sent ''POST'' ''/api/v1/domain-user-permissions/''
               (Some (PermissionPayload \<lparr>DomainUserPermissionCreatePayloadData.UserID = ''7'',
                        Domain = 5, AccessLevel = level\<rparr>))])"
  by (simp add: CreateDomainAccess_resolved [where lookup = "Inr \<lparr>Fqdn = ''example.com'', ID = 5\<rparr>"
        and ?log1.0 = "log @ [sent ''GET'' ''/api/v1/domains/?fqdn=example.com'' None]"]
      refusing_GetDomain_known post_permission_def permission_payload_def example_permission_request
      Do_Some refusing_delete_server_def example_server_def reply_def Header_Get_def sent_def
      ReadAll_def example_env_simps)

section \<open>Request construction\<close>

text \<open>
  Claim C7. When \<open>http.NewRequest\<close> accepts the method and the URL, \<open>NewRequest\<close> returns
  a request whose URL is the client's base URL, one \<open>/\<close>, and the path without its
  leading slashes; its \<open>Authorization\<close> header is the basic authentication of the
  client's username and password, its \<open>User-Agent\<close> is \<open>terraform-provider-legocharm\<close>,
  and its \<open>Content-Type\<close> is \<open>application/json\<close> when a body is present (the header is
  absent otherwise). The base URL of a client made by \<open>NewClient\<close> is the address, or
  the address behind \<open>https://\<close>, without trailing slashes.
\<close>

theorem NewRequest_request:
  assumes "http_NewRequest_err env method (BaseURL c @ ''/'' @ TrimLeft path ''/'') = None"
  shows "(\<exists>req. NewRequest env (Some c) method path body = Inr req
            \<and> URL req = BaseURL c @ ''/'' @ TrimLeft path ''/''
            \<and> \<not> HasPrefix (TrimLeft path ''/'') ''/''
            \<and> Header_Get req ''Authorization''
                = ''Basic '' @ base64_StdEncoding (Client.Username c @ '':'' @ Client.Password c)
            \<and> Header_Get req ''User-Agent'' = ''terraform-provider-legocharm''
            \<and> (body \<noteq> None \<longrightarrow> Header_Get req ''Content-Type'' = ''application/json'')
            \<and> (body = None \<longrightarrow> map_of (Header req) ''Content-Type'' = None)
            \<and> Body req = body)
       \<and> (\<forall>address username password.
             NewClient env address username password = Inr c \<longrightarrow>
               \<not> HasSuffix (BaseURL c) ''/''
               \<and> (BaseURL c = TrimRight (the address) ''/''
                    \<or> BaseURL c = TrimRight (''https://'' @ the address) ''/'')
               \<and> Client.Username c = the username \<and> Client.Password c = the password)"
proof (intro conjI allI impI)
  show "\<exists>req. NewRequest env (Some c) method path body = Inr req
            \<and> URL req = BaseURL c @ ''/'' @ TrimLeft path ''/''
            \<and> \<not> HasPrefix (TrimLeft path ''/'') ''/''
            \<and> Header_Get req ''Authorization''
                = ''Basic '' @ base64_StdEncoding (Client.Username c @ '':'' @ Client.Password c)
            \<and> Header_Get req ''User-Agent'' = ''terraform-provider-legocharm''
            \<and> (body \<noteq> None \<longrightarrow> Header_Get req ''Content-Type'' = ''application/json'')
            \<and> (body = None \<longrightarrow> map_of (Header req) ''Content-Type'' = None)
            \<and> Body req = body"
    using assms TrimLeft_no_prefix [of path]
    by (simp add: NewRequest_Some Header_Get_Set Header_Set_fields SetBasicAuth_def
        map_of_Header_Set)
next
  fix address username password
  assume h: "NewClient env address username password = Inr c"
  from NewClient_Inr [OF h] obtain a u p where
    *: "address = Some a" "username = Some u" "password = Some p"
       "Client.Username c = u" "Client.Password c = p"
       "BaseURL c = TrimRight a ''/'' \<or> BaseURL c = TrimRight (''https://'' @ a) ''/''"
    by blast
  from * show "\<not> HasSuffix (BaseURL c) ''/''" using TrimRight_no_suffix by metis
  from * show "BaseURL c = TrimRight (the address) ''/''
                 \<or> BaseURL c = TrimRight (''https://'' @ the address) ''/''" by simp
  from * show "Client.Username c = the username" by simp
  from * show "Client.Password c = the password" by simp
qed

theorem NewRequest_request_witness:
  \<open>(\<exists>req. NewRequest example_env (Some example_client) ''POST'' ''//api/v1/domains/''
            (Some (DomainPayload \<lparr>Fqdn = ''example.com'', ID = 0\<rparr>)) = Inr req
         \<and> URL req = ''https://lego.example.com/api/v1/domains/''
         \<and> Header_Get req ''Authorization'' = ''Basic YWRtaW46c2VjcmV0''
         \<and> Header_Get req ''User-Agent'' = ''terraform-provider-legocharm''
         \<and> Header_Get req ''Content-Type'' = ''application/json'')
   \<and> NewClient example_env (Some ''https://lego.example.com/'') (Some ''admin'') (Some ''secret'')
       = Inr example_client
   \<and> \<not> HasSuffix (BaseURL example_client) ''/''\<close>
proof -
  have h: "http_NewRequest_err example_env ''POST''
             (BaseURL example_client @ ''/'' @ TrimLeft ''//api/v1/domains/'' ''/'') = None"
    by (simp add: example_env_def)
  have b: "base64_StdEncoding ''admin:secret'' = ''YWRtaW46c2VjcmV0''" by code_simp
  note t = NewRequest_request [OF h, of "Some (DomainPayload \<lparr>Fqdn = ''example.com'', ID = 0\<rparr>)"]
  from t obtain req where
    "NewRequest example_env (Some example_client) ''POST'' ''//api/v1/domains/''
        (Some (DomainPayload \<lparr>Fqdn = ''example.com'', ID = 0\<rparr>)) = Inr req"
    "URL req = BaseURL example_client @ ''/'' @ TrimLeft ''//api/v1/domains/'' ''/''"
    "Header_Get req ''Authorization''
       = ''Basic '' @ base64_StdEncoding (Client.Username example_client @ '':'' @ Client.Password example_client)"
    "Header_Get req ''User-Agent'' = ''terraform-provider-legocharm''"
    "Header_Get req ''Content-Type'' = ''application/json''"
    by blast
  then have 1: "\<exists>req. NewRequest example_env (Some example_client) ''POST'' ''//api/v1/domains/''
            (Some (DomainPayload \<lparr>Fqdn = ''example.com'', ID = 0\<rparr>)) = Inr req
         \<and> URL req = ''https://lego.example.com/api/v1/domains/''
         \<and> Header_Get req ''Authorization'' = ''Basic YWRtaW46c2VjcmV0''
         \<and> Header_Get req ''User-Agent'' = ''terraform-provider-legocharm''
         \<and> Header_Get req ''Content-Type'' = ''application/json''"
    by (simp add: example_client_def TrimLeft_def b)
  from t example_NewClient have 2: "\<not> HasSuffix (BaseURL example_client) ''/''" by blast
  from 1 2 example_NewClient show ?thesis by blast
qed

section \<open>The password probe\<close>

text \<open>
  Claim C2. \<open>HasValidUserPassword\<close> returns \<open>(false, nil)\<close> exactly when a client for the
  user's credentials can be built and the service answers its probe of the users
  endpoint with status 401, and \<open>(true, nil)\<close> exactly when it answers with status 403;
  any other status gives the error \<open>unexpected status code\<close>, and an empty username or
  password gives an error before anything is sent.
\<close>

theorem HasValidUserPassword_status:
  assumes "HasValidUserPassword env srv c username password log = (res, log')"
  shows "(res = Inr False \<longleftrightarrow>
            (\<exists>userClient resp.
               NewClient env (Some (BaseURL c)) (Some username) (Some password) = Inr userClient
               \<and> response_to env srv userClient ''GET''
                    (''/api/v1/users/?username='' @ url_QueryEscape env username) None log = Some resp
               \<and> StatusCode resp = 401))
       \<and> (res = Inr True \<longleftrightarrow>
            (\<exists>userClient resp.
               NewClient env (Some (BaseURL c)) (Some username) (Some password) = Inr userClient
               \<and> response_to env srv userClient ''GET''
                    (''/api/v1/users/?username='' @ url_QueryEscape env username) None log = Some resp
               \<and> StatusCode resp = 403))
       \<and> (\<forall>userClient resp.
             NewClient env (Some (BaseURL c)) (Some username) (Some password) = Inr userClient
             \<and> response_to env srv userClient ''GET''
                  (''/api/v1/users/?username='' @ url_QueryEscape env username) None log = Some resp
             \<and> StatusCode resp \<noteq> 401 \<and> StatusCode resp \<noteq> 403 \<longrightarrow>
             res = Inl (New (''unexpected status code: '' @ Sprintf_d (StatusCode resp))))
       \<and> (username = [] \<or> password = [] \<longrightarrow> (\<exists>err. res = Inl err) \<and> log' = log)"
  using assms
  by (auto simp: HasValidUserPassword_def response_to_Some Do_Some NewClient_def
       split: sum.splits if_splits)


theorem HasValidUserPassword_status_witness:
  "fst (HasValidUserPassword example_env (status_server 401) example_client ''alice'' ''pw'' []) = Inr False
   \<and> fst (HasValidUserPassword example_env (status_server 403) example_client ''alice'' ''pw'' []) = Inr True
   \<and> fst (HasValidUserPassword example_env (status_server 500) example_client ''alice'' ''pw'' [])
       = Inl (New ''unexpected status code: 500'')
   \<and> (\<exists>err. HasValidUserPassword example_env (status_server 403) example_client ''alice'' [] []
              = (Inl err, []))"
proof -
  let ?H = "\<lambda>n pw. HasValidUserPassword example_env (status_server n) example_client ''alice'' pw []"
  have p: "\<And>n pw. ?H n pw = (fst (?H n pw), snd (?H n pw))" by simp
  have d: "Sprintf_d 500 = ''500''" by code_simp
  from HasValidUserPassword_status [OF p [of 401 "''pw''"]]
  have 1: "fst (?H 401 ''pw'') = Inr False"
    using example_probe_client example_probe_response [of 401] by auto
  from HasValidUserPassword_status [OF p [of 403 "''pw''"]]
  have 2: "fst (?H 403 ''pw'') = Inr True"
    using example_probe_client example_probe_response [of 403] by auto
  from HasValidUserPassword_status [OF p [of 500 "''pw''"]]
  have 3: "fst (?H 500 ''pw'') = Inl (New ''unexpected status code: 500'')"
    using example_probe_client example_probe_response [of 500] d by auto
  from HasValidUserPassword_status [OF p [of 403 "[]"]]
  have 4: "\<exists>err. ?H 403 [] = (Inl err, [])"
    by (metis prod.collapse)
  from 1 2 3 4 show ?thesis by blast
qed

section \<open>Import by composite key\<close>

text \<open>
  Claim C4. \<open>ImportState\<close> of the user reconciler stores the two parts of an import ID that
  splits on \<open>:\<close> into exactly two parts as username and password; \<open>ImportState\<close> of the
  domain-access reconciler stores the three parts of an ID that splits into exactly three
  as user id, domain and access level, with the id set to the whole string. Any other
  number of parts adds the error \<open>Invalid Import ID\<close> and leaves the state as it was. The
  number of parts is one more than the number of colons.
\<close>

theorem ImportState_parts:
  "(length (Split (ImportStateRequest.ID req) CHR '':'') = 2 \<longrightarrow>
      Response.State (UserResource_ImportState req uresp) =
        Some \<lparr>UserModel.Username = Value (Split (ImportStateRequest.ID req) CHR '':'' ! 0),
              Password = Value (Split (ImportStateRequest.ID req) CHR '':'' ! 1),
              Email = Null, Id = Null\<rparr>
      \<and> Diagnostics (UserResource_ImportState req uresp) = Diagnostics uresp)
   \<and> (length (Split (ImportStateRequest.ID req) CHR '':'') \<noteq> 2 \<longrightarrow>
      Response.State (UserResource_ImportState req uresp) = Response.State uresp
      \<and> Diagnostic SeverityError ''Invalid Import ID''
           (''Import ID must be in the format '' @ [CHR 0x27] @ ''username:password'' @ [CHR 0x27])
          \<in> set (Diagnostics (UserResource_ImportState req uresp))
      \<and> HasError (Diagnostics (UserResource_ImportState req uresp)))
   \<and> (length (Split (ImportStateRequest.ID req) CHR '':'') = 3 \<longrightarrow>
      Response.State (UserDomainAccessResource_ImportState req dresp) =
        Some \<lparr>UserDomainAccessModel.UserId = Value (Split (ImportStateRequest.ID req) CHR '':'' ! 0),
              Domain = Value (Split (ImportStateRequest.ID req) CHR '':'' ! 1),
              AccessLevel = Value (Split (ImportStateRequest.ID req) CHR '':'' ! 2),
              Id = Value (ImportStateRequest.ID req), DatabaseID = Null\<rparr>
      \<and> Diagnostics (UserDomainAccessResource_ImportState req dresp) = Diagnostics dresp)
   \<and> (length (Split (ImportStateRequest.ID req) CHR '':'') \<noteq> 3 \<longrightarrow>
      Response.State (UserDomainAccessResource_ImportState req dresp) = Response.State dresp
      \<and> Diagnostic SeverityError ''Invalid Import ID''
           (''Import ID must be in the format '' @ [CHR 0x27] @ ''username:domain:access_level''
              @ [CHR 0x27])
          \<in> set (Diagnostics (UserDomainAccessResource_ImportState req dresp))
      \<and> HasError (Diagnostics (UserDomainAccessResource_ImportState req dresp)))
   \<and> length (Split (ImportStateRequest.ID req) CHR '':'')
       = Suc (length (filter (\<lambda>x. x = CHR '':'') (ImportStateRequest.ID req)))"
  by (simp add: UserResource_ImportState_def UserDomainAccessResource_ImportState_def Let_def
      length_Split del: Split.simps)

theorem ImportState_parts_witness:
  "Response.State (UserResource_ImportState \<lparr>ID = ''alice:s3cret''\<rparr> empty_response) =
     Some \<lparr>UserModel.Username = Value ''alice'', Password = Value ''s3cret'', Email = Null, Id = Null\<rparr>
   \<and> Response.State (UserResource_ImportState \<lparr>ID = ''7:example.com:domain''\<rparr> empty_response) = None
   \<and> HasError (Diagnostics (UserResource_ImportState \<lparr>ID = ''7:example.com:domain''\<rparr> empty_response))
   \<and> Response.State (UserDomainAccessResource_ImportState \<lparr>ID = ''7:example.com:domain''\<rparr> empty_response) =
       Some \<lparr>UserDomainAccessModel.UserId = Value ''7'', Domain = Value ''example.com'',
             AccessLevel = Value ''domain'', Id = Value ''7:example.com:domain'', DatabaseID = Null\<rparr>
   \<and> Response.State (UserDomainAccessResource_ImportState \<lparr>ID = ''alice:s3cret''\<rparr> empty_response) = None
   \<and> HasError (Diagnostics (UserDomainAccessResource_ImportState \<lparr>ID = ''alice:s3cret''\<rparr> empty_response))"
proof -
  have a: "Split ''alice:s3cret'' CHR '':'' = [''alice'', ''s3cret'']" by simp
  have b: "Split ''7:example.com:domain'' CHR '':'' = [''7'', ''example.com'', ''domain'']" by simp
  from ImportState_parts [of "\<lparr>ID = ''alice:s3cret''\<rparr>" empty_response empty_response]
       ImportState_parts [of "\<lparr>ID = ''7:example.com:domain''\<rparr>" empty_response empty_response]
  show ?thesis
    by (simp add: a b empty_response_def del: Split.simps)
qed

section \<open>Not-found detection\<close>

text \<open>
  Claim C6, as amended. \<open>GetUserById\<close>, \<open>GetUserByUsername\<close> and \<open>GetDomain\<close> return
  exactly \<open>ErrNotFound\<close> when the service answers their request with status 404, and so
  does \<open>GetDomainAccess\<close> when its preliminary user lookup succeeded and the service
  answers the permission request with status 404. The three list-shaped lookups also
  return \<open>ErrNotFound\<close> when the body decodes as an empty list, and return a parse error
  when the body decodes neither as a list nor as a single object. When the preliminary
  user lookup of \<open>GetDomainAccess\<close> fails, with \<open>ErrNotFound\<close> on a 404 or with any other
  error, \<open>GetDomainAccess\<close> returns that error wrapped in \<open>failed to get user data\<close>:
  not \<open>ErrNotFound\<close> itself, but an error that \<open>errors.Is\<close> recognises as \<open>ErrNotFound\<close>
  exactly when the user lookup's error was.
\<close>

theorem lookup_not_found:
  "(response_to env srv c ''GET'' (''/api/v1/users/'' @ url_PathEscape env userId @ ''/'') None log
      = Some resp1 \<and> StatusCode resp1 = 404 \<longrightarrow>
      fst (GetUserById env srv c userId log) = Inl ErrNotFound)
   \<and> (response_to env srv c ''GET'' (''/api/v1/users/?username='' @ url_QueryEscape env username) None log
      = Some resp2 \<longrightarrow>
      (StatusCode resp2 = 404 \<longrightarrow> fst (GetUserByUsername env srv c username log) = Inl ErrNotFound)
      \<and> (RespBody resp2 = Inr body2 \<and> Unmarshal_UserData_list env body2 = Inr [] \<longrightarrow>
            fst (GetUserByUsername env srv c username log) = Inl ErrNotFound)
      \<and> (StatusCode resp2 \<noteq> 404 \<and> RespBody resp2 = Inr body2
           \<and> Unmarshal_UserData_list env body2 = Inl m \<and> Unmarshal_UserData env body2 = Inl m' \<longrightarrow>
            fst (GetUserByUsername env srv c username log)
              = Inl (New (''failed to parse user response: '' @ body2))))
   \<and> (response_to env srv c ''GET'' (''/api/v1/domains/?fqdn='' @ url_QueryEscape env fqdn) None log
      = Some resp3 \<longrightarrow>
      (StatusCode resp3 = 404 \<longrightarrow> fst (GetDomain env srv c fqdn log) = Inl ErrNotFound)
      \<and> (RespBody resp3 = Inr body3 \<and> Unmarshal_DomainData_list env body3 = Inr [] \<longrightarrow>
            fst (GetDomain env srv c fqdn log) = Inl ErrNotFound)
      \<and> (StatusCode resp3 \<noteq> 404 \<and> RespBody resp3 = Inr body3
           \<and> Unmarshal_DomainData_list env body3 = Inl m \<and> Unmarshal_DomainData env body3 = Inl m' \<longrightarrow>
            fst (GetDomain env srv c fqdn log)
              = Inl (New (''failed to parse domain response: '' @ body3))))
   \<and> (GetUserById env srv c userId log = (Inr user, log1)
       \<and> response_to env srv c ''GET''
            (''/api/v1/domain-user-permissions/?username='' @ url_QueryEscape env (UserData.Username user)
               @ ''&fqdn='' @ url_QueryEscape env domain) None log1 = Some resp4 \<longrightarrow>
      (StatusCode resp4 = 404 \<longrightarrow> fst (GetDomainAccess env srv c userId domain log) = Inl ErrNotFound)
      \<and> (RespBody resp4 = Inr body4 \<and> Unmarshal_PermissionData_list env body4 = Inr [] \<longrightarrow>
            fst (GetDomainAccess env srv c userId domain log) = Inl ErrNotFound)
      \<and> (StatusCode resp4 \<noteq> 404 \<and> RespBody resp4 = Inr body4
           \<and> Unmarshal_PermissionData_list env body4 = Inl m \<and> Unmarshal_PermissionData env body4 = Inl m' \<longrightarrow>
            fst (GetDomainAccess env srv c userId domain log)
              = Inl (New (''failed to parse domain access response: '' @ body4))))
   \<and> (GetUserById env srv c userId log = (Inl err, log1) \<longrightarrow>
        GetDomainAccess env srv c userId domain log
          = (Inl (Wrapf ''failed to get user data: '' err []), log1)
        \<and> (errors_Is (Wrapf ''failed to get user data: '' err []) ErrNotFound
             \<longleftrightarrow> errors_Is err ErrNotFound))"
proof (intro conjI impI)
  show "fst (GetUserById env srv c userId log) = Inl ErrNotFound"
    if "response_to env srv c ''GET'' (''/api/v1/users/'' @ url_PathEscape env userId @ ''/'') None log
          = Some resp1 \<and> StatusCode resp1 = 404"
    using that by (simp add: fst_GetUserById)
next
  assume r: "response_to env srv c ''GET'' (''/api/v1/users/?username='' @ url_QueryEscape env username) None log = Some resp2"
  note f = fst_GetUserByUsername [OF r]
  show "fst (GetUserByUsername env srv c username log) = Inl ErrNotFound" if "StatusCode resp2 = 404"
    using that by (simp add: f)
  show "fst (GetUserByUsername env srv c username log) = Inl ErrNotFound"
    if "RespBody resp2 = Inr body2 \<and> Unmarshal_UserData_list env body2 = Inr []"
    using that by (simp add: f)
  show "fst (GetUserByUsername env srv c username log) = Inl (New (''failed to parse user response: '' @ body2))"
    if "StatusCode resp2 \<noteq> 404 \<and> RespBody resp2 = Inr body2
           \<and> Unmarshal_UserData_list env body2 = Inl m \<and> Unmarshal_UserData env body2 = Inl m'"
    using that by (simp add: f)
next
  assume r: "response_to env srv c ''GET'' (''/api/v1/domains/?fqdn='' @ url_QueryEscape env fqdn) None log = Some resp3"
  note f = fst_GetDomain [OF r]
  show "fst (GetDomain env srv c fqdn log) = Inl ErrNotFound" if "StatusCode resp3 = 404"
    using that by (simp add: f)
  show "fst (GetDomain env srv c fqdn log) = Inl ErrNotFound"
    if "RespBody resp3 = Inr body3 \<and> Unmarshal_DomainData_list env body3 = Inr []"
    using that by (simp add: f)
  show "fst (GetDomain env srv c fqdn log) = Inl (New (''failed to parse domain response: '' @ body3))"
    if "StatusCode resp3 \<noteq> 404 \<and> RespBody resp3 = Inr body3
           \<and> Unmarshal_DomainData_list env body3 = Inl m \<and> Unmarshal_DomainData env body3 = Inl m'"
    using that by (simp add: f)
next
  assume r: "GetUserById env srv c userId log = (Inr user, log1)
       \<and> response_to env srv c ''GET''
            (''/api/v1/domain-user-permissions/?username='' @ url_QueryEscape env (UserData.Username user)
               @ ''&fqdn='' @ url_QueryEscape env domain) None log1 = Some resp4"
  note f = fst_GetDomainAccess [OF conjunct1 [OF r] conjunct2 [OF r]]
  show "fst (GetDomainAccess env srv c userId domain log) = Inl ErrNotFound" if "StatusCode resp4 = 404"
    using that by (simp add: f)
  show "fst (GetDomainAccess env srv c userId domain log) = Inl ErrNotFound"
    if "RespBody resp4 = Inr body4 \<and> Unmarshal_PermissionData_list env body4 = Inr []"
    using that by (simp add: f)
  show "fst (GetDomainAccess env srv c userId domain log) = Inl (New (''failed to parse domain access response: '' @ body4))"
    if "StatusCode resp4 \<noteq> 404 \<and> RespBody resp4 = Inr body4
           \<and> Unmarshal_PermissionData_list env body4 = Inl m \<and> Unmarshal_PermissionData env body4 = Inl m'"
    using that by (simp add: f)
next
  assume r: "GetUserById env srv c userId log = (Inl err, log1)"
  show "GetDomainAccess env srv c userId domain log = (Inl (Wrapf ''failed to get user data: '' err []), log1)"
    by (rule GetDomainAccess_user_error [OF r])
  show "errors_Is (Wrapf ''failed to get user data: '' err []) ErrNotFound \<longleftrightarrow> errors_Is err ErrNotFound"
    by simp
qed

text \<open>
  The claim as first stated fails for \<open>GetDomainAccess\<close>: the service answers the lookup
  of user 99 with status 404, and the result is the wrapped error.
\<close>

theorem GetDomainAccess_user_404_counterexample:
  "response_to example_env example_server example_client ''GET''
      (''/api/v1/users/'' @ url_PathEscape example_env ''99'' @ ''/'') None []
     = Some \<lparr>StatusCode = 404, RespBody = Inr []\<rparr>
   \<and> fst (GetDomainAccess example_env example_server example_client ''99'' ''example.com'' [])
       = Inl (Wrapf ''failed to get user data: '' ErrNotFound [])
   \<and> fst (GetDomainAccess example_env example_server example_client ''99'' ''example.com'' [])
       \<noteq> Inl ErrNotFound"
proof -
  from example_GetUserById_99 obtain log1 where
    "GetUserById example_env example_server example_client ''99'' [] = (Inl ErrNotFound, log1)" ..
  from GetDomainAccess_user_error [OF this]
  have "fst (GetDomainAccess example_env example_server example_client ''99'' ''example.com'' [])
       = Inl (Wrapf ''failed to get user data: '' ErrNotFound [])" by simp
  moreover have "response_to example_env example_server example_client ''GET''
      (''/api/v1/users/'' @ url_PathEscape example_env ''99'' @ ''/'') None []
     = Some \<lparr>StatusCode = 404, RespBody = Inr []\<rparr>"
    by (simp add: example_eval)
  ultimately show ?thesis by simp
qed

theorem lookup_not_found_witness:
  "fst (GetUserById example_env example_server example_client ''99'' []) = Inl ErrNotFound
   \<and> fst (GetUserByUsername example_env example_server example_client ''zed'' []) = Inl ErrNotFound
   \<and> fst (GetUserByUsername example_env example_server example_client ''bob'' []) = Inl ErrNotFound
   \<and> fst (GetUserByUsername example_env example_server example_client ''carol'' [])
       = Inl (New (''failed to parse user response: <html>''))
   \<and> fst (GetDomain example_env example_server example_client ''gone.example.com'' []) = Inl ErrNotFound
   \<and> fst (GetDomain example_env example_server example_client ''new.example.com'' []) = Inl ErrNotFound
   \<and> fst (GetDomainAccess example_env example_server example_client ''7'' ''example.com'' [])
       = Inl ErrNotFound
   \<and> fst (GetDomainAccess example_env example_server example_client ''99'' ''example.com'' [])
       = Inl (Wrapf ''failed to get user data: '' ErrNotFound [])"
proof -
  let ?nf = "\<lparr>StatusCode = 404, RespBody = Inr []\<rparr>"
  let ?empty = "\<lparr>StatusCode = 200, RespBody = Inr ''[]''\<rparr>"
  let ?html = "\<lparr>StatusCode = 200, RespBody = Inr ''<html>''\<rparr>"
  have 1: "fst (GetUserById example_env example_server example_client ''99'' []) = Inl ErrNotFound"
    using lookup_not_found [where env = example_env and srv = example_server and c = example_client
        and log = "[]" and userId = "''99''" and ?resp1.0 = ?nf, THEN conjunct1]
    by (simp add: example_eval)
  have 2: "fst (GetUserByUsername example_env example_server example_client ''zed'' []) = Inl ErrNotFound"
    using lookup_not_found [where env = example_env and srv = example_server and c = example_client
        and log = "[]" and username = "''zed''" and ?resp2.0 = ?nf, THEN conjunct2, THEN conjunct1]
    by (simp add: example_eval)
  have 3: "fst (GetUserByUsername example_env example_server example_client ''bob'' []) = Inl ErrNotFound"
    using lookup_not_found [where env = example_env and srv = example_server and c = example_client
        and log = "[]" and username = "''bob''" and ?resp2.0 = ?empty and ?body2.0 = "''[]''",
        THEN conjunct2, THEN conjunct1]
    by (simp add: example_eval)
  have 4: "fst (GetUserByUsername example_env example_server example_client ''carol'' [])
       = Inl (New (''failed to parse user response: <html>''))"
    using lookup_not_found [where env = example_env and srv = example_server and c = example_client
        and log = "[]" and username = "''carol''" and ?resp2.0 = ?html and ?body2.0 = "''<html>''"
        and m = "''cannot unmarshal''" and m' = "''cannot unmarshal''", THEN conjunct2, THEN conjunct1]
    by (simp add: example_eval)
  have 5: "fst (GetDomain example_env example_server example_client ''gone.example.com'' []) = Inl ErrNotFound"
    using lookup_not_found [where env = example_env and srv = example_server and c = example_client
        and log = "[]" and fqdn = "''gone.example.com''" and ?resp3.0 = ?nf,
        THEN conjunct2, THEN conjunct2, THEN conjunct1]
    by (simp add: example_eval)
  have 6: "fst (GetDomain example_env example_server example_client ''new.example.com'' []) = Inl ErrNotFound"
    using lookup_not_found [where env = example_env and srv = example_server and c = example_client
        and log = "[]" and fqdn = "''new.example.com''" and ?resp3.0 = ?empty and ?body3.0 = "''[]''",
        THEN conjunct2, THEN conjunct2, THEN conjunct1]
    by (simp add: example_eval)
  have 7: "fst (GetDomainAccess example_env example_server example_client ''7'' ''example.com'' [])
       = Inl ErrNotFound"
    using lookup_not_found [where env = example_env and srv = example_server and c = example_client
        and log = "[]" and userId = "''7''" and domain = "''example.com''" and user = alice
        and ?resp4.0 = ?empty and ?body4.0 = "''[]''",
        THEN conjunct2, THEN conjunct2, THEN conjunct2, THEN conjunct1] example_GetUserById_alice
    by (simp add: example_eval alice_def)
  from example_GetUserById_99 obtain log1 where
    "GetUserById example_env example_server example_client ''99'' [] = (Inl ErrNotFound, log1)" ..
  with lookup_not_found [where env = example_env and srv = example_server and c = example_client
        and log = "[]" and userId = "''99''" and domain = "''example.com''" and err = ErrNotFound
        and ?log1.0 = log1, THEN conjunct2, THEN conjunct2, THEN conjunct2, THEN conjunct2]
  have 8: "fst (GetDomainAccess example_env example_server example_client ''99'' ''example.com'' [])
       = Inl (Wrapf ''failed to get user data: '' ErrNotFound [])"
    by simp
  from 1 2 3 4 5 6 7 8 show ?thesis by blast
qed

section \<open>Reading a resource that is gone\<close>

text \<open>
  Claim C3, as amended. In both reconcilers, once \<open>Read\<close> reaches its remote lookup (the
  prior state decoded without error, the client configured and, for a domain-access
  grant, user id and domain not null), a lookup error that is a not-found removes the
  resource from the state and adds no error diagnostic, and any other lookup error adds
  the \<open>Client Error\<close> diagnostic and leaves the state as it was. For the user reconciler
  a not-found is the error \<open>ErrNotFound\<close> itself; on the errors of the user lookup
  \<open>errors.Is\<close> says the same. For the domain-access reconciler a not-found is what
  \<open>errors.Is\<close> recognises: \<open>ErrNotFound\<close> itself, from the permission lookup, or
  \<open>ErrNotFound\<close> wrapped in \<open>failed to get user data\<close>, from the preliminary user lookup.
\<close>

theorem Read_not_found:
  "(UserResource.client ur = Some c
      \<and> \<not> HasError (Append (Diagnostics uresp) (get_diags (ReadRequest.State ureq)))
      \<and> GetUserByUsername env srv c
           (ValueString (UserModel.Username (get_value (ReadRequest.State ureq)))) log = (Inl err, log1)
    \<longrightarrow>
      (errors_Is err ErrNotFound \<longleftrightarrow> err = ErrNotFound)
      \<and> snd (UserResource_Read env srv ur ureq uresp log) = log1
      \<and> (err = ErrNotFound \<longrightarrow>
            Response.State (fst (UserResource_Read env srv ur ureq uresp log)) = None
            \<and> \<not> HasError (Diagnostics (fst (UserResource_Read env srv ur ureq uresp log))))
      \<and> (err \<noteq> ErrNotFound \<longrightarrow>
            Response.State (fst (UserResource_Read env srv ur ureq uresp log)) = Response.State uresp
            \<and> Diagnostic SeverityError ''Client Error'' (''Unable to read user: '' @ Error err)
                 \<in> set (Diagnostics (fst (UserResource_Read env srv ur ureq uresp log)))
            \<and> HasError (Diagnostics (fst (UserResource_Read env srv ur ureq uresp log)))))
   \<and> (UserDomainAccessResource.client dr = Some c
      \<and> \<not> HasError (Append (Diagnostics dresp) (get_diags (ReadRequest.State dreq)))
      \<and> \<not> IsNull (UserDomainAccessModel.UserId (get_value (ReadRequest.State dreq)))
      \<and> \<not> IsNull (UserDomainAccessModel.Domain (get_value (ReadRequest.State dreq)))
      \<and> GetDomainAccess env srv c
           (ValueString (UserDomainAccessModel.UserId (get_value (ReadRequest.State dreq))))
           (ValueString (UserDomainAccessModel.Domain (get_value (ReadRequest.State dreq)))) log
          = (Inl err', log2)
    \<longrightarrow>
      (errors_Is err' ErrNotFound \<longleftrightarrow>
         err' = ErrNotFound \<or> err' = Wrapf ''failed to get user data: '' ErrNotFound [])
      \<and> snd (UserDomainAccessResource_Read env srv dr dreq dresp log) = log2
      \<and> (errors_Is err' ErrNotFound \<longrightarrow>
            Response.State (fst (UserDomainAccessResource_Read env srv dr dreq dresp log)) = None
            \<and> \<not> HasError (Diagnostics (fst (UserDomainAccessResource_Read env srv dr dreq dresp log))))
      \<and> (\<not> errors_Is err' ErrNotFound \<longrightarrow>
            Response.State (fst (UserDomainAccessResource_Read env srv dr dreq dresp log))
              = Response.State dresp
            \<and> Diagnostic SeverityError ''Client Error''
                 (''Unable to read user domain access: '' @ Error err')
                 \<in> set (Diagnostics (fst (UserDomainAccessResource_Read env srv dr dreq dresp log)))
            \<and> HasError (Diagnostics (fst (UserDomainAccessResource_Read env srv dr dreq dresp log)))))"
proof (intro conjI impI)
  assume h: "UserResource.client ur = Some c
      \<and> \<not> HasError (Append (Diagnostics uresp) (get_diags (ReadRequest.State ureq)))
      \<and> GetUserByUsername env srv c
           (ValueString (UserModel.Username (get_value (ReadRequest.State ureq)))) log = (Inl err, log1)"
  then have r: "UserResource_Read env srv ur ureq uresp log =
      (if err = ErrNotFound then RemoveResource (Diagnostics_Append (get_diags (ReadRequest.State ureq)) uresp)
       else AddError ''Client Error'' (''Unable to read user: '' @ Error err)
              (Diagnostics_Append (get_diags (ReadRequest.State ureq)) uresp), log1)"
    by (simp add: UserResource_Read_def Get_def)
  from h show "errors_Is err ErrNotFound \<longleftrightarrow> err = ErrNotFound"
    using GetUserByUsername_error by blast
  show "snd (UserResource_Read env srv ur ureq uresp log) = log1" by (simp add: r)
  show "Response.State (fst (UserResource_Read env srv ur ureq uresp log)) = None"
    if "err = ErrNotFound" using that by (simp add: r)
  show "\<not> HasError (Diagnostics (fst (UserResource_Read env srv ur ureq uresp log)))"
    if "err = ErrNotFound" using that h by (simp add: r)
  show "Response.State (fst (UserResource_Read env srv ur ureq uresp log)) = Response.State uresp"
    if "err \<noteq> ErrNotFound" using that by (simp add: r)
  show "Diagnostic SeverityError ''Client Error'' (''Unable to read user: '' @ Error err)
          \<in> set (Diagnostics (fst (UserResource_Read env srv ur ureq uresp log)))"
    if "err \<noteq> ErrNotFound" using that by (simp add: r)
  show "HasError (Diagnostics (fst (UserResource_Read env srv ur ureq uresp log)))"
    if "err \<noteq> ErrNotFound" using that by (simp add: r)
next
  assume h: "UserDomainAccessResource.client dr = Some c
      \<and> \<not> HasError (Append (Diagnostics dresp) (get_diags (ReadRequest.State dreq)))
      \<and> \<not> IsNull (UserDomainAccessModel.UserId (get_value (ReadRequest.State dreq)))
      \<and> \<not> IsNull (UserDomainAccessModel.Domain (get_value (ReadRequest.State dreq)))
      \<and> GetDomainAccess env srv c
           (ValueString (UserDomainAccessModel.UserId (get_value (ReadRequest.State dreq))))
           (ValueString (UserDomainAccessModel.Domain (get_value (ReadRequest.State dreq)))) log
          = (Inl err', log2)"
  then have r: "UserDomainAccessResource_Read env srv dr dreq dresp log =
      (if errors_Is err' ErrNotFound
       then RemoveResource (Diagnostics_Append (get_diags (ReadRequest.State dreq)) dresp)
       else AddError ''Client Error'' (''Unable to read user domain access: '' @ Error err')
              (Diagnostics_Append (get_diags (ReadRequest.State dreq)) dresp), log2)"
    by (simp add: UserDomainAccessResource_Read_def Get_def)
  from h show "errors_Is err' ErrNotFound \<longleftrightarrow>
         err' = ErrNotFound \<or> err' = Wrapf ''failed to get user data: '' ErrNotFound []"
    using GetDomainAccess_error by blast
  show "snd (UserDomainAccessResource_Read env srv dr dreq dresp log) = log2" by (simp add: r)
  show "Response.State (fst (UserDomainAccessResource_Read env srv dr dreq dresp log)) = None"
    if "errors_Is err' ErrNotFound" using that by (simp add: r)
  show "\<not> HasError (Diagnostics (fst (UserDomainAccessResource_Read env srv dr dreq dresp log)))"
    if "errors_Is err' ErrNotFound" using that h by (simp add: r)
  show "Response.State (fst (UserDomainAccessResource_Read env srv dr dreq dresp log))
          = Response.State dresp"
    if "\<not> errors_Is err' ErrNotFound" using that by (simp add: r)
  show "Diagnostic SeverityError ''Client Error'' (''Unable to read user domain access: '' @ Error err')
          \<in> set (Diagnostics (fst (UserDomainAccessResource_Read env srv dr dreq dresp log)))"
    if "\<not> errors_Is err' ErrNotFound" using that by (simp add: r)
  show "HasError (Diagnostics (fst (UserDomainAccessResource_Read env srv dr dreq dresp log)))"
    if "\<not> errors_Is err' ErrNotFound" using that by (simp add: r)
qed


theorem Read_not_found_witness:
  "Response.State (fst (UserResource_Read example_env example_server user_resource
       (read_request bob_state) (prior_response bob_state) [])) = None
   \<and> \<not> HasError (Diagnostics (fst (UserResource_Read example_env example_server
       user_resource (read_request bob_state) (prior_response bob_state) [])))
   \<and> Response.State (fst (UserResource_Read example_env failing_server user_resource
       (read_request bob_state) (prior_response bob_state) [])) = Some bob_state
   \<and> HasError (Diagnostics (fst (UserResource_Read example_env failing_server
       user_resource (read_request bob_state) (prior_response bob_state) [])))
   \<and> Response.State (fst (UserDomainAccessResource_Read example_env example_server
       access_resource (read_request access_state)
       (prior_response access_state) [])) = None
   \<and> \<not> HasError (Diagnostics (fst (UserDomainAccessResource_Read example_env example_server
       access_resource (read_request access_state)
       (prior_response access_state) [])))
   \<and> Response.State (fst (UserDomainAccessResource_Read example_env failing_server
       access_resource (read_request access_state)
       (prior_response access_state) [])) = Some access_state
   \<and> HasError (Diagnostics (fst (UserDomainAccessResource_Read example_env failing_server
       access_resource (read_request access_state)
       (prior_response access_state) [])))
   \<and> Response.State (fst (UserDomainAccessResource_Read example_env example_server
       access_resource (read_request ghost_state)
       (prior_response ghost_state) [])) = None
   \<and> \<not> HasError (Diagnostics (fst (UserDomainAccessResource_Read example_env example_server
       access_resource (read_request ghost_state)
       (prior_response ghost_state) [])))"
proof -
  let ?ur = user_resource
  let ?dr = access_resource
  let ?ureq = "read_request bob_state"
  let ?dreq = "read_request access_state"
  from example_lookup_bob obtain l1 where
    l1: "GetUserByUsername example_env example_server example_client ''bob'' [] = (Inl ErrNotFound, l1)" ..
  from failing_lookup_bob obtain l2 where
    l2: "GetUserByUsername example_env failing_server example_client ''bob'' []
     = (Inl (Wrapf ''failed to execute request: '' (New ''connection refused'') []), l2)" ..
  from example_access_lookup obtain l3 where
    l3: "GetDomainAccess example_env example_server example_client ''7'' ''example.com'' []
     = (Inl ErrNotFound, l3)" ..
  from failing_access_lookup obtain l4 where
    l4: "GetDomainAccess example_env failing_server example_client ''7'' ''example.com'' []
     = (Inl (Wrapf ''failed to get user data: ''
               (Wrapf ''failed to execute request: '' (New ''connection refused'') []) []), l4)" ..
  have a: "Response.State (fst (UserResource_Read example_env example_server ?ur ?ureq (prior_response bob_state) [])) = None
     \<and> \<not> HasError (Diagnostics (fst (UserResource_Read example_env example_server ?ur ?ureq (prior_response bob_state) [])))"
    using Read_not_found [where env = example_env and srv = example_server and c = example_client
        and ur = ?ur and ureq = ?ureq and uresp = "prior_response bob_state" and log = "[]"
        and err = ErrNotFound and ?log1.0 = l1, THEN conjunct1] l1
    by (simp add: user_resource_def access_resource_def read_request_def decoded_def prior_response_def bob_state_def ValueString_def HasError_def)
  have b: "Response.State (fst (UserResource_Read example_env failing_server ?ur ?ureq (prior_response bob_state) [])) = Some bob_state
     \<and> HasError (Diagnostics (fst (UserResource_Read example_env failing_server ?ur ?ureq (prior_response bob_state) [])))"
    using Read_not_found [where env = example_env and srv = failing_server and c = example_client
        and ur = ?ur and ureq = ?ureq and uresp = "prior_response bob_state" and log = "[]"
        and err = "Wrapf ''failed to execute request: '' (New ''connection refused'') []"
        and ?log1.0 = l2, THEN conjunct1] l2
    by (simp add: user_resource_def access_resource_def read_request_def decoded_def prior_response_def bob_state_def ValueString_def HasError_def)
  have c: "Response.State (fst (UserDomainAccessResource_Read example_env example_server ?dr ?dreq (prior_response access_state) [])) = None
     \<and> \<not> HasError (Diagnostics (fst (UserDomainAccessResource_Read example_env example_server ?dr ?dreq (prior_response access_state) [])))"
    using Read_not_found [where env = example_env and srv = example_server and c = example_client
        and dr = ?dr and dreq = ?dreq and dresp = "prior_response access_state" and log = "[]"
        and err' = ErrNotFound and ?log2.0 = l3, THEN conjunct2] l3
    by (simp add: user_resource_def access_resource_def read_request_def decoded_def prior_response_def access_state_def ValueString_def HasError_def IsNull_def)
  have d: "Response.State (fst (UserDomainAccessResource_Read example_env failing_server ?dr ?dreq (prior_response access_state) [])) = Some access_state
     \<and> HasError (Diagnostics (fst (UserDomainAccessResource_Read example_env failing_server ?dr ?dreq (prior_response access_state) [])))"
    using Read_not_found [where env = example_env and srv = failing_server and c = example_client
        and dr = ?dr and dreq = ?dreq and dresp = "prior_response access_state" and log = "[]"
        and err' = "Wrapf ''failed to get user data: ''
               (Wrapf ''failed to execute request: '' (New ''connection refused'') []) []"
        and ?log2.0 = l4, THEN conjunct2] l4
    by (simp add: user_resource_def access_resource_def read_request_def decoded_def prior_response_def access_state_def ValueString_def HasError_def IsNull_def)
  have e: "Response.State (fst (UserDomainAccessResource_Read example_env example_server ?dr
         (read_request ghost_state) (prior_response ghost_state) [])) = None
     \<and> \<not> HasError (Diagnostics (fst (UserDomainAccessResource_Read example_env example_server ?dr
         (read_request ghost_state) (prior_response ghost_state) [])))"
    using Read_not_found [where env = example_env and srv = example_server and c = example_client
        and dr = ?dr and dreq = "read_request ghost_state" and dresp = "prior_response ghost_state"
        and log = "[]" and err' = "Wrapf ''failed to get user data: '' ErrNotFound []"
        and ?log2.0 = "[sent ''GET'' ''/api/v1/users/99/'' None]", THEN conjunct2]
      example_GetDomainAccess_99
    by (simp add: access_resource_def read_request_def decoded_def prior_response_def
        ghost_state_def ValueString_def HasError_def IsNull_def)
  from a b c d e show ?thesis by blast
qed

text \<open>
  The claim as first stated fails for the domain-access reconciler: the lookup for the
  grant of user 99 returns an error other than \<open>ErrNotFound\<close>, the wrapped one, and \<open>Read\<close>
  removes the resource and adds no diagnostic.
\<close>

theorem Read_wrapped_not_found_counterexample:
  "fst (GetDomainAccess example_env example_server example_client ''99'' ''example.com'' [])
     = Inl (Wrapf ''failed to get user data: '' ErrNotFound [])
   \<and> fst (GetDomainAccess example_env example_server example_client ''99'' ''example.com'' [])
       \<noteq> Inl ErrNotFound
   \<and> UserDomainAccessResource_Read example_env example_server access_resource
        (read_request ghost_state) (prior_response ghost_state) [] =
       (\<lparr>Diagnostics = [], State = None\<rparr>, [sent ''GET'' ''/api/v1/users/99/'' None])"
proof -
  have "UserDomainAccessResource_Read example_env example_server access_resource
        (read_request ghost_state) (prior_response ghost_state) [] =
      (RemoveResource (Diagnostics_Append (get_diags (ReadRequest.State (read_request ghost_state)))
                         (prior_response ghost_state)),
       [sent ''GET'' ''/api/v1/users/99/'' None])"
    using UserDomainAccessResource_Read_error [where env = example_env and srv = example_server
        and c = example_client and dr = access_resource and dreq = "read_request ghost_state"
        and dresp = "prior_response ghost_state" and log = "[]"
        and err' = "Wrapf ''failed to get user data: '' ErrNotFound []"
        and ?log2.0 = "[sent ''GET'' ''/api/v1/users/99/'' None]"]
      example_GetDomainAccess_99
    by (simp add: access_resource_def read_request_def decoded_def prior_response_def
        ghost_state_def ValueString_def HasError_def IsNull_def)
  then show ?thesis
    by (simp add: example_GetDomainAccess_99 RemoveResource_def Diagnostics_Append_def
        read_request_def decoded_def prior_response_def)
qed

section \<open>Reading a user whose password changed\<close>

text \<open>
  Claim C10. When \<open>Read\<close> of the user reconciler finds the user and the password probe
  returns false without error, the refreshed state is saved with the password null, the
  username as it was, and email and id taken from the remote user; the only diagnostic
  added is the warning \<open>Invalid Password\<close>, so no error is present. When the probe returns
  true the refreshed state keeps the password. When the probe returns an error, the
  \<open>Client Error\<close> diagnostic is added and the state stays as it was.
\<close>

theorem Read_password_probe:
  "UserResource.client ur = Some c
   \<and> \<not> HasError (Append (Diagnostics resp) (get_diags (ReadRequest.State req)))
   \<and> data = get_value (ReadRequest.State req)
   \<and> GetUserByUsername env srv c (ValueString (UserModel.Username data)) log = (Inr user, log1)
   \<and> HasValidUserPassword env srv c (ValueString (UserModel.Username data))
         (ValueString (UserModel.Password data)) log1 = (probe, log2)
   \<longrightarrow>
     snd (UserResource_Read env srv ur req resp log) = log2
     \<and> (probe = Inr False \<longrightarrow>
           Response.State (fst (UserResource_Read env srv ur req resp log)) =
             Some \<lparr>UserModel.Username = UserModel.Username data, Password = Null,
                   Email = Value (UserData.Email user), Id = Value (LastPathSegment (Url user))\<rparr>
           \<and> \<not> HasError (Diagnostics (fst (UserResource_Read env srv ur req resp log)))
           \<and> set (Diagnostics (fst (UserResource_Read env srv ur req resp log))) =
               insert (Diagnostic SeverityWarning ''Invalid Password''
                         ''The stored password is no longer valid'')
                 (set (Diagnostics resp) \<union> set (get_diags (ReadRequest.State req))))
     \<and> (probe = Inr True \<longrightarrow>
           Response.State (fst (UserResource_Read env srv ur req resp log)) =
             Some \<lparr>UserModel.Username = UserModel.Username data,
                   Password = UserModel.Password data,
                   Email = Value (UserData.Email user), Id = Value (LastPathSegment (Url user))\<rparr>
           \<and> Diagnostics (fst (UserResource_Read env srv ur req resp log)) =
               Append (Diagnostics resp) (get_diags (ReadRequest.State req)))
     \<and> (\<forall>err. probe = Inl err \<longrightarrow>
           Response.State (fst (UserResource_Read env srv ur req resp log)) = Response.State resp
           \<and> Diagnostic SeverityError ''Client Error''
                (''Unable to validate user password: '' @ Error err)
                \<in> set (Diagnostics (fst (UserResource_Read env srv ur req resp log)))
           \<and> HasError (Diagnostics (fst (UserResource_Read env srv ur req resp log))))"
proof (intro impI)
  assume h: "UserResource.client ur = Some c
   \<and> \<not> HasError (Append (Diagnostics resp) (get_diags (ReadRequest.State req)))
   \<and> data = get_value (ReadRequest.State req)
   \<and> GetUserByUsername env srv c (ValueString (UserModel.Username data)) log = (Inr user, log1)
   \<and> HasValidUserPassword env srv c (ValueString (UserModel.Username data))
         (ValueString (UserModel.Password data)) log1 = (probe, log2)"
  let ?resp = "Diagnostics_Append (get_diags (ReadRequest.State req)) resp"
  let ?data = "data\<lparr>UserModel.Email := Value (UserData.Email user),
                       UserModel.Id := Value (LastPathSegment (Url user))\<rparr>"
  from h have r: "UserResource_Read env srv ur req resp log =
      (case probe of
         Inl err \<Rightarrow> AddError ''Client Error'' (''Unable to validate user password: '' @ Error err) ?resp
       | Inr valid \<Rightarrow>
           if \<not> valid
           then State_Set (?data\<lparr>UserModel.Password := Null\<rparr>)
                  (AddWarning ''Invalid Password'' ''The stored password is no longer valid'' ?resp)
           else State_Set ?data ?resp, log2)"
    by (elim conjE) (clarsimp simp add: UserResource_Read_def Get_def Let_def split: sum.splits)
  from h have ne: "\<not> HasError (Append (Diagnostics resp) (get_diags (ReadRequest.State req)))"
    by simp
  show "snd (UserResource_Read env srv ur req resp log) = log2
     \<and> (probe = Inr False \<longrightarrow>
           Response.State (fst (UserResource_Read env srv ur req resp log)) =
             Some \<lparr>UserModel.Username = UserModel.Username data, Password = Null,
                   Email = Value (UserData.Email user), Id = Value (LastPathSegment (Url user))\<rparr>
           \<and> \<not> HasError (Diagnostics (fst (UserResource_Read env srv ur req resp log)))
           \<and> set (Diagnostics (fst (UserResource_Read env srv ur req resp log))) =
               insert (Diagnostic SeverityWarning ''Invalid Password''
                         ''The stored password is no longer valid'')
                 (set (Diagnostics resp) \<union> set (get_diags (ReadRequest.State req))))
     \<and> (probe = Inr True \<longrightarrow>
           Response.State (fst (UserResource_Read env srv ur req resp log)) =
             Some \<lparr>UserModel.Username = UserModel.Username data,
                   Password = UserModel.Password data,
                   Email = Value (UserData.Email user), Id = Value (LastPathSegment (Url user))\<rparr>
           \<and> Diagnostics (fst (UserResource_Read env srv ur req resp log)) =
               Append (Diagnostics resp) (get_diags (ReadRequest.State req)))
     \<and> (\<forall>err. probe = Inl err \<longrightarrow>
           Response.State (fst (UserResource_Read env srv ur req resp log)) = Response.State resp
           \<and> Diagnostic SeverityError ''Client Error''
                (''Unable to validate user password: '' @ Error err)
                \<in> set (Diagnostics (fst (UserResource_Read env srv ur req resp log)))
           \<and> HasError (Diagnostics (fst (UserResource_Read env srv ur req resp log))))"
    using ne by (cases data) (simp add: r set_Append)
qed


theorem Read_password_probe_witness:
  "Response.State (fst (UserResource_Read example_env example_server user_resource
       (read_request stale_state) (prior_response stale_state) [])) =
     Some \<lparr>UserModel.Username = Value ''alice'', Password = Null,
           Email = Value ''alice@example.com'', Id = Value ''7''\<rparr>
   \<and> Diagnostics (fst (UserResource_Read example_env example_server user_resource
       (read_request stale_state) (prior_response stale_state) [])) =
       [Diagnostic SeverityWarning ''Invalid Password'' ''The stored password is no longer valid'']
   \<and> Response.State (fst (UserResource_Read example_env example_server user_resource
       (read_request alice_state) (prior_response alice_state) [])) =
     Some \<lparr>UserModel.Username = Value ''alice'', Password = Value ''wonderland'',
           Email = Value ''alice@example.com'', Id = Value ''7''\<rparr>
   \<and> Response.State (fst (UserResource_Read example_env example_server user_resource
       (read_request no_password_state) (prior_response no_password_state) [])) = Some no_password_state
   \<and> HasError (Diagnostics (fst (UserResource_Read example_env example_server user_resource
       (read_request no_password_state) (prior_response no_password_state) [])))"
proof -
  from example_lookup_alice obtain l1 where
    l1: "GetUserByUsername example_env example_server example_client ''alice'' [] = (Inr alice, l1)" ..
  from example_probe_stale obtain l2 where
    l2: "HasValidUserPassword example_env example_server example_client ''alice'' ''stale'' l1
           = (Inr False, l2)" ..
  from example_probe_valid obtain l3 where
    l3: "HasValidUserPassword example_env example_server example_client ''alice'' ''wonderland'' l1
           = (Inr True, l3)" ..
  let ?R = "\<lambda>st. UserResource_Read example_env example_server user_resource
       (read_request st) (prior_response st) []"
  have a: "Response.State (fst (?R stale_state)) =
     Some \<lparr>UserModel.Username = Value ''alice'', Password = Null,
           Email = Value ''alice@example.com'', Id = Value ''7''\<rparr>
     \<and> set (Diagnostics (fst (?R stale_state))) =
       {Diagnostic SeverityWarning ''Invalid Password'' ''The stored password is no longer valid''}"
    using Read_password_probe [where env = example_env and srv = example_server
        and c = example_client and ur = user_resource and req = "read_request stale_state"
        and resp = "prior_response stale_state" and data = stale_state and log = "[]"
        and user = alice and ?log1.0 = l1 and probe = "Inr False" and ?log2.0 = l2] l1 l2
    by (simp add: user_resource_def read_request_def decoded_def prior_response_def stale_state_def
        ValueString_def HasError_def LastPathSegment_alice) (simp add: alice_def)
  have a': "Diagnostics (fst (?R stale_state)) =
       [Diagnostic SeverityWarning ''Invalid Password'' ''The stored password is no longer valid'']"
    using l1 l2
    by (simp add: UserResource_Read_def Get_def user_resource_def read_request_def decoded_def
        prior_response_def stale_state_def ValueString_def HasError_def IsNull_def AddWarning_def)
  have b: "Response.State (fst (?R alice_state)) =
     Some \<lparr>UserModel.Username = Value ''alice'', Password = Value ''wonderland'',
           Email = Value ''alice@example.com'', Id = Value ''7''\<rparr>"
    using Read_password_probe [where env = example_env and srv = example_server
        and c = example_client and ur = user_resource and req = "read_request alice_state"
        and resp = "prior_response alice_state" and data = alice_state and log = "[]"
        and user = alice and ?log1.0 = l1 and probe = "Inr True" and ?log2.0 = l3] l1 l3
    by (simp add: user_resource_def read_request_def decoded_def prior_response_def alice_state_def
        ValueString_def HasError_def LastPathSegment_alice) (simp add: alice_def)
  have c: "Response.State (fst (?R no_password_state)) = Some no_password_state
     \<and> HasError (Diagnostics (fst (?R no_password_state)))"
    using Read_password_probe [where env = example_env and srv = example_server
        and c = example_client and ur = user_resource and req = "read_request no_password_state"
        and resp = "prior_response no_password_state" and data = no_password_state and log = "[]"
        and user = alice and ?log1.0 = l1
        and probe = "Inl (Wrapf ''failed to create client: '' (New ''password is required'') [])"
        and ?log2.0 = l1] l1 example_probe_no_password [of l1]
    by (simp add: user_resource_def read_request_def decoded_def prior_response_def
        no_password_state_def ValueString_def HasError_def)
  from a a' b c show ?thesis by blast
qed

section \<open>Creating a user that exists\<close>

text \<open>
  Claim C9. Once \<open>Create\<close> of the user reconciler reaches its username lookup: when the
  lookup succeeds, \<open>Create\<close> adds the error \<open>User Exists\<close>, sends nothing beyond the
  lookup's \<open>GET\<close>, and leaves the state as it was; when the lookup fails with an error
  other than \<open>ErrNotFound\<close>, it adds \<open>Client Error\<close> and likewise sends and stores nothing.
  A \<open>POST\<close> among the requests sent by \<open>Create\<close> implies that the lookup returned
  \<open>ErrNotFound\<close>, and when it did, the create \<open>POST\<close> is the next request after the
  lookup.
\<close>

theorem Create_user_exists:
  "UserResource.client r = Some c
   \<and> \<not> HasError (Append (Diagnostics resp) (get_diags (CreateRequest.Plan req)))
   \<and> data = get_value (CreateRequest.Plan req)
   \<and> GetUserByUsername env srv c (ValueString (UserModel.Username data)) log = (lookup, log1)
   \<longrightarrow>
     (\<forall>existingUser. lookup = Inr existingUser \<longrightarrow>
        snd (UserResource_Create env srv r req resp log) = log1
        \<and> (\<forall>q \<in> set (drop (length log) log1). Method q = ''GET'' \<and> Body q = None)
        \<and> Response.State (fst (UserResource_Create env srv r req resp log)) = Response.State resp
        \<and> Diagnostic SeverityError ''User Exists''
             (''A user with username '' @ [CHR 0x27] @ ValueString (UserModel.Username data)
                @ [CHR 0x27] @ '' already exists (id='' @ LastPathSegment (Url existingUser) @ '').'')
             \<in> set (Diagnostics (fst (UserResource_Create env srv r req resp log))))
     \<and> (\<forall>err. lookup = Inl err \<and> err \<noteq> ErrNotFound \<longrightarrow>
        snd (UserResource_Create env srv r req resp log) = log1
        \<and> (\<forall>q \<in> set (drop (length log) log1). Method q = ''GET'' \<and> Body q = None)
        \<and> Response.State (fst (UserResource_Create env srv r req resp log)) = Response.State resp
        \<and> Diagnostic SeverityError ''Client Error''
             (''Unable to check for existing user: '' @ Error err)
             \<in> set (Diagnostics (fst (UserResource_Create env srv r req resp log))))
     \<and> ((\<exists>q \<in> set (drop (length log) (snd (UserResource_Create env srv r req resp log))).
            Method q = ''POST'') \<longrightarrow> lookup = Inl ErrNotFound)
     \<and> (\<forall>post. lookup = Inl ErrNotFound
           \<and> NewRequest env (Some c) ''POST'' ''/api/v1/users/''
                (Some (UserCreatePayload (create_of data))) = Inr post \<longrightarrow>
           Method post = ''POST''
           \<and> (\<exists>rest. snd (UserResource_Create env srv r req resp log) = log1 @ post # rest))"
proof (intro impI)
  assume h: "UserResource.client r = Some c
   \<and> \<not> HasError (Append (Diagnostics resp) (get_diags (CreateRequest.Plan req)))
   \<and> data = get_value (CreateRequest.Plan req)
   \<and> GetUserByUsername env srv c (ValueString (UserModel.Username data)) log = (lookup, log1)"
  then have h1: "UserResource.client r = Some c"
    and h2: "\<not> HasError (Append (Diagnostics resp) (get_diags (CreateRequest.Plan req)))"
    and h3: "data = get_value (CreateRequest.Plan req)"
    and h4: "GetUserByUsername env srv c (ValueString (UserModel.Username data)) log = (lookup, log1)"
    by blast+
  note eq = UserResource_Create_reached [OF h1 h2 h3 h4]
  from GetUserByUsername_sends_GET [OF h4] obtain new where
    new: "log1 = log @ new" "\<forall>q \<in> set new. Method q = ''GET'' \<and> Body q = None" by blast
  then have gets: "\<forall>q \<in> set (drop (length log) log1). Method q = ''GET'' \<and> Body q = None" by simp
  have exists: "\<forall>existingUser. lookup = Inr existingUser \<longrightarrow>
        snd (UserResource_Create env srv r req resp log) = log1
        \<and> (\<forall>q \<in> set (drop (length log) log1). Method q = ''GET'' \<and> Body q = None)
        \<and> Response.State (fst (UserResource_Create env srv r req resp log)) = Response.State resp
        \<and> Diagnostic SeverityError ''User Exists''
             (''A user with username '' @ [CHR 0x27] @ ValueString (UserModel.Username data)
                @ [CHR 0x27] @ '' already exists (id='' @ LastPathSegment (Url existingUser) @ '').'')
             \<in> set (Diagnostics (fst (UserResource_Create env srv r req resp log)))"
    using gets by (simp add: eq Let_def)
  have other: "\<forall>err. lookup = Inl err \<and> err \<noteq> ErrNotFound \<longrightarrow>
        snd (UserResource_Create env srv r req resp log) = log1
        \<and> (\<forall>q \<in> set (drop (length log) log1). Method q = ''GET'' \<and> Body q = None)
        \<and> Response.State (fst (UserResource_Create env srv r req resp log)) = Response.State resp
        \<and> Diagnostic SeverityError ''Client Error''
             (''Unable to check for existing user: '' @ Error err)
             \<in> set (Diagnostics (fst (UserResource_Create env srv r req resp log)))"
    using gets by (simp add: eq Let_def)
  have only: "(\<exists>q \<in> set (drop (length log) (snd (UserResource_Create env srv r req resp log))).
            Method q = ''POST'') \<longrightarrow> lookup = Inl ErrNotFound"
  proof (cases "lookup = Inl ErrNotFound")
    case True
    then show ?thesis by simp
  next
    case False
    then have "snd (UserResource_Create env srv r req resp log) = log1"
      by (cases lookup) (simp_all add: eq Let_def)
    with gets show ?thesis by auto
  qed
  have posted: "\<forall>post. lookup = Inl ErrNotFound
           \<and> NewRequest env (Some c) ''POST'' ''/api/v1/users/''
                (Some (UserCreatePayload (create_of data))) = Inr post \<longrightarrow>
           Method post = ''POST''
           \<and> (\<exists>rest. snd (UserResource_Create env srv r req resp log) = log1 @ post # rest)"
  proof (intro allI impI)
    fix post
    assume p: "lookup = Inl ErrNotFound
           \<and> NewRequest env (Some c) ''POST'' ''/api/v1/users/''
                (Some (UserCreatePayload (create_of data))) = Inr post"
    then have h4': "GetUserByUsername env srv c (ValueString (UserModel.Username data)) log
                      = (Inl ErrNotFound, log1)"
      using h4 by simp
    from UserResource_Create_log_prefix [OF h1 h2 h3 h4'] obtain rest where
      "snd (UserResource_Create env srv r req resp log)
         = snd (CreateUser env srv c (create_of data) log1) @ rest" by blast
    with p have "snd (UserResource_Create env srv r req resp log) = log1 @ post # rest"
      by (simp add: CreateUser_log)
    moreover from p have "Method post = ''POST''" using NewRequest_fields(1) by fastforce
    ultimately show "Method post = ''POST''
           \<and> (\<exists>rest. snd (UserResource_Create env srv r req resp log) = log1 @ post # rest)"
      by blast
  qed
  from exists other only posted
  show "(\<forall>existingUser. lookup = Inr existingUser \<longrightarrow>
        snd (UserResource_Create env srv r req resp log) = log1
        \<and> (\<forall>q \<in> set (drop (length log) log1). Method q = ''GET'' \<and> Body q = None)
        \<and> Response.State (fst (UserResource_Create env srv r req resp log)) = Response.State resp
        \<and> Diagnostic SeverityError ''User Exists''
             (''A user with username '' @ [CHR 0x27] @ ValueString (UserModel.Username data)
                @ [CHR 0x27] @ '' already exists (id='' @ LastPathSegment (Url existingUser) @ '').'')
             \<in> set (Diagnostics (fst (UserResource_Create env srv r req resp log))))
     \<and> (\<forall>err. lookup = Inl err \<and> err \<noteq> ErrNotFound \<longrightarrow>
        snd (UserResource_Create env srv r req resp log) = log1
        \<and> (\<forall>q \<in> set (drop (length log) log1). Method q = ''GET'' \<and> Body q = None)
        \<and> Response.State (fst (UserResource_Create env srv r req resp log)) = Response.State resp
        \<and> Diagnostic SeverityError ''Client Error''
             (''Unable to check for existing user: '' @ Error err)
             \<in> set (Diagnostics (fst (UserResource_Create env srv r req resp log))))
     \<and> ((\<exists>q \<in> set (drop (length log) (snd (UserResource_Create env srv r req resp log))).
            Method q = ''POST'') \<longrightarrow> lookup = Inl ErrNotFound)
     \<and> (\<forall>post. lookup = Inl ErrNotFound
           \<and> NewRequest env (Some c) ''POST'' ''/api/v1/users/''
                (Some (UserCreatePayload (create_of data))) = Inr post \<longrightarrow>
           Method post = ''POST''
           \<and> (\<exists>rest. snd (UserResource_Create env srv r req resp log) = log1 @ post # rest))"
    by blast
qed


theorem Create_user_exists_witness:
  "Response.State (fst (UserResource_Create example_env example_server user_resource
       (create_request alice_plan) empty_response [])) = None
   \<and> Diagnostic SeverityError ''User Exists''
        ''A user with username 'alice' already exists (id=7).''
       \<in> set (Diagnostics (fst (UserResource_Create example_env example_server user_resource
              (create_request alice_plan) empty_response [])))
   \<and> snd (UserResource_Create example_env example_server user_resource
              (create_request alice_plan) empty_response [])
       = [sent ''GET'' ''/api/v1/users/?username=alice'' None]
   \<and> Response.State (fst (UserResource_Create example_env failing_server user_resource
       (create_request alice_plan) empty_response [])) = None
   \<and> Diagnostic SeverityError ''Client Error''
        ''Unable to check for existing user: failed to execute request: connection refused''
       \<in> set (Diagnostics (fst (UserResource_Create example_env failing_server user_resource
              (create_request alice_plan) empty_response [])))
   \<and> (\<exists>q \<in> set (snd (UserResource_Create example_env example_server user_resource
              (create_request bob_plan) empty_response [])).
         Method q = ''POST'' \<and> URL q = ''https://lego.example.com/api/v1/users/''
         \<and> Body q = Some (UserCreatePayload \<lparr>UserCreateData.Username = ''bob'',
               Password = ''builder'', Email = ''bob@example.com'', Groups = []\<rparr>))"
proof -
  let ?C = "\<lambda>srv plan. UserResource_Create example_env srv user_resource
              (create_request plan) empty_response []"
  from example_lookup_alice obtain l1 where
    l1: "GetUserByUsername example_env example_server example_client ''alice'' [] = (Inr alice, l1)" ..
  from failing_lookup_alice obtain l2 where
    l2: "GetUserByUsername example_env failing_server example_client ''alice'' []
     = (Inl (Wrapf ''failed to execute request: '' (New ''connection refused'') []), l2)" ..
  from example_lookup_bob obtain l3 where
    l3: "GetUserByUsername example_env example_server example_client ''bob'' [] = (Inl ErrNotFound, l3)" ..
  have a: "snd (?C example_server alice_plan) = l1
     \<and> (\<forall>q \<in> set (drop (length ([] :: request list)) l1). Method q = ''GET'' \<and> Body q = None)
     \<and> Response.State (fst (?C example_server alice_plan)) = None
     \<and> Diagnostic SeverityError ''User Exists''
        ''A user with username 'alice' already exists (id=7).''
       \<in> set (Diagnostics (fst (?C example_server alice_plan)))"
    using Create_user_exists [where env = example_env and srv = example_server
        and c = example_client and r = user_resource and req = "create_request alice_plan"
        and resp = empty_response and data = alice_plan and log = "[]"
        and lookup = "Inr alice" and ?log1.0 = l1] l1
    by (simp add: user_resource_def create_request_def decoded_def empty_response_def alice_plan_def
        ValueString_def HasError_def LastPathSegment_alice)
  have b: "Response.State (fst (?C failing_server alice_plan)) = None
     \<and> Diagnostic SeverityError ''Client Error''
        ''Unable to check for existing user: failed to execute request: connection refused''
       \<in> set (Diagnostics (fst (?C failing_server alice_plan)))"
    using Create_user_exists [where env = example_env and srv = failing_server
        and c = example_client and r = user_resource and req = "create_request alice_plan"
        and resp = empty_response and data = alice_plan and log = "[]"
        and lookup = "Inl (Wrapf ''failed to execute request: '' (New ''connection refused'') [])"
        and ?log1.0 = l2] l2
    by (simp add: user_resource_def create_request_def decoded_def empty_response_def alice_plan_def
        ValueString_def HasError_def)
  let ?post = "\<lparr>Method = ''POST'', URL = ''https://lego.example.com/api/v1/users/'',
        Header = [(''Authorization'', ''Basic YWRtaW46c2VjcmV0''),
                  (''User-Agent'', ''terraform-provider-legocharm''),
                  (''Content-Type'', ''application/json'')],
        Body = Some (UserCreatePayload \<lparr>UserCreateData.Username = ''bob'',
               Password = ''builder'', Email = ''bob@example.com'', Groups = []\<rparr>)\<rparr>"
  have c: "\<exists>rest. snd (?C example_server bob_plan) = l3 @ ?post # rest"
    using Create_user_exists [where env = example_env and srv = example_server
        and c = example_client and r = user_resource and req = "create_request bob_plan"
        and resp = empty_response and data = bob_plan and log = "[]"
        and lookup = "Inl ErrNotFound" and ?log1.0 = l3] l3
    by (simp add: user_resource_def create_request_def decoded_def empty_response_def bob_plan_def
        ValueString_def HasError_def create_of_def example_request TrimLeft_def)
  have "GetUserByUsername example_env example_server example_client ''alice'' []
          = (Inr alice, [sent ''GET'' ''/api/v1/users/?username=alice'' None])"
    by (simp add: GetUserByUsername_def example_eval sent_def)
  with l1 a have a': "snd (?C example_server alice_plan)
                        = [sent ''GET'' ''/api/v1/users/?username=alice'' None]"
    by simp
  from c obtain rest where "snd (?C example_server bob_plan) = l3 @ ?post # rest" ..
  then have c': "\<exists>q \<in> set (snd (?C example_server bob_plan)).
         Method q = ''POST'' \<and> URL q = ''https://lego.example.com/api/v1/users/''
         \<and> Body q = Some (UserCreatePayload \<lparr>UserCreateData.Username = ''bob'',
               Password = ''builder'', Email = ''bob@example.com'', Groups = []\<rparr>)"
    by simp
  from a a' b c' show ?thesis by blast
qed

section \<open>Granting access to a domain\<close>




section \<open>Replacing a grant\<close>

text \<open>
  Claim C5, as amended. Once \<open>Update\<close> of the domain-access reconciler has a decoded
  plan with user id, domain and a non-zero database id (the plan carries the stored
  database id, which the schema computes with \<open>UseStateForUnknown\<close>), it first sends the
  \<open>DELETE\<close> of the permission with that database id. \<open>DeleteDomainAccess\<close> returns without
  error exactly when the request could be built and the service answered it, whatever
  the status of the answer. When it returns an error, nothing more is sent, the state
  stays as it was and \<open>Client Error\<close> is added. When it returns without error,
  \<open>CreateDomainAccess\<close> is run on the planned user id, domain and access level; when that
  succeeds the state holds the planned values, the new database id and the id
  \<open>user_id:domain:access_level\<close>, and when it fails the state stays as it was.
\<close>

theorem Update_replaces_grant:
  "UserDomainAccessResource.client r = Some c
   \<and> \<not> HasError (Append (Diagnostics resp) (get_diags (UpdateRequest.Plan req)))
   \<and> data = get_value (UpdateRequest.Plan req)
   \<and> DatabaseID data = DatabaseID (get_value (UpdateRequest.State req))
   \<and> \<not> IsNull (UserDomainAccessModel.UserId data)
   \<and> \<not> IsNull (UserDomainAccessModel.Domain data)
   \<and> \<not> IsNull (DatabaseID data) \<and> ValueInt64 (DatabaseID data) \<noteq> 0
   \<and> DeleteDomainAccess env srv c (ValueInt64 (DatabaseID (get_value (UpdateRequest.State req)))) log
       = (deleted, log1)
   \<and> CreateDomainAccess env srv c
         \<lparr>DomainUserPermissionCreateData.UserID = ValueString (UserDomainAccessModel.UserId data),
          Domain = ValueString (UserDomainAccessModel.Domain data),
          AccessLevel = ValueString (UserDomainAccessModel.AccessLevel data)\<rparr> log1
       = (created, log2)
   \<longrightarrow>
     log1 = log @ (case NewRequest env (Some c) ''DELETE''
                          (''/api/v1/domain-user-permissions/''
                             @ Sprintf_d (ValueInt64 (DatabaseID (get_value (UpdateRequest.State req))))
                             @ ''/'') None of
                     Inl _ \<Rightarrow> [] | Inr q \<Rightarrow> [q])
     \<and> (\<forall>deleteResp. deleted = Inr deleteResp \<longleftrightarrow>
           response_to env srv c ''DELETE''
             (''/api/v1/domain-user-permissions/''
                @ Sprintf_d (ValueInt64 (DatabaseID (get_value (UpdateRequest.State req))))
                @ ''/'') None log = Some deleteResp)
     \<and> (\<forall>err. deleted = Inl err \<longrightarrow>
           snd (UserDomainAccessResource_Update env srv r req resp log) = log1
           \<and> Response.State (fst (UserDomainAccessResource_Update env srv r req resp log))
               = Response.State resp
           \<and> Diagnostic SeverityError ''Client Error''
                (''Unable to delete user domain access: '' @ Error err)
               \<in> set (Diagnostics (fst (UserDomainAccessResource_Update env srv r req resp log))))
     \<and> (\<forall>deleteResp. deleted = Inr deleteResp \<longrightarrow>
           snd (UserDomainAccessResource_Update env srv r req resp log) = log2
           \<and> (\<forall>domain. created = Inr domain \<longrightarrow>
                 Response.State (fst (UserDomainAccessResource_Update env srv r req resp log)) =
                   Some \<lparr>UserDomainAccessModel.UserId = UserDomainAccessModel.UserId data,
                         Domain = UserDomainAccessModel.Domain data,
                         AccessLevel = UserDomainAccessModel.AccessLevel data,
                         Id = Value (ValueString (UserDomainAccessModel.UserId data) @ '':''
                                     @ ValueString (UserDomainAccessModel.Domain data) @ '':''
                                     @ ValueString (UserDomainAccessModel.AccessLevel data)),
                         DatabaseID = Value (DomainUserPermissionData.ID domain)\<rparr>
                 \<and> Diagnostics (fst (UserDomainAccessResource_Update env srv r req resp log))
                     = Append (Diagnostics resp) (get_diags (UpdateRequest.Plan req)))
           \<and> (\<forall>err. created = Inl err \<longrightarrow>
                 Response.State (fst (UserDomainAccessResource_Update env srv r req resp log))
                   = Response.State resp
                 \<and> Diagnostic SeverityError ''Client Error''
                      (''Unable to update user domain access: '' @ Error err)
                     \<in> set (Diagnostics (fst (UserDomainAccessResource_Update env srv r req resp log)))))"
proof (intro impI)
  assume h: "UserDomainAccessResource.client r = Some c
   \<and> \<not> HasError (Append (Diagnostics resp) (get_diags (UpdateRequest.Plan req)))
   \<and> data = get_value (UpdateRequest.Plan req)
   \<and> DatabaseID data = DatabaseID (get_value (UpdateRequest.State req))
   \<and> \<not> IsNull (UserDomainAccessModel.UserId data)
   \<and> \<not> IsNull (UserDomainAccessModel.Domain data)
   \<and> \<not> IsNull (DatabaseID data) \<and> ValueInt64 (DatabaseID data) \<noteq> 0
   \<and> DeleteDomainAccess env srv c (ValueInt64 (DatabaseID (get_value (UpdateRequest.State req)))) log
       = (deleted, log1)
   \<and> CreateDomainAccess env srv c
         \<lparr>DomainUserPermissionCreateData.UserID = ValueString (UserDomainAccessModel.UserId data),
          Domain = ValueString (UserDomainAccessModel.Domain data),
          AccessLevel = ValueString (UserDomainAccessModel.AccessLevel data)\<rparr> log1
       = (created, log2)"
  then have h1: "UserDomainAccessResource.client r = Some c"
    and h2: "\<not> HasError (Append (Diagnostics resp) (get_diags (UpdateRequest.Plan req)))"
    and h3: "data = get_value (UpdateRequest.Plan req)"
    and h4: "DatabaseID data = DatabaseID (get_value (UpdateRequest.State req))"
    and h5: "\<not> IsNull (UserDomainAccessModel.UserId data)"
    and h6: "\<not> IsNull (UserDomainAccessModel.Domain data)"
    and h7: "\<not> IsNull (DatabaseID data)" and h8: "ValueInt64 (DatabaseID data) \<noteq> 0"
    and h9: "DeleteDomainAccess env srv c (ValueInt64 (DatabaseID (get_value (UpdateRequest.State req)))) log
       = (deleted, log1)"
    and h10: "CreateDomainAccess env srv c
         \<lparr>DomainUserPermissionCreateData.UserID = ValueString (UserDomainAccessModel.UserId data),
          Domain = ValueString (UserDomainAccessModel.Domain data),
          AccessLevel = ValueString (UserDomainAccessModel.AccessLevel data)\<rparr> log1
       = (created, log2)"
    by blast+
  from h9 h4 have d: "DeleteDomainAccess env srv c (ValueInt64 (DatabaseID data)) log = (deleted, log1)"
    by simp
  from h10 have cr: "CreateDomainAccess env srv c (createData_of data) log1 = (created, log2)"
    by (simp add: createData_of_def)
  note eq = UserDomainAccessResource_Update_reached [OF h1 h2 h3 h5 h6 h7 h8 d cr]
  from h9 DeleteDomainAccess_log [of env srv c "ValueInt64 (DatabaseID (get_value (UpdateRequest.State req)))" log]
  have l1: "log1 = log @ (case NewRequest env (Some c) ''DELETE''
                          (''/api/v1/domain-user-permissions/''
                             @ Sprintf_d (ValueInt64 (DatabaseID (get_value (UpdateRequest.State req))))
                             @ ''/'') None of
                     Inl _ \<Rightarrow> [] | Inr q \<Rightarrow> [q])" by simp
  from h9 have dr: "\<forall>deleteResp. deleted = Inr deleteResp \<longleftrightarrow>
           response_to env srv c ''DELETE''
             (''/api/v1/domain-user-permissions/''
                @ Sprintf_d (ValueInt64 (DatabaseID (get_value (UpdateRequest.State req))))
                @ ''/'') None log = Some deleteResp"
    using DeleteDomainAccess_result
            [of env srv c "ValueInt64 (DatabaseID (get_value (UpdateRequest.State req)))" log]
    by simp
  show "log1 = log @ (case NewRequest env (Some c) ''DELETE''
                          (''/api/v1/domain-user-permissions/''
                             @ Sprintf_d (ValueInt64 (DatabaseID (get_value (UpdateRequest.State req))))
                             @ ''/'') None of
                     Inl _ \<Rightarrow> [] | Inr q \<Rightarrow> [q])
     \<and> (\<forall>deleteResp. deleted = Inr deleteResp \<longleftrightarrow>
           response_to env srv c ''DELETE''
             (''/api/v1/domain-user-permissions/''
                @ Sprintf_d (ValueInt64 (DatabaseID (get_value (UpdateRequest.State req))))
                @ ''/'') None log = Some deleteResp)
     \<and> (\<forall>err. deleted = Inl err \<longrightarrow>
           snd (UserDomainAccessResource_Update env srv r req resp log) = log1
           \<and> Response.State (fst (UserDomainAccessResource_Update env srv r req resp log))
               = Response.State resp
           \<and> Diagnostic SeverityError ''Client Error''
                (''Unable to delete user domain access: '' @ Error err)
               \<in> set (Diagnostics (fst (UserDomainAccessResource_Update env srv r req resp log))))
     \<and> (\<forall>deleteResp. deleted = Inr deleteResp \<longrightarrow>
           snd (UserDomainAccessResource_Update env srv r req resp log) = log2
           \<and> (\<forall>domain. created = Inr domain \<longrightarrow>
                 Response.State (fst (UserDomainAccessResource_Update env srv r req resp log)) =
                   Some \<lparr>UserDomainAccessModel.UserId = UserDomainAccessModel.UserId data,
                         Domain = UserDomainAccessModel.Domain data,
                         AccessLevel = UserDomainAccessModel.AccessLevel data,
                         Id = Value (ValueString (UserDomainAccessModel.UserId data) @ '':''
                                     @ ValueString (UserDomainAccessModel.Domain data) @ '':''
                                     @ ValueString (UserDomainAccessModel.AccessLevel data)),
                         DatabaseID = Value (DomainUserPermissionData.ID domain)\<rparr>
                 \<and> Diagnostics (fst (UserDomainAccessResource_Update env srv r req resp log))
                     = Append (Diagnostics resp) (get_diags (UpdateRequest.Plan req)))
           \<and> (\<forall>err. created = Inl err \<longrightarrow>
                 Response.State (fst (UserDomainAccessResource_Update env srv r req resp log))
                   = Response.State resp
                 \<and> Diagnostic SeverityError ''Client Error''
                      (''Unable to update user domain access: '' @ Error err)
                     \<in> set (Diagnostics (fst (UserDomainAccessResource_Update env srv r req resp log)))))"
    apply (intro conjI)
    subgoal by (rule l1)
    subgoal by (rule dr)
    subgoal by (cases deleted; cases created) (simp_all add: eq Let_def)
    subgoal by (cases deleted; cases created) (simp_all add: eq Let_def)
    done
qed


theorem Update_replaces_grant_witness:
  "UserDomainAccessResource_Update example_env example_server access_resource
       (update_request (access_plan ''subdomain'') access_state) (prior_response access_state) [] =
     (\<lparr>Diagnostics = [],
       State = Some \<lparr>UserDomainAccessModel.UserId = Value ''7'', Domain = Value ''example.com'',
                     AccessLevel = Value ''subdomain'', Id = Value ''7:example.com:subdomain'',
                     DatabaseID = Value 42\<rparr>\<rparr>,
      [sent ''DELETE'' ''/api/v1/domain-user-permissions/42/'' None,
       sent ''GET'' ''/api/v1/domains/?fqdn=example.com'' None,
       sent ''POST'' ''/api/v1/domain-user-permissions/''
         (Some (PermissionPayload \<lparr>DomainUserPermissionCreatePayloadData.UserID = ''7'',
                  Domain = 5, AccessLevel = ''subdomain''\<rparr>))])
   \<and> snd (UserDomainAccessResource_Update example_env failing_server access_resource
       (update_request (access_plan ''subdomain'') access_state) (prior_response access_state) [])
       = [sent ''DELETE'' ''/api/v1/domain-user-permissions/42/'' None]
   \<and> Response.State (fst (UserDomainAccessResource_Update example_env failing_server access_resource
       (update_request (access_plan ''subdomain'') access_state) (prior_response access_state) []))
       = Some access_state
   \<and> HasError (Diagnostics (fst (UserDomainAccessResource_Update example_env failing_server
       access_resource (update_request (access_plan ''subdomain'') access_state)
       (prior_response access_state) [])))
   \<and> snd (UserDomainAccessResource_Update example_env refusing_delete_server access_resource
       (update_request (access_plan ''subdomain'') access_state) (prior_response access_state) [])
       = [sent ''DELETE'' ''/api/v1/domain-user-permissions/42/'' None,
          sent ''GET'' ''/api/v1/domains/?fqdn=example.com'' None,
          sent ''POST'' ''/api/v1/domain-user-permissions/''
            (Some (PermissionPayload \<lparr>DomainUserPermissionCreatePayloadData.UserID = ''7'',
                     Domain = 5, AccessLevel = ''subdomain''\<rparr>))]
   \<and> Response.State (fst (UserDomainAccessResource_Update example_env refusing_delete_server
       access_resource (update_request (access_plan ''subdomain'') access_state)
       (prior_response access_state) []))
       = Some \<lparr>UserDomainAccessModel.UserId = Value ''7'', Domain = Value ''example.com'',
                AccessLevel = Value ''subdomain'', Id = Value ''7:example.com:subdomain'',
                DatabaseID = Value 42\<rparr>"
proof -
  let ?U = "\<lambda>srv. UserDomainAccessResource_Update example_env srv access_resource
       (update_request (access_plan ''subdomain'') access_state) (prior_response access_state) []"
  let ?del = "sent ''DELETE'' ''/api/v1/domain-user-permissions/42/'' None"
  let ?log2 = "[?del, sent ''GET'' ''/api/v1/domains/?fqdn=example.com'' None,
       sent ''POST'' ''/api/v1/domain-user-permissions/''
         (Some (PermissionPayload \<lparr>DomainUserPermissionCreatePayloadData.UserID = ''7'',
                  Domain = 5, AccessLevel = ''subdomain''\<rparr>))]"
  have a: "snd (?U example_server) = ?log2
     \<and> Response.State (fst (?U example_server)) =
         Some \<lparr>UserDomainAccessModel.UserId = Value ''7'', Domain = Value ''example.com'',
                     AccessLevel = Value ''subdomain'', Id = Value ''7:example.com:subdomain'',
                     DatabaseID = Value 42\<rparr>
     \<and> Diagnostics (fst (?U example_server)) = []"
    using Update_replaces_grant [where env = example_env and srv = example_server
        and c = example_client and r = access_resource
        and req = "update_request (access_plan ''subdomain'') access_state"
        and resp = "prior_response access_state" and data = "access_plan ''subdomain''"
        and log = "[]" and deleted = "Inr \<lparr>StatusCode = 204, RespBody = Inr []\<rparr>"
        and ?log1.0 = "[?del]" and created = "Inr permission42" and ?log2.0 = ?log2]
      example_DeleteDomainAccess [of "[]"]
      example_CreateDomainAccess [of "''subdomain''" "[?del]"]
    by (simp add: access_resource_def update_request_def decoded_def prior_response_def
        access_plan_def access_state_def ValueString_def ValueInt64_def IsNull_def HasError_def
        permission42_def)
  obtain cr l where cd: "CreateDomainAccess example_env failing_server example_client
         \<lparr>DomainUserPermissionCreateData.UserID = ''7'', Domain = ''example.com'',
          AccessLevel = ''subdomain''\<rparr> [?del] = (cr, l)"
    by (cases "CreateDomainAccess example_env failing_server example_client
         \<lparr>DomainUserPermissionCreateData.UserID = ''7'', Domain = ''example.com'',
          AccessLevel = ''subdomain''\<rparr> [?del]")
  have b: "snd (?U failing_server) = [?del]
     \<and> Response.State (fst (?U failing_server)) = Some access_state
     \<and> HasError (Diagnostics (fst (?U failing_server)))"
    using Update_replaces_grant [where env = example_env and srv = failing_server
        and c = example_client and r = access_resource
        and req = "update_request (access_plan ''subdomain'') access_state"
        and resp = "prior_response access_state" and data = "access_plan ''subdomain''"
        and log = "[]"
        and deleted = "Inl (Wrapf ''failed to execute request: '' (New ''connection refused'') [])"
        and ?log1.0 = "[?del]" and created = cr and ?log2.0 = l]
      failing_DeleteDomainAccess [of "[]"] cd
    by (simp add: access_resource_def update_request_def decoded_def prior_response_def
        access_plan_def access_state_def ValueString_def ValueInt64_def IsNull_def HasError_iff)
       force
  from a have "?U example_server =
     (\<lparr>Diagnostics = [],
       State = Some \<lparr>UserDomainAccessModel.UserId = Value ''7'', Domain = Value ''example.com'',
                     AccessLevel = Value ''subdomain'', Id = Value ''7:example.com:subdomain'',
                     DatabaseID = Value 42\<rparr>\<rparr>, ?log2)"
    by (cases "?U example_server"; cases "fst (?U example_server)") simp
  moreover have "snd (?U refusing_delete_server) = ?log2
     \<and> Response.State (fst (?U refusing_delete_server)) =
         Some \<lparr>UserDomainAccessModel.UserId = Value ''7'', Domain = Value ''example.com'',
                     AccessLevel = Value ''subdomain'', Id = Value ''7:example.com:subdomain'',
                     DatabaseID = Value 42\<rparr>"
    using Update_replaces_grant [where env = example_env and srv = refusing_delete_server
        and c = example_client and r = access_resource
        and req = "update_request (access_plan ''subdomain'') access_state"
        and resp = "prior_response access_state" and data = "access_plan ''subdomain''"
        and log = "[]" and deleted = "Inr \<lparr>StatusCode = 500, RespBody = Inr ''server error''\<rparr>"
        and ?log1.0 = "[?del]" and created = "Inr permission42" and ?log2.0 = ?log2]
      refusing_DeleteDomainAccess [of "[]"]
      refusing_CreateDomainAccess [of "''subdomain''" "[?del]"]
    by (simp add: access_resource_def update_request_def decoded_def prior_response_def
        access_plan_def access_state_def ValueString_def ValueInt64_def IsNull_def HasError_def
        permission42_def)
  ultimately show ?thesis using b by blast
qed

text \<open>
  The claim as first stated fails: the service answers the \<open>DELETE\<close> with status 500,
  so the old grant is not deleted, and \<open>Update\<close> goes on to create the new grant and
  stores it.
\<close>

theorem Update_after_refused_delete_counterexample:
  "DeleteDomainAccess example_env refusing_delete_server example_client 42 [] =
     (Inr \<lparr>StatusCode = 500, RespBody = Inr ''server error''\<rparr>,
      [sent ''DELETE'' ''/api/v1/domain-user-permissions/42/'' None])
   \<and> UserDomainAccessResource_Update example_env refusing_delete_server access_resource
       (update_request (access_plan ''subdomain'') access_state) (prior_response access_state) [] =
     (\<lparr>Diagnostics = [],
       State = Some \<lparr>UserDomainAccessModel.UserId = Value ''7'', Domain = Value ''example.com'',
                     AccessLevel = Value ''subdomain'', Id = Value ''7:example.com:subdomain'',
                     DatabaseID = Value 42\<rparr>\<rparr>,
      [sent ''DELETE'' ''/api/v1/domain-user-permissions/42/'' None,
       sent ''GET'' ''/api/v1/domains/?fqdn=example.com'' None,
       sent ''POST'' ''/api/v1/domain-user-permissions/''
         (Some (PermissionPayload \<lparr>DomainUserPermissionCreatePayloadData.UserID = ''7'',
                  Domain = 5, AccessLevel = ''subdomain''\<rparr>))])"
proof -
  let ?del = "sent ''DELETE'' ''/api/v1/domain-user-permissions/42/'' None"
  let ?plan = "access_plan ''subdomain''"
  let ?req = "update_request ?plan access_state"
  have 1: "UserDomainAccessResource.client access_resource = Some example_client"
    by (simp add: access_resource_def)
  have 2: "\<not> HasError (Append (Diagnostics (prior_response access_state))
                    (get_diags (UpdateRequest.Plan ?req)))"
    by (simp add: prior_response_def update_request_def decoded_def HasError_def)
  have 3: "?plan = get_value (UpdateRequest.Plan ?req)"
    by (simp add: update_request_def decoded_def)
  have 4: "\<not> IsNull (UserDomainAccessModel.UserId ?plan)"
    and 5: "\<not> IsNull (UserDomainAccessModel.Domain ?plan)"
    and 6: "\<not> IsNull (DatabaseID ?plan)" and 7: "ValueInt64 (DatabaseID ?plan) \<noteq> 0"
    by (simp_all add: access_plan_def IsNull_def ValueInt64_def)
  have 8: "DeleteDomainAccess example_env refusing_delete_server example_client
             (ValueInt64 (DatabaseID ?plan)) [] =
           (Inr \<lparr>StatusCode = 500, RespBody = Inr ''server error''\<rparr>, [?del])"
    using refusing_DeleteDomainAccess [of "[]"] by (simp add: access_plan_def ValueInt64_def)
  have 9: "CreateDomainAccess example_env refusing_delete_server example_client
             (createData_of ?plan) [?del] =
           (Inr permission42,
            [?del, sent ''GET'' ''/api/v1/domains/?fqdn=example.com'' None,
             sent ''POST'' ''/api/v1/domain-user-permissions/''
               (Some (PermissionPayload \<lparr>DomainUserPermissionCreatePayloadData.UserID = ''7'',
                        Domain = 5, AccessLevel = ''subdomain''\<rparr>))])"
    using refusing_CreateDomainAccess [of "''subdomain''" "[?del]"]
    by (simp add: createData_of_def access_plan_def ValueString_def)
  show ?thesis
    using refusing_DeleteDomainAccess [of "[]"]
    by (simp add: UserDomainAccessResource_Update_reached [OF 1 2 3 4 5 6 7 8 9] Let_def)
       (simp add: access_plan_def ValueString_def permission42_def State_Set_def
          Diagnostics_Append_def update_request_def decoded_def prior_response_def)
qed

section \<open>The access level of a grant\<close>

text \<open>
  Claim C8, as amended. The reconciler does not check the access level. Once \<open>Create\<close>
  has found no existing grant, or \<open>Update\<close> has deleted the old one, the planned access
  level, whatever string it is, is passed to \<open>CreateDomainAccess\<close>: every permission
  payload posted carries it unchanged, the grant is stored with it when
  \<open>CreateDomainAccess\<close> succeeds, and the state stays as it was, with an error, when
  \<open>CreateDomainAccess\<close> fails.
\<close>

theorem access_level_forwarded:
  "(UserDomainAccessResource.client r = Some c
    \<and> \<not> HasError (Append (Diagnostics resp) (get_diags (CreateRequest.Plan creq)))
    \<and> data = get_value (CreateRequest.Plan creq)
    \<and> GetDomainAccess env srv c (ValueString (UserDomainAccessModel.UserId data))
          (ValueString (UserDomainAccessModel.Domain data)) log = (Inl err, log1)
    \<and> CreateDomainAccess env srv c
          \<lparr>DomainUserPermissionCreateData.UserID = ValueString (UserDomainAccessModel.UserId data),
           Domain = ValueString (UserDomainAccessModel.Domain data),
           AccessLevel = ValueString (UserDomainAccessModel.AccessLevel data)\<rparr> log1
        = (created, log2)
    \<longrightarrow>
      snd (UserDomainAccessResource_Create env srv r creq resp log) = log2
      \<and> (\<forall>q \<in> set (drop (length log1) log2). \<forall>p. Body q = Some (PermissionPayload p) \<longrightarrow>
            DomainUserPermissionCreatePayloadData.AccessLevel p
              = ValueString (UserDomainAccessModel.AccessLevel data))
      \<and> (\<forall>domain. created = Inr domain \<longrightarrow>
            Response.State (fst (UserDomainAccessResource_Create env srv r creq resp log)) =
              Some \<lparr>UserDomainAccessModel.UserId = UserDomainAccessModel.UserId data,
                    Domain = UserDomainAccessModel.Domain data,
                    AccessLevel = UserDomainAccessModel.AccessLevel data,
                    Id = Value (ValueString (UserDomainAccessModel.UserId data) @ '':''
                                @ ValueString (UserDomainAccessModel.Domain data) @ '':''
                                @ ValueString (UserDomainAccessModel.AccessLevel data)),
                    DatabaseID = Value (DomainUserPermissionData.ID domain)\<rparr>
            \<and> \<not> HasError (Diagnostics (fst (UserDomainAccessResource_Create env srv r creq resp log))))
      \<and> (\<forall>e. created = Inl e \<longrightarrow>
            Response.State (fst (UserDomainAccessResource_Create env srv r creq resp log))
              = Response.State resp
            \<and> HasError (Diagnostics (fst (UserDomainAccessResource_Create env srv r creq resp log)))))
   \<and> (UserDomainAccessResource.client r = Some c
    \<and> \<not> HasError (Append (Diagnostics resp) (get_diags (UpdateRequest.Plan ureq)))
    \<and> data = get_value (UpdateRequest.Plan ureq)
    \<and> \<not> IsNull (UserDomainAccessModel.UserId data)
    \<and> \<not> IsNull (UserDomainAccessModel.Domain data)
    \<and> \<not> IsNull (DatabaseID data) \<and> ValueInt64 (DatabaseID data) \<noteq> 0
    \<and> DeleteDomainAccess env srv c (ValueInt64 (DatabaseID data)) log = (Inr deleteResp, log1)
    \<and> CreateDomainAccess env srv c
          \<lparr>DomainUserPermissionCreateData.UserID = ValueString (UserDomainAccessModel.UserId data),
           Domain = ValueString (UserDomainAccessModel.Domain data),
           AccessLevel = ValueString (UserDomainAccessModel.AccessLevel data)\<rparr> log1
        = (created, log2)
    \<longrightarrow>
      snd (UserDomainAccessResource_Update env srv r ureq resp log) = log2
      \<and> (\<forall>q \<in> set (drop (length log1) log2). \<forall>p. Body q = Some (PermissionPayload p) \<longrightarrow>
            DomainUserPermissionCreatePayloadData.AccessLevel p
              = ValueString (UserDomainAccessModel.AccessLevel data))
      \<and> (\<forall>domain. created = Inr domain \<longrightarrow>
            Response.State (fst (UserDomainAccessResource_Update env srv r ureq resp log)) =
              Some \<lparr>UserDomainAccessModel.UserId = UserDomainAccessModel.UserId data,
                    Domain = UserDomainAccessModel.Domain data,
                    AccessLevel = UserDomainAccessModel.AccessLevel data,
                    Id = Value (ValueString (UserDomainAccessModel.UserId data) @ '':''
                                @ ValueString (UserDomainAccessModel.Domain data) @ '':''
                                @ ValueString (UserDomainAccessModel.AccessLevel data)),
                    DatabaseID = Value (DomainUserPermissionData.ID domain)\<rparr>
            \<and> \<not> HasError (Diagnostics (fst (UserDomainAccessResource_Update env srv r ureq resp log))))
      \<and> (\<forall>e. created = Inl e \<longrightarrow>
            Response.State (fst (UserDomainAccessResource_Update env srv r ureq resp log))
              = Response.State resp
            \<and> HasError (Diagnostics (fst (UserDomainAccessResource_Update env srv r ureq resp log)))))"
proof (intro conjI impI)
  assume h: "UserDomainAccessResource.client r = Some c
    \<and> \<not> HasError (Append (Diagnostics resp) (get_diags (CreateRequest.Plan creq)))
    \<and> data = get_value (CreateRequest.Plan creq)
    \<and> GetDomainAccess env srv c (ValueString (UserDomainAccessModel.UserId data))
          (ValueString (UserDomainAccessModel.Domain data)) log = (Inl err, log1)
    \<and> CreateDomainAccess env srv c
          \<lparr>DomainUserPermissionCreateData.UserID = ValueString (UserDomainAccessModel.UserId data),
           Domain = ValueString (UserDomainAccessModel.Domain data),
           AccessLevel = ValueString (UserDomainAccessModel.AccessLevel data)\<rparr> log1
        = (created, log2)"
  then have h1: "UserDomainAccessResource.client r = Some c"
    and h2: "\<not> HasError (Append (Diagnostics resp) (get_diags (CreateRequest.Plan creq)))"
    and h3: "data = get_value (CreateRequest.Plan creq)"
    and h4: "GetDomainAccess env srv c (ValueString (UserDomainAccessModel.UserId data))
          (ValueString (UserDomainAccessModel.Domain data)) log = (Inl err, log1)"
    and h5: "CreateDomainAccess env srv c (createData_of data) log1 = (created, log2)"
    by (auto simp: createData_of_def)
  note eq = UserDomainAccessResource_Create_reached [OF h1 h2 h3 h4 h5]
  show "snd (UserDomainAccessResource_Create env srv r creq resp log) = log2"
    by (cases created) (simp_all add: eq Let_def)
  show "\<forall>q \<in> set (drop (length log1) log2). \<forall>p. Body q = Some (PermissionPayload p) \<longrightarrow>
            DomainUserPermissionCreatePayloadData.AccessLevel p
              = ValueString (UserDomainAccessModel.AccessLevel data)"
    using CreateDomainAccess_payloads [OF h5] by (simp add: createData_of_def)
  show "\<forall>domain. created = Inr domain \<longrightarrow>
            Response.State (fst (UserDomainAccessResource_Create env srv r creq resp log)) =
              Some \<lparr>UserDomainAccessModel.UserId = UserDomainAccessModel.UserId data,
                    Domain = UserDomainAccessModel.Domain data,
                    AccessLevel = UserDomainAccessModel.AccessLevel data,
                    Id = Value (ValueString (UserDomainAccessModel.UserId data) @ '':''
                                @ ValueString (UserDomainAccessModel.Domain data) @ '':''
                                @ ValueString (UserDomainAccessModel.AccessLevel data)),
                    DatabaseID = Value (DomainUserPermissionData.ID domain)\<rparr>
            \<and> \<not> HasError (Diagnostics (fst (UserDomainAccessResource_Create env srv r creq resp log)))"
    using h2 by (simp add: eq Let_def)
  show "\<forall>e. created = Inl e \<longrightarrow>
            Response.State (fst (UserDomainAccessResource_Create env srv r creq resp log))
              = Response.State resp
            \<and> HasError (Diagnostics (fst (UserDomainAccessResource_Create env srv r creq resp log)))"
    by (simp add: eq Let_def)
next
  assume h: "UserDomainAccessResource.client r = Some c
    \<and> \<not> HasError (Append (Diagnostics resp) (get_diags (UpdateRequest.Plan ureq)))
    \<and> data = get_value (UpdateRequest.Plan ureq)
    \<and> \<not> IsNull (UserDomainAccessModel.UserId data)
    \<and> \<not> IsNull (UserDomainAccessModel.Domain data)
    \<and> \<not> IsNull (DatabaseID data) \<and> ValueInt64 (DatabaseID data) \<noteq> 0
    \<and> DeleteDomainAccess env srv c (ValueInt64 (DatabaseID data)) log = (Inr deleteResp, log1)
    \<and> CreateDomainAccess env srv c
          \<lparr>DomainUserPermissionCreateData.UserID = ValueString (UserDomainAccessModel.UserId data),
           Domain = ValueString (UserDomainAccessModel.Domain data),
           AccessLevel = ValueString (UserDomainAccessModel.AccessLevel data)\<rparr> log1
        = (created, log2)"
  then have h1: "UserDomainAccessResource.client r = Some c"
    and h2: "\<not> HasError (Append (Diagnostics resp) (get_diags (UpdateRequest.Plan ureq)))"
    and h3: "data = get_value (UpdateRequest.Plan ureq)"
    and h4: "\<not> IsNull (UserDomainAccessModel.UserId data)"
    and h5: "\<not> IsNull (UserDomainAccessModel.Domain data)"
    and h6: "\<not> IsNull (DatabaseID data)" and h7: "ValueInt64 (DatabaseID data) \<noteq> 0"
    and h8: "DeleteDomainAccess env srv c (ValueInt64 (DatabaseID data)) log = (Inr deleteResp, log1)"
    and h9: "CreateDomainAccess env srv c (createData_of data) log1 = (created, log2)"
    by (auto simp: createData_of_def)
  note eq = UserDomainAccessResource_Update_reached [OF h1 h2 h3 h4 h5 h6 h7 h8 h9]
  show "snd (UserDomainAccessResource_Update env srv r ureq resp log) = log2"
    by (cases created) (simp_all add: eq Let_def)
  show "\<forall>q \<in> set (drop (length log1) log2). \<forall>p. Body q = Some (PermissionPayload p) \<longrightarrow>
            DomainUserPermissionCreatePayloadData.AccessLevel p
              = ValueString (UserDomainAccessModel.AccessLevel data)"
    using CreateDomainAccess_payloads [OF h9] by (simp add: createData_of_def)
  show "\<forall>domain. created = Inr domain \<longrightarrow>
            Response.State (fst (UserDomainAccessResource_Update env srv r ureq resp log)) =
              Some \<lparr>UserDomainAccessModel.UserId = UserDomainAccessModel.UserId data,
                    Domain = UserDomainAccessModel.Domain data,
                    AccessLevel = UserDomainAccessModel.AccessLevel data,
                    Id = Value (ValueString (UserDomainAccessModel.UserId data) @ '':''
                                @ ValueString (UserDomainAccessModel.Domain data) @ '':''
                                @ ValueString (UserDomainAccessModel.AccessLevel data)),
                    DatabaseID = Value (DomainUserPermissionData.ID domain)\<rparr>
            \<and> \<not> HasError (Diagnostics (fst (UserDomainAccessResource_Update env srv r ureq resp log)))"
    using h2 by (simp add: eq Let_def)
  show "\<forall>e. created = Inl e \<longrightarrow>
            Response.State (fst (UserDomainAccessResource_Update env srv r ureq resp log))
              = Response.State resp
            \<and> HasError (Diagnostics (fst (UserDomainAccessResource_Update env srv r ureq resp log)))"
    by (simp add: eq Let_def)
qed


theorem access_level_forwarded_witness:
  "Response.State (fst (UserDomainAccessResource_Create example_env example_server access_resource
        (create_request admin_plan) empty_response [])) =
     Some \<lparr>UserDomainAccessModel.UserId = Value ''7'', Domain = Value ''example.com'',
           AccessLevel = Value ''admin'', Id = Value ''7:example.com:admin'', DatabaseID = Value 42\<rparr>
   \<and> Response.State (fst (UserDomainAccessResource_Update example_env example_server access_resource
        (update_request (access_plan ''admin'') access_state) (prior_response access_state) [])) =
     Some \<lparr>UserDomainAccessModel.UserId = Value ''7'', Domain = Value ''example.com'',
           AccessLevel = Value ''admin'', Id = Value ''7:example.com:admin'', DatabaseID = Value 42\<rparr>
   \<and> snd (UserDomainAccessResource_Update example_env example_server access_resource
        (update_request (access_plan ''admin'') access_state) (prior_response access_state) []) =
     [sent ''DELETE'' ''/api/v1/domain-user-permissions/42/'' None,
      sent ''GET'' ''/api/v1/domains/?fqdn=example.com'' None,
      sent ''POST'' ''/api/v1/domain-user-permissions/''
        (Some (PermissionPayload \<lparr>DomainUserPermissionCreatePayloadData.UserID = ''7'',
                 Domain = 5, AccessLevel = ''admin''\<rparr>))]"
proof -
  let ?log1 = "[sent ''GET'' ''/api/v1/users/7/'' None,
       sent ''GET'' ''/api/v1/domain-user-permissions/?username=alice&fqdn=example.com'' None]"
  let ?tail = "[sent ''GET'' ''/api/v1/domains/?fqdn=example.com'' None,
             sent ''POST'' ''/api/v1/domain-user-permissions/''
               (Some (PermissionPayload \<lparr>DomainUserPermissionCreatePayloadData.UserID = ''7'',
                        Domain = 5, AccessLevel = ''admin''\<rparr>))]"
  let ?del = "sent ''DELETE'' ''/api/v1/domain-user-permissions/42/'' None"
  have a: "Response.State (fst (UserDomainAccessResource_Create example_env example_server access_resource
        (create_request admin_plan) empty_response [])) =
     Some \<lparr>UserDomainAccessModel.UserId = Value ''7'', Domain = Value ''example.com'',
           AccessLevel = Value ''admin'', Id = Value ''7:example.com:admin'', DatabaseID = Value 42\<rparr>"
    using access_level_forwarded [where env = example_env and srv = example_server
        and c = example_client and r = access_resource and creq = "create_request admin_plan"
        and resp = empty_response and data = admin_plan and log = "[]" and err = ErrNotFound
        and ?log1.0 = ?log1 and created = "Inr permission42" and ?log2.0 = "?log1 @ ?tail",
        THEN conjunct1]
      example_GetDomainAccess example_CreateDomainAccess [of "''admin''" ?log1]
    by (simp add: access_resource_def create_request_def decoded_def empty_response_def
        admin_plan_def ValueString_def HasError_def permission42_def)
  have b: "snd (UserDomainAccessResource_Update example_env example_server access_resource
        (update_request (access_plan ''admin'') access_state) (prior_response access_state) [])
       = ?del # ?tail
     \<and> Response.State (fst (UserDomainAccessResource_Update example_env example_server access_resource
        (update_request (access_plan ''admin'') access_state) (prior_response access_state) [])) =
     Some \<lparr>UserDomainAccessModel.UserId = Value ''7'', Domain = Value ''example.com'',
           AccessLevel = Value ''admin'', Id = Value ''7:example.com:admin'', DatabaseID = Value 42\<rparr>"
    using access_level_forwarded [where env = example_env and srv = example_server
        and c = example_client and r = access_resource
        and ureq = "update_request (access_plan ''admin'') access_state"
        and resp = "prior_response access_state" and data = "access_plan ''admin''" and log = "[]"
        and deleteResp = "\<lparr>StatusCode = 204, RespBody = Inr []\<rparr>"
        and ?log1.0 = "[?del]" and created = "Inr permission42" and ?log2.0 = "?del # ?tail",
        THEN conjunct2]
      example_DeleteDomainAccess [of "[]"] example_CreateDomainAccess [of "''admin''" "[?del]"]
    by (simp add: access_resource_def update_request_def decoded_def prior_response_def
        access_plan_def access_state_def ValueString_def ValueInt64_def IsNull_def HasError_def
        permission42_def)
  from a b show ?thesis by simp
qed

text \<open>
  The claim as first stated fails: a create with the access level \<open>admin\<close> is not
  rejected. Four requests are sent, and the grant is stored with that access level.
\<close>

theorem Create_unchecked_access_level_counterexample:
  "ValueString (UserDomainAccessModel.AccessLevel admin_plan) \<noteq> ''domain''
   \<and> ValueString (UserDomainAccessModel.AccessLevel admin_plan) \<noteq> ''subdomain''
   \<and> UserDomainAccessResource_Create example_env example_server access_resource
        (create_request admin_plan) empty_response [] =
       (\<lparr>Diagnostics = [],
         State = Some \<lparr>UserDomainAccessModel.UserId = Value ''7'', Domain = Value ''example.com'',
                       AccessLevel = Value ''admin'', Id = Value ''7:example.com:admin'',
                       DatabaseID = Value 42\<rparr>\<rparr>,
        [sent ''GET'' ''/api/v1/users/7/'' None,
         sent ''GET'' ''/api/v1/domain-user-permissions/?username=alice&fqdn=example.com'' None,
         sent ''GET'' ''/api/v1/domains/?fqdn=example.com'' None,
         sent ''POST'' ''/api/v1/domain-user-permissions/''
           (Some (PermissionPayload \<lparr>DomainUserPermissionCreatePayloadData.UserID = ''7'',
                    Domain = 5, AccessLevel = ''admin''\<rparr>))])"
proof -
  let ?log1 = "[sent ''GET'' ''/api/v1/users/7/'' None,
       sent ''GET'' ''/api/v1/domain-user-permissions/?username=alice&fqdn=example.com'' None]"
  have "UserDomainAccessResource.client access_resource = Some example_client"
    by (simp add: access_resource_def)
  moreover have "\<not> HasError (Append (Diagnostics (empty_response :: UserDomainAccessModel Response))
                    (get_diags (CreateRequest.Plan (create_request admin_plan))))"
    by (simp add: empty_response_def create_request_def decoded_def HasError_def)
  moreover have "admin_plan = get_value (CreateRequest.Plan (create_request admin_plan))"
    by (simp add: create_request_def decoded_def)
  moreover have "GetDomainAccess example_env example_server example_client
        (ValueString (UserDomainAccessModel.UserId admin_plan))
        (ValueString (UserDomainAccessModel.Domain admin_plan)) [] = (Inl ErrNotFound, ?log1)"
    by (simp add: admin_plan_def ValueString_def example_GetDomainAccess)
  moreover have "CreateDomainAccess example_env example_server example_client
        (createData_of admin_plan) ?log1 =
      (Inr permission42, ?log1 @ [sent ''GET'' ''/api/v1/domains/?fqdn=example.com'' None,
             sent ''POST'' ''/api/v1/domain-user-permissions/''
               (Some (PermissionPayload \<lparr>DomainUserPermissionCreatePayloadData.UserID = ''7'',
                        Domain = 5, AccessLevel = ''admin''\<rparr>))])"
    by (simp add: createData_of_def admin_plan_def ValueString_def example_CreateDomainAccess)
  ultimately have "UserDomainAccessResource_Create example_env example_server access_resource
        (create_request admin_plan) empty_response [] =
       (State_Set
          \<lparr>UserDomainAccessModel.UserId = UserDomainAccessModel.UserId admin_plan,
           Domain = UserDomainAccessModel.Domain admin_plan,
           AccessLevel = UserDomainAccessModel.AccessLevel admin_plan,
           Id = Value (ValueString (UserDomainAccessModel.UserId admin_plan) @ '':''
                       @ ValueString (UserDomainAccessModel.Domain admin_plan) @ '':''
                       @ ValueString (UserDomainAccessModel.AccessLevel admin_plan)),
           DatabaseID = Value (DomainUserPermissionData.ID permission42)\<rparr>
          (Diagnostics_Append (get_diags (CreateRequest.Plan (create_request admin_plan))) empty_response),
        ?log1 @ [sent ''GET'' ''/api/v1/domains/?fqdn=example.com'' None,
             sent ''POST'' ''/api/v1/domain-user-permissions/''
               (Some (PermissionPayload \<lparr>DomainUserPermissionCreatePayloadData.UserID = ''7'',
                        Domain = 5, AccessLevel = ''admin''\<rparr>))])"
    by (simp add: UserDomainAccessResource_Create_reached Let_def)
  then show ?thesis
    by (simp add: admin_plan_def ValueString_def permission42_def State_Set_def
        Diagnostics_Append_def create_request_def decoded_def empty_response_def)
qed

end
